(* ===== verification/Prelude.thy ===== *)
theory Prelude
  imports Complex_Main "HOL-Library.Sublist"
begin

text \<open>
  Shared vocabulary of the development: the JavaScript primitives that the
  components of the storefront and the admin console call
  (\<open>String.prototype.toLowerCase\<close>, \<open>String.prototype.includes\<close>, the
  \<open>a?.name || b\<close> fallback idiom), their characteristic lemmas, and the
  named collections the component theories feed their simplification rules
  into.

  Strings are \<^typ>\<open>string\<close>, lists of 8-bit \<^typ>\<open>char\<close>.  A character stands
  for one UTF-16 code unit of the Latin-1 range U+0000..U+00FF; on that range
  \<open>toLowerCase\<close> maps exactly \<open>A\<close>..\<open>Z\<close> and U+00C0..U+00DE except U+00D7 to
  the code unit 32 above, which is what \<open>js_lower_char\<close> does.
\<close>

named_theorems js_simps "evaluation rules of the JavaScript primitives"
named_theorems step_simps "one-step equations of the component state machines"

section \<open>Strings\<close>

definition js_lower_char :: "char \<Rightarrow> char" where
  "js_lower_char c =
     (let n = (of_char c :: nat) in
      if (65 \<le> n \<and> n \<le> 90) \<or> (192 \<le> n \<and> n \<le> 222 \<and> n \<noteq> 215)
      then char_of (n + 32) else c)"

definition js_to_lower :: "string \<Rightarrow> string" where
  "js_to_lower s = map js_lower_char s"

text \<open>\<open>s.includes(t)\<close>: \<open>t\<close> occurs in \<open>s\<close> as a contiguous block.\<close>

primrec js_includes :: "string \<Rightarrow> string \<Rightarrow> bool" where
  "js_includes [] t = (t = [])"
| "js_includes (c # s) t = (prefix t (c # s) \<or> js_includes s t)"

text \<open>\<open>xs.find(p)?.name || d\<close>: the found name unless it is absent or empty.\<close>

definition js_name_or :: "string option \<Rightarrow> string \<Rightarrow> string" where
  "js_name_or n d = (case n of None \<Rightarrow> d | Some x \<Rightarrow> if x = [] then d else x)"

text \<open>A string-valued variable that may be \<open>undefined\<close>: its truth value in a
  condition (\<open>if (x)\<close>, \<open>x && y\<close>), and its text in a template literal.\<close>

definition js_truthy_str :: "string option \<Rightarrow> bool" where
  "js_truthy_str v \<longleftrightarrow> (case v of None \<Rightarrow> False | Some s \<Rightarrow> s \<noteq> [])"

definition js_template :: "string option \<Rightarrow> string" where
  "js_template v = (case v of None \<Rightarrow> ''undefined'' | Some s \<Rightarrow> s)"

text \<open>The header \<open>`Bearer ${token}`\<close> for a token read with
  \<open>localStorage.getItem\<close>, which is \<open>null\<close> when nothing is stored.\<close>

definition js_bearer :: "string option \<Rightarrow> string" where
  "js_bearer tok = ''Bearer '' @ (case tok of None \<Rightarrow> ''null'' | Some t \<Rightarrow> t)"

section \<open>Event loops\<close>

text \<open>A component that reacts to a sequence of events: each step returns the
  new state and the requests it sends; a run concatenates the requests in
  order.  Every state machine of the development is run this way.\<close>

fun run_steps :: "('s \<Rightarrow> 'e \<Rightarrow> 's \<times> 'r list) \<Rightarrow> 's \<Rightarrow> 'e list \<Rightarrow> 's \<times> 'r list" where
  "run_steps f s [] = (s, [])"
| "run_steps f s (e # es) =
     (let (s1, r1) = f s e; (s2, r2) = run_steps f s1 es in (s2, r1 @ r2))"

subsection \<open>Lemmas\<close>

lemma js_includes_sublist [js_simps]: "js_includes s t \<longleftrightarrow> sublist t s"
  by (induction s) (auto simp: sublist_Cons_right)

lemma js_includes_Nil [simp, js_simps]: "js_includes s []"
  by (simp add: js_includes_sublist)

lemma js_includes_trans:
  "js_includes s t \<Longrightarrow> js_includes t u \<Longrightarrow> js_includes s u"
  by (auto simp: js_includes_sublist intro: sublist_order.order_trans)

lemma length_js_to_lower [simp]: "length (js_to_lower s) = length s"
  by (simp add: js_to_lower_def)

lemma js_to_lower_Nil [simp, js_simps]: "js_to_lower [] = []"
  by (simp add: js_to_lower_def)

lemma js_to_lower_Cons [simp, js_simps]:
  "js_to_lower (c # s) = js_lower_char c # js_to_lower s"
  by (simp add: js_to_lower_def)

lemma js_to_lower_append [simp]:
  "js_to_lower (s @ t) = js_to_lower s @ js_to_lower t"
  by (simp add: js_to_lower_def)

lemma js_to_lower_empty_iff [simp]: "js_to_lower s = [] \<longleftrightarrow> s = []"
  by (simp add: js_to_lower_def)

lemma js_name_or_simps [simp, js_simps]:
  "js_name_or None d = d"
  "js_name_or (Some x) d = (if x = [] then d else x)"
  by (simp_all add: js_name_or_def)

lemma js_name_or_nonempty: "d \<noteq> [] \<Longrightarrow> js_name_or n d \<noteq> []"
  by (cases n) auto

lemma js_name_or_cases: "js_name_or n d = d \<or> (\<exists>x. n = Some x \<and> x \<noteq> [] \<and> js_name_or n d = x)"
  by (cases n) auto

lemma js_truthy_str_simps [simp, js_simps]:
  "\<not> js_truthy_str None" "js_truthy_str (Some s) \<longleftrightarrow> s \<noteq> []"
  by (simp_all add: js_truthy_str_def)

lemma js_template_simps [simp, js_simps]:
  "js_template None = ''undefined''" "js_template (Some s) = s"
  by (simp_all add: js_template_def)

lemma js_lower_char_idem [simp]: "js_lower_char (js_lower_char c) = js_lower_char c"
  by (auto simp: js_lower_char_def Let_def)

lemma js_to_lower_idem [simp]: "js_to_lower (js_to_lower s) = js_to_lower s"
  by (simp add: js_to_lower_def)

lemma js_to_lower_sublist: "sublist t t' \<Longrightarrow> sublist (js_to_lower t) (js_to_lower t')"
  by (simp add: js_to_lower_def map_mono_sublist)

section \<open>Lists\<close>

lemma subseq_filter_mono: "(\<And>x. P x \<Longrightarrow> Q x) \<Longrightarrow> subseq (filter P xs) (filter Q xs)"
  by (induction xs) auto

lemma find_None_all: "(\<forall>x\<in>set xs. \<not> P x) \<Longrightarrow> find P xs = None"
  by (induction xs) auto

lemma run_steps_Cons [simp, step_simps]:
  "run_steps f s (e # es) =
     (fst (run_steps f (fst (f s e)) es), snd (f s e) @ snd (run_steps f (fst (f s e)) es))"
  by (simp add: split_def Let_def)

declare run_steps.simps(2) [simp del]

lemma run_steps_append:
  "run_steps f s (es @ es') =
     (fst (run_steps f (fst (run_steps f s es)) es'),
      snd (run_steps f s es) @ snd (run_steps f (fst (run_steps f s es)) es'))"
  by (induction es arbitrary: s) auto

text \<open>An invariant that every step keeps holds after every run.\<close>

lemma run_steps_inv:
  assumes "\<And>s e. I s \<Longrightarrow> I (fst (f s e))" and "I s"
  shows "I (fst (run_steps f s es))"
  using assms(2)
proof (induction es arbitrary: s)
  case Nil
  then show ?case by simp
next
  case (Cons e es)
  then show ?case using assms(1) by simp
qed

end
