(* ===== verification/Catalog.thy ===== *)
theory Catalog
  imports Prelude
begin

text \<open>
  The catalog entities as the admin tabs receive them from the backend, and the
  pure functions the tabs derive their views with: the search filters of
  \<open>CategoriesTab.jsx\<close>, \<open>SubcategoriesTab.jsx\<close> and \<open>ProductsTab.jsx\<close>, the
  name lookups \<open>getCategoryName\<close> and \<open>getSubcategoryName\<close>, and the
  subcategory options of the product form.

  A JSON object becomes a record.  The fields every object has (\<open>id\<close>,
  \<open>name\<close>, \<open>slug\<close>, \<open>isActive\<close>) form the record \<open>entity\<close>; a category
  extends it, a subcategory extends a category by its parent's
  \<open>categorySlug\<close>, a product extends \<open>entity\<close> by its own fields.  A field the
  code reads through a fallback (\<open>category.description || ""\<close>,
  \<open>category.isActive ?? true\<close>) may be absent in the backend's JSON, and is an
  \<^typ>\<open>'a option\<close>.  The filters are polymorphic in the record extension, so one
  lemma serves categories and subcategories alike.
\<close>

section \<open>Entities\<close>

record entity =
  id :: string
  name :: string
  slug :: string
  isActive :: "bool option"

record category = entity +
  description :: "string option"
  image :: "string option"
  sortOrder :: "int option"

record subcategory = category +
  categorySlug :: string

record pricing =
  basePrice :: rat
  discountedPrice :: rat
  couponApplicable :: bool
  couponList :: "string list"

record details =
  metal :: string
  metalPurity :: string
  stone :: string
  stoneType :: string
  weight :: rat
  stoneWeight :: rat
  metalWeight :: rat
  size :: string
  color :: string
  clarity :: string
  certification :: string

record inventory =
  stock :: int
  inStock :: bool

record product = entity +
  categorySlug :: string
  subCategorySlug :: "string option"
  sku :: string
  pricing :: "pricing option"
  details :: "details option"
  images :: "string list option"
  tags :: "string list option"
  inventory :: "inventory option"

section \<open>Search filters\<close>

text \<open>\<open>field.toLowerCase().includes(searchTerm.toLowerCase())\<close>.\<close>

definition search_match :: "string \<Rightarrow> string \<Rightarrow> bool" where
  "search_match searchTerm field \<longleftrightarrow> js_includes (js_to_lower field) (js_to_lower searchTerm)"

text \<open>\<open>CategoriesTab\<close>: the effect that recomputes \<open>filteredCategories\<close>.\<close>

definition filteredCategories :: "string \<Rightarrow> 'a entity_scheme list \<Rightarrow> 'a entity_scheme list" where
  "filteredCategories searchTerm categories =
     filter (\<lambda>cat. search_match searchTerm (name cat) \<or> search_match searchTerm (slug cat)) categories"

text \<open>\<open>SubcategoriesTab\<close>: the derived constant \<open>filteredSubcategories\<close>.\<close>

definition filteredSubcategories :: "string \<Rightarrow> 'a entity_scheme list \<Rightarrow> 'a entity_scheme list" where
  "filteredSubcategories searchTerm subcategories =
     filter (\<lambda>s. search_match searchTerm (name s) \<or> search_match searchTerm (slug s)) subcategories"

text \<open>\<open>ProductsTab\<close>: the derived constant \<open>filteredProducts\<close>, by name or SKU.\<close>

definition filteredProducts :: "string \<Rightarrow> 'a product_scheme list \<Rightarrow> 'a product_scheme list" where
  "filteredProducts searchTerm products =
     filter (\<lambda>p. search_match searchTerm (name p) \<or> search_match searchTerm (sku p)) products"

section \<open>Name lookups\<close>

text \<open>\<open>categories.find(c => c.slug === slug)?.name || slug\<close>.\<close>

definition getCategoryName :: "'a entity_scheme list \<Rightarrow> string \<Rightarrow> string" where
  "getCategoryName categories s = js_name_or (map_option name (find (\<lambda>c. slug c = s) categories)) s"

definition getSubcategoryName :: "'a entity_scheme list \<Rightarrow> string \<Rightarrow> string" where
  "getSubcategoryName subcategories s = js_name_or (map_option name (find (\<lambda>c. slug c = s) subcategories)) s"

section \<open>Subcategory options of the product form\<close>

text \<open>
  The effect of \<open>ProductsTab\<close> on \<open>[formData.categorySlug, subcategories]\<close>:
  the subcategories of the selected category, or none while no category is
  selected (the empty string is falsy).
\<close>

definition subcategoryOptions :: "string \<Rightarrow> 'a subcategory_scheme list \<Rightarrow> 'a subcategory_scheme list" where
  "subcategoryOptions selected subcategories =
     (if selected \<noteq> [] then filter (\<lambda>sub. subcategory.categorySlug sub = selected) subcategories
      else [])"

section \<open>Lemmas\<close>

lemma search_match_sublist: "search_match t f \<longleftrightarrow> sublist (js_to_lower t) (js_to_lower f)"
  by (simp add: search_match_def js_includes_sublist)

lemma search_match_Nil [simp]: "search_match [] f"
  by (simp add: search_match_def)

lemma search_match_lower [simp]: "search_match (js_to_lower t) f = search_match t f"
  by (simp add: search_match_def)

lemma search_match_narrow: "sublist t t' \<Longrightarrow> search_match t' f \<Longrightarrow> search_match t f"
  by (auto simp: search_match_sublist dest: js_to_lower_sublist intro: sublist_order.order_trans)

lemmas search_defs = filteredCategories_def filteredSubcategories_def filteredProducts_def

subsection \<open>Search\<close>

text \<open>The product search keeps the backend's order and returns exactly the
  products whose name or SKU contains the search term, ignoring case.\<close>

theorem filteredProducts_spec:
  "subseq (filteredProducts t ps) ps \<and>
   (p \<in> set (filteredProducts t ps) \<longleftrightarrow>
      p \<in> set ps \<and> (sublist (js_to_lower t) (js_to_lower (name p)) \<or>
                    sublist (js_to_lower t) (js_to_lower (sku p))))"
  by (auto simp: filteredProducts_def search_match_sublist)

text \<open>Typing more of a search term never adds results: when the old term
  occurs in the new one, the new result list is a subsequence of the old.\<close>

theorem filteredCategories_narrow:
  "sublist t t' \<Longrightarrow> subseq (filteredCategories t' cs) (filteredCategories t cs)"
  unfolding filteredCategories_def
  by (rule subseq_filter_mono) (blast dest: search_match_narrow)

text \<open>With an empty search term every tab lists its whole collection.\<close>

theorem search_empty_term:
  "filteredCategories [] cs = cs \<and> filteredSubcategories [] ss = ss \<and> filteredProducts [] ps = ps"
  by (simp add: search_defs)

text \<open>The search of every tab ignores the case of the search term.\<close>

theorem search_case_insensitive:
  "filteredCategories (js_to_lower t) cs = filteredCategories t cs \<and>
   filteredSubcategories (js_to_lower t) ss = filteredSubcategories t ss \<and>
   filteredProducts (js_to_lower t) ps = filteredProducts t ps"
  by (simp add: search_defs)

subsection \<open>Name lookups\<close>

text \<open>A slug that no category has (a dangling reference) is displayed as the
  slug itself; the lookup never fails.\<close>

theorem getCategoryName_dangling:
  "(\<forall>c\<in>set cs. slug c \<noteq> s) \<Longrightarrow> getCategoryName cs s = s"
  by (simp add: getCategoryName_def find_None_all)

text \<open>The displayed category label is never blank for a non-empty slug, even
  when the matching category has an empty name.\<close>

theorem getCategoryName_nonblank:
  "s \<noteq> [] \<Longrightarrow> getCategoryName cs s \<noteq> []"
  by (auto simp: getCategoryName_def js_name_or_def split: option.splits)

subsection \<open>Subcategory options\<close>

text \<open>The subcategory options of the product form are exactly the
  subcategories whose parent is the selected category, in the backend's order,
  and there are none while no category is selected.\<close>

theorem subcategoryOptions_spec:
  "subseq (subcategoryOptions c subs) subs \<and>
   (sub \<in> set (subcategoryOptions c subs) \<longleftrightarrow>
      c \<noteq> [] \<and> sub \<in> set subs \<and> subcategory.categorySlug sub = c)"
  by (auto simp: subcategoryOptions_def)

text \<open>The options are not ordered by \<open>sortOrder\<close>: a subcategory with sort
  order 2 that the backend lists first is offered before one with sort order 1.\<close>

theorem subcategoryOptions_backend_order:
  "map sortOrder (subcategoryOptions ''rings''
     [\<lparr>id = ''s2'', name = ''Bands'', slug = ''bands'', isActive = Some True,
       description = None, image = None, sortOrder = Some 2, subcategory.categorySlug = ''rings''\<rparr>,
      \<lparr>id = ''s1'', name = ''Solitaire'', slug = ''solitaire'', isActive = Some True,
       description = None, image = None, sortOrder = Some 1, subcategory.categorySlug = ''rings''\<rparr>])
   = [Some 2, Some 1]"
  by (simp add: subcategoryOptions_def)

subsection \<open>Witnesses\<close>

theorem filteredCategories_narrow_witness:
  "sublist ''ri'' ''ring'' \<and>
   subseq (filteredCategories ''ring''
            [\<lparr>id = ''c1'', name = ''Rings'', slug = ''rings'', isActive = Some True\<rparr>])
          (filteredCategories ''ri''
            [\<lparr>id = ''c1'', name = ''Rings'', slug = ''rings'', isActive = Some True\<rparr>])"
proof -
  have h: "sublist ''ri'' ''ring''" by code_simp
  with filteredCategories_narrow[OF h] show ?thesis by blast
qed

theorem getCategoryName_dangling_witness:
  "slug \<lparr>id = ''c1'', name = ''Rings'', slug = ''rings'', isActive = Some True\<rparr> \<noteq> ''chains'' \<and>
   getCategoryName [\<lparr>id = ''c1'', name = ''Rings'', slug = ''rings'', isActive = Some True\<rparr>] ''chains'' = ''chains''"
  using getCategoryName_dangling[of "[\<lparr>id = ''c1'', name = ''Rings'', slug = ''rings'', isActive = Some True\<rparr>]" "''chains''"]
  by simp

theorem getCategoryName_nonblank_witness:
  "''rings'' \<noteq> [] \<and>
   getCategoryName [\<lparr>id = ''c1'', name = [], slug = ''rings'', isActive = Some True\<rparr>] ''rings'' \<noteq> []"
  using getCategoryName_nonblank[of "''rings''" "[\<lparr>id = ''c1'', name = [], slug = ''rings'', isActive = Some True\<rparr>]"]
  by simp

end
