(* ===== verification/Slug.thy ===== *)
theory Slug
  imports Prelude
begin

text \<open>
  The slug generator of the three admin tabs.  Each of
  \<open>src/src/components/admin/CategoriesTab.jsx\<close>, \<open>SubcategoriesTab.jsx\<close> and
  \<open>ProductsTab.jsx\<close> defines the same arrow function
  \<^verbatim>\<open>name.toLowerCase().replace(/[^a-z0-9]+/g, "-").replace(/(^-|-$)/g, "")\<close>
  as \<open>generateSlug\<close>.  It is modelled as the composition of its three stages:
  \<open>js_to_lower\<close>, \<open>collapse_runs\<close> (the first, global replacement of every
  maximal run of characters outside \<open>[a-z0-9]\<close> by one hyphen) and
  \<open>strip_edge_hyphens\<close> (the second replacement, which deletes a hyphen at the
  start and a hyphen at the end).  A reference definition says what a slug
  is: the alphanumeric words of the lower-cased name joined by hyphens
  (\<open>hyphen_join\<close> of \<open>alnum_words\<close>).
\<close>

section \<open>The generator\<close>

definition is_slug_char :: "char \<Rightarrow> bool" where
  "is_slug_char c \<longleftrightarrow>
     (let n = (of_char c :: nat) in (97 \<le> n \<and> n \<le> 122) \<or> (48 \<le> n \<and> n \<le> 57))"

function collapse_runs :: "string \<Rightarrow> string" where
  "collapse_runs [] = []"
| "collapse_runs (c # cs) =
     (if is_slug_char c then c # collapse_runs cs
      else CHR ''-'' # collapse_runs (dropWhile (\<lambda>x. \<not> is_slug_char x) cs))"
  by pat_completeness auto
termination
  by (relation "measure length") (auto simp: le_imp_less_Suc length_dropWhile_le)

definition strip_edge_hyphens :: "string \<Rightarrow> string" where
  "strip_edge_hyphens t =
     (let u = (if t \<noteq> [] \<and> hd t = CHR ''-'' then tl t else t)
      in if u \<noteq> [] \<and> last u = CHR ''-'' then butlast u else u)"

definition generateSlug :: "string \<Rightarrow> string" where
  "generateSlug name = strip_edge_hyphens (collapse_runs (js_to_lower name))"

section \<open>Reference definition\<close>

function alnum_words :: "string \<Rightarrow> string list" where
  "alnum_words s =
     (let r = dropWhile (\<lambda>c. \<not> is_slug_char c) s in
      if r = [] then []
      else takeWhile is_slug_char r # alnum_words (dropWhile is_slug_char r))"
  by pat_completeness auto
termination
proof (relation "measure length")
  fix s r
  assume r: "r = dropWhile (\<lambda>c. \<not> is_slug_char c) s" and ne: "r \<noteq> []"
  from r ne have "is_slug_char (hd r)"
    by (metis (mono_tags, lifting) hd_dropWhile)
  with ne have "length (dropWhile is_slug_char r) < length r"
    by (cases r) (auto simp: le_imp_less_Suc length_dropWhile_le)
  also from r have "length r \<le> length s"
    by (simp add: length_dropWhile_le)
  finally show "(dropWhile is_slug_char r, s) \<in> measure length"
    by simp
qed simp

fun hyphen_join :: "string list \<Rightarrow> string" where
  "hyphen_join [] = []"
| "hyphen_join [w] = w"
| "hyphen_join (w # ws) = w @ CHR ''-'' # hyphen_join ws"

definition valid_slug :: "string \<Rightarrow> bool" where
  "valid_slug s \<longleftrightarrow>
     list_all (\<lambda>c. is_slug_char c \<or> c = CHR ''-'') s \<and>
     (s = [] \<or> (hd s \<noteq> CHR ''-'' \<and> last s \<noteq> CHR ''-'')) \<and>
     \<not> sublist ''--'' s"

definition lead_sep :: "string \<Rightarrow> bool" where
  "lead_sep s \<longleftrightarrow> s \<noteq> [] \<and> \<not> is_slug_char (hd s)"

definition trail_sep :: "string \<Rightarrow> bool" where
  "trail_sep s \<longleftrightarrow> s \<noteq> [] \<and> \<not> is_slug_char (last s)"

section \<open>Lemmas on the stages\<close>

declare alnum_words.simps [simp del]

lemma hyphen_not_slug_char [simp]: "\<not> is_slug_char CHR ''-''"
  by (simp add: is_slug_char_def)
lemma sublist_dd_Cons:
  "sublist ''--'' (c # s) \<longleftrightarrow> (c = CHR ''-'' \<and> s \<noteq> [] \<and> hd s = CHR ''-'') \<or> sublist ''--'' s"
  by (cases s) (auto simp: sublist_Cons_right)
lemma collapse_runs_chars:
  "list_all (\<lambda>c. is_slug_char c \<or> c = CHR ''-'') (collapse_runs s)"
  by (induction s rule: collapse_runs.induct) auto

lemma collapse_runs_Nil_iff [simp]: "collapse_runs s = [] \<longleftrightarrow> s = []"
  by (cases s) simp_all
lemma collapse_runs_hd:
  "s \<noteq> [] \<Longrightarrow> is_slug_char (hd s) \<Longrightarrow> hd (collapse_runs s) = hd s"
  by (cases s) simp_all
lemma hd_dropWhile_not_slug:
  "dropWhile (\<lambda>x. \<not> is_slug_char x) cs \<noteq> [] \<Longrightarrow> is_slug_char (hd (dropWhile (\<lambda>x. \<not> is_slug_char x) cs))"
  by (metis (mono_tags, lifting) hd_dropWhile)
lemma collapse_runs_no_double: "\<not> sublist ''--'' (collapse_runs s)"
proof (induction s rule: collapse_runs.induct)
  case 1
  then show ?case by simp
next
  case (2 c cs)
  let ?r = "dropWhile (\<lambda>x. \<not> is_slug_char x) cs"
  show ?case
  proof (cases "is_slug_char c")
    case True
    have "c \<noteq> CHR ''-''" using True by auto
    with True "2.IH"(1) show ?thesis
      by (simp add: sublist_dd_Cons)
  next
    case False
    have "?r = [] \<or> hd (collapse_runs ?r) \<noteq> CHR ''-''"
      using collapse_runs_hd hd_dropWhile_not_slug by (metis hyphen_not_slug_char)
    with False "2.IH"(2) show ?thesis
      by (simp add: sublist_dd_Cons)
  qed
qed
lemma js_lower_char_slug: "is_slug_char c \<or> c = CHR ''-'' \<Longrightarrow> js_lower_char c = c"
  by (auto simp: is_slug_char_def js_lower_char_def Let_def)

lemma no_double_after_lead: "\<not> sublist ''--'' t \<Longrightarrow> t \<noteq> [] \<Longrightarrow> hd t = CHR ''-'' \<Longrightarrow> tl t = [] \<or> hd (tl t) \<noteq> CHR ''-''"
  by (cases t; cases "tl t") (auto simp: sublist_dd_Cons)

lemma no_double_before_trail:
  assumes "\<not> sublist ''--'' u" "u \<noteq> []" "last u = CHR ''-''"
  shows "butlast u = [] \<or> last (butlast u) \<noteq> CHR ''-''"
proof (cases u rule: rev_cases)
  case Nil
  with assms show ?thesis by simp
next
  case (snoc v x)
  show ?thesis
  proof (cases v rule: rev_cases)
    case Nil
    with snoc show ?thesis by simp
  next
    case (snoc w y)
    have "sublist ''--'' (w @ [y, x]) \<or> y \<noteq> CHR ''-'' \<or> x \<noteq> CHR ''-''"
      by (auto intro: sublist_appendI)
    with assms \<open>u = v @ [x]\<close> snoc show ?thesis by (simp add: butlast_append)
  qed
qed

lemma strip_edge_hyphens_valid:
  assumes ok: "list_all (\<lambda>c. is_slug_char c \<or> c = CHR ''-'') t"
    and nd: "\<not> sublist ''--'' t"
  shows "valid_slug (strip_edge_hyphens t)"
proof -
  define u where "u = (if t \<noteq> [] \<and> hd t = CHR ''-'' then tl t else t)"
  have u_ok: "list_all (\<lambda>c. is_slug_char c \<or> c = CHR ''-'') u"
    using ok by (auto simp: u_def list_all_iff dest: list.set_sel(2))
  have u_nd: "\<not> sublist ''--'' u"
    using nd by (auto simp: u_def dest: sublist_order.order_trans[OF _ sublist_tl])
  have u_hd: "u = [] \<or> hd u \<noteq> CHR ''-''"
    using no_double_after_lead[OF nd] by (auto simp: u_def)
  define v where "v = (if u \<noteq> [] \<and> last u = CHR ''-'' then butlast u else u)"
  have v_ok: "list_all (\<lambda>c. is_slug_char c \<or> c = CHR ''-'') v"
    using u_ok by (auto simp: v_def list_all_iff dest: in_set_butlastD)
  have v_nd: "\<not> sublist ''--'' v"
    using u_nd by (auto simp: v_def dest: sublist_order.order_trans[OF _ sublist_butlast])
  have v_edges: "v = [] \<or> (hd v \<noteq> CHR ''-'' \<and> last v \<noteq> CHR ''-'')"
  proof (cases "u \<noteq> [] \<and> last u = CHR ''-''")
    case True
    then have "v = butlast u" by (simp add: v_def)
    moreover have "butlast u = [] \<or> last (butlast u) \<noteq> CHR ''-''"
      using True no_double_before_trail[OF u_nd] by simp
    moreover have "butlast u \<noteq> [] \<Longrightarrow> hd (butlast u) = hd u"
      by (cases u) auto
    ultimately show ?thesis using u_hd by auto
  next
    case False
    then show ?thesis using u_hd by (auto simp: v_def)
  qed
  have "strip_edge_hyphens t = v"
    by (simp add: strip_edge_hyphens_def u_def v_def Let_def)
  with v_ok v_nd v_edges show ?thesis
    by (simp add: valid_slug_def)
qed

lemma strip_collapse_valid: "valid_slug (strip_edge_hyphens (collapse_runs s))"
  by (rule strip_edge_hyphens_valid[OF collapse_runs_chars collapse_runs_no_double])

lemma collapse_runs_valid:
  "list_all (\<lambda>c. is_slug_char c \<or> c = CHR ''-'') s \<Longrightarrow> \<not> sublist ''--'' s \<Longrightarrow> collapse_runs s = s"
proof (induction s rule: collapse_runs.induct)
  case 1
  then show ?case by simp
next
  case (2 c cs)
  have cs: "list_all (\<lambda>c. is_slug_char c \<or> c = CHR ''-'') cs" "\<not> sublist ''--'' cs"
    using "2.prems" by (auto simp: sublist_dd_Cons)
  show ?case
  proof (cases "is_slug_char c")
    case True
    with "2.IH"(1) cs show ?thesis by simp
  next
    case False
    then have "c = CHR ''-''" using "2.prems" by simp
    with "2.prems" have "cs = [] \<or> is_slug_char (hd cs)"
      by (cases cs) (auto simp: sublist_dd_Cons)
    then have "dropWhile (\<lambda>x. \<not> is_slug_char x) cs = cs"
      by (cases cs) auto
    with False "2.IH"(2) cs \<open>c = CHR ''-''\<close> show ?thesis by simp
  qed
qed

lemma js_to_lower_valid: "list_all (\<lambda>c. is_slug_char c \<or> c = CHR ''-'') s \<Longrightarrow> js_to_lower s = s"
  by (induction s) (simp_all add: js_lower_char_slug)

lemma strip_edge_hyphens_id: "s = [] \<or> (hd s \<noteq> CHR ''-'' \<and> last s \<noteq> CHR ''-'') \<Longrightarrow> strip_edge_hyphens s = s"
  by (auto simp: strip_edge_hyphens_def)

lemma valid_slug_fixpoint: "valid_slug s \<Longrightarrow> generateSlug s = s"
  by (simp add: valid_slug_def generateSlug_def js_to_lower_valid collapse_runs_valid strip_edge_hyphens_id)


lemma alnum_words_unfold:
  "alnum_words s =
     (if dropWhile (\<lambda>c. \<not> is_slug_char c) s = [] then []
      else takeWhile is_slug_char (dropWhile (\<lambda>c. \<not> is_slug_char c) s) #
           alnum_words (dropWhile is_slug_char (dropWhile (\<lambda>c. \<not> is_slug_char c) s)))"
  by (simp add: alnum_words.simps[of s] Let_def)

lemma alnum_words_Nil_iff: "alnum_words s = [] \<longleftrightarrow> list_all (\<lambda>c. \<not> is_slug_char c) s"
  by (subst alnum_words_unfold) (simp add: list_all_iff)

lemma alnum_words_Nil [simp]: "alnum_words [] = []"
  by (simp add: alnum_words_unfold)

lemma alnum_words_words: "w \<in> set (alnum_words s) \<Longrightarrow> w \<noteq> [] \<and> list_all is_slug_char w"
proof (induction s rule: alnum_words.induct)
  case (1 s)
  define r where "r = dropWhile (\<lambda>c. \<not> is_slug_char c) s"
  show ?case
  proof (cases "r = []")
    case True
    with "1.prems" show ?thesis by (simp add: alnum_words_unfold[of s] r_def)
  next
    case False
    then have "is_slug_char (hd r)" unfolding r_def by (rule hd_dropWhile_not_slug)
    with False have ne: "takeWhile is_slug_char r \<noteq> []" by (cases r) auto
    have sl: "list_all is_slug_char (takeWhile is_slug_char r)"
      by (auto simp: list_all_iff dest: set_takeWhileD)
    have eq: "alnum_words s = takeWhile is_slug_char r # alnum_words (dropWhile is_slug_char r)"
      using False unfolding r_def by (subst alnum_words_unfold) simp
    from "1.prems" eq have "w = takeWhile is_slug_char r \<or> w \<in> set (alnum_words (dropWhile is_slug_char r))"
      by simp
    then show ?thesis
      using ne sl "1.IH"[OF refl] False by (auto simp: r_def)
  qed
qed

lemma collapse_runs_slug_prefix:
  "list_all is_slug_char w \<Longrightarrow> collapse_runs (w @ r) = w @ collapse_runs r"
  by (induction w) auto

lemma collapse_runs_sep_prefix:
  assumes "p \<noteq> []" "list_all (\<lambda>c. \<not> is_slug_char c) p" "r = [] \<or> is_slug_char (hd r)"
  shows "collapse_runs (p @ r) = CHR ''-'' # collapse_runs r"
proof (cases p)
  case Nil
  with assms show ?thesis by simp
next
  case (Cons c p')
  have "dropWhile (\<lambda>x. \<not> is_slug_char x) (p' @ r) = dropWhile (\<lambda>x. \<not> is_slug_char x) r"
    using assms Cons by (simp add: dropWhile_append2 list_all_iff)
  also have "\<dots> = r" using assms(3) by (cases r) auto
  finally show ?thesis using assms Cons by simp
qed

lemma hyphen_join_Cons:
  "hyphen_join (w # ws) = w @ (if ws = [] then [] else CHR ''-'' # hyphen_join ws)"
  by (cases ws) auto

lemma lead_trail_sep_Nil [simp]: "\<not> lead_sep []" "\<not> trail_sep []"
  by (simp_all add: lead_sep_def trail_sep_def)

lemma collapse_runs_words:
  "collapse_runs s =
     (if lead_sep s then ''-'' else []) @ hyphen_join (alnum_words s) @
     (if alnum_words s \<noteq> [] \<and> trail_sep s then ''-'' else [])"
proof (induction s rule: alnum_words.induct)
  case (1 s)
  define p where "p = takeWhile (\<lambda>c. \<not> is_slug_char c) s"
  define r where "r = dropWhile (\<lambda>c. \<not> is_slug_char c) s"
  have s: "s = p @ r" by (simp add: p_def r_def)
  have p_sep: "list_all (\<lambda>c. \<not> is_slug_char c) p"
    by (auto simp: p_def list_all_iff dest: set_takeWhileD)
  show ?case
  proof (cases "r = []")
    case True
    then have "alnum_words s = []" by (simp add: alnum_words_unfold[of s] r_def)
    moreover have "collapse_runs s = (if s = [] then [] else ''-'')"
      using collapse_runs_sep_prefix[OF _ p_sep, of r] True s by auto
    moreover have "lead_sep s \<longleftrightarrow> s \<noteq> []"
      using p_sep True s by (cases p) (auto simp: lead_sep_def)
    ultimately show ?thesis by simp
  next
    case False
    define w where "w = takeWhile is_slug_char r"
    define r' where "r' = dropWhile is_slug_char r"
    have r: "r = w @ r'" by (simp add: w_def r'_def)
    have hr: "is_slug_char (hd r)" using False by (simp add: r_def hd_dropWhile_not_slug)
    have w_slug: "list_all is_slug_char w"
      by (auto simp: w_def list_all_iff dest: set_takeWhileD)
    have w_ne: "w \<noteq> []" using False hr by (cases r) (auto simp: w_def)
    have words: "alnum_words s = w # alnum_words r'"
      using False by (simp add: alnum_words_unfold[of s] r_def w_def r'_def)
    have IH: "collapse_runs r' =
       (if lead_sep r' then ''-'' else []) @ hyphen_join (alnum_words r') @
       (if alnum_words r' \<noteq> [] \<and> trail_sep r' then ''-'' else [])"
      using "1.IH"[OF refl] False by (simp add: r_def r'_def)
    have lead_r': "lead_sep r' \<longleftrightarrow> r' \<noteq> []"
      using hd_dropWhile[of is_slug_char r] by (auto simp: lead_sep_def r'_def)
    have coll: "collapse_runs s = (if p = [] then [] else ''-'') @ w @ collapse_runs r'"
      using collapse_runs_sep_prefix[OF _ p_sep, of r] hr False s r
        collapse_runs_slug_prefix[OF w_slug, of r'] by auto
    have lead_s: "lead_sep s \<longleftrightarrow> p \<noteq> []"
      using p_sep hr s by (cases p) (auto simp: lead_sep_def)
    have trail_s: "trail_sep s \<longleftrightarrow> trail_sep r'"
      using w_ne w_slug s r by (cases r' rule: rev_cases) (auto simp: trail_sep_def list_all_iff)
    have r'_sep: "r' \<noteq> [] \<Longrightarrow> alnum_words r' = [] \<Longrightarrow> trail_sep r'"
      by (cases r' rule: rev_cases) (auto simp: alnum_words_Nil_iff trail_sep_def)
    show ?thesis
      using coll IH lead_r' lead_s trail_s r'_sep words
      by (auto simp: hyphen_join_Cons)
  qed
qed


lemma hyphen_join_edges:
  assumes "\<forall>w\<in>set ws. w \<noteq> [] \<and> list_all is_slug_char w" "ws \<noteq> []"
  shows "hyphen_join ws \<noteq> [] \<and> is_slug_char (hd (hyphen_join ws)) \<and> is_slug_char (last (hyphen_join ws))"
  using assms
proof (induction ws rule: hyphen_join.induct)
  case (2 w)
  then show ?case by (cases w) (auto simp: list_all_iff)
next
  case (3 w v vs)
  then show ?case by (cases w) (auto simp: list_all_iff)
qed simp

lemma strip_edge_hyphens_framed:
  assumes "x \<noteq> []" "is_slug_char (hd x)" "is_slug_char (last x)"
  shows "strip_edge_hyphens ((if a then ''-'' else []) @ x @ (if b then ''-'' else [])) = x"
proof -
  have "hd x \<noteq> CHR ''-''" "last x \<noteq> CHR ''-''"
    using assms by (metis hyphen_not_slug_char)+
  with assms(1) show ?thesis
    by (cases a; cases b) (auto simp: strip_edge_hyphens_def butlast_append)
qed

lemma strip_collapse_words:
  "strip_edge_hyphens (collapse_runs s) = hyphen_join (alnum_words s)"
proof (cases "alnum_words s = []")
  case True
  then show ?thesis
    by (simp add: collapse_runs_words[of s] strip_edge_hyphens_def)
next
  case False
  have "hyphen_join (alnum_words s) \<noteq> [] \<and> is_slug_char (hd (hyphen_join (alnum_words s))) \<and>
        is_slug_char (last (hyphen_join (alnum_words s)))"
    using hyphen_join_edges[OF _ False] alnum_words_words by blast
  then show ?thesis
    unfolding collapse_runs_words[of s]
    using strip_edge_hyphens_framed by blast
qed

lemma hyphen_join_Nil_iff: "\<forall>w\<in>set ws. w \<noteq> [] \<Longrightarrow> hyphen_join ws = [] \<longleftrightarrow> ws = []"
  by (induction ws rule: hyphen_join.induct) auto

section \<open>Properties of the generator\<close>

text \<open>C1. Every generated slug is well formed: it consists of \<open>[a-z0-9-]\<close> only,
  neither starts nor ends with a hyphen, and never has two hyphens in a row.\<close>

theorem valid_slug_generateSlug: "valid_slug (generateSlug n)"
  unfolding generateSlug_def by (rule strip_collapse_valid)

text \<open>C2. The regular-expression pipeline computes the reference definition:
  the slug is the list of maximal \<open>[a-z0-9]\<close> words of the lower-cased name,
  in order, joined by single hyphens.\<close>

theorem generateSlug_words: "generateSlug n = hyphen_join (alnum_words (js_to_lower n))"
  unfolding generateSlug_def by (rule strip_collapse_words)

text \<open>Slug generation is idempotent: a generated slug, typed again as a name,
  yields itself.\<close>

theorem generateSlug_idem: "generateSlug (generateSlug n) = generateSlug n"
  by (rule valid_slug_fixpoint[OF strip_collapse_valid[of "js_to_lower n", folded generateSlug_def]])

text \<open>The generated slug is empty exactly when the lower-cased name has no
  character in \<open>[a-z0-9]\<close>; the admin forms then keep their submit control
  disabled.\<close>

theorem generateSlug_empty_iff:
  "generateSlug n = [] \<longleftrightarrow> list_all (\<lambda>c. \<not> is_slug_char c) (js_to_lower n)"
  using alnum_words_words
  by (simp add: generateSlug_def strip_collapse_words hyphen_join_Nil_iff alnum_words_Nil_iff)

subsection \<open>Witnesses\<close>

lemma generateSlug_example: "generateSlug ''Men's Rings & Bands!'' = ''men-s-rings-bands''"
  by code_simp

theorem valid_slug_generateSlug_witness:
  "generateSlug ''Men's Rings & Bands!'' = ''men-s-rings-bands'' \<and> valid_slug ''men-s-rings-bands''"
  using valid_slug_generateSlug[of "''Men's Rings & Bands!''"] generateSlug_example by simp

theorem generateSlug_empty_iff_witness:
  "generateSlug ''!!!'' = [] \<and> list_all (\<lambda>c. \<not> is_slug_char c) (js_to_lower ''!!!'')"
proof -
  have "list_all (\<lambda>c. \<not> is_slug_char c) (js_to_lower ''!!!'')"
    by code_simp
  with generateSlug_empty_iff[of "''!!!''"] show ?thesis by simp
qed

end
