(* ===== verification/AdminApi.thy ===== *)
theory AdminApi
  imports Prelude
begin

text \<open>
  The REST clients of the admin console and of \<open>src/src/lib/api.js\<close> and
  \<open>src/src/utils/api.js\<close>: a backend answer is a value of
  \<open>'a http_response\<close> (a success carrying the decoded JSON, an HTTP error with
  status, status text and error body, or a network failure of \<open>fetch\<close>), and
  \<open>handleResponse\<close> turns it into \<open>string + 'a\<close>, \<open>Inl\<close> being the message of
  the \<open>Error\<close> it throws.  The requests a component issues are values of
  \<open>'f request\<close>; a component's state keeps its in-flight requests as a list of
  \<open>pending\<close> entries, and a response event names the entry it resolves, so
  that responses may arrive in any order.
\<close>

section \<open>Responses\<close>

text \<open>The body of an error response: not JSON at all, or JSON whose \<open>error\<close>
  field is given or absent.\<close>

datatype error_body = BodyUnparsable | BodyJson "string option"

datatype 'a http_response =
    HttpOk 'a
  | HttpError nat string error_body
  | NetworkError string

fun digit_char :: "nat \<Rightarrow> char" where
  "digit_char d = char_of (48 + d)"

text \<open>Decimal rendering of the status code in the template literal.\<close>

fun nat_str :: "nat \<Rightarrow> string" where
  "nat_str n = (if n < 10 then [digit_char n] else nat_str (n div 10) @ [digit_char (n mod 10)])"

text \<open>A JavaScript integer turned into text (\<open>String(n)\<close>, a template literal or
  \<open>join\<close>).\<close>

definition int_str :: "int \<Rightarrow> string" where
  "int_str i = (if i < 0 then ''-'' @ nat_str (nat (- i)) else nat_str (nat i))"

text \<open>\<open>handleResponse\<close> of \<open>CategoriesTab.jsx\<close> (the same function is repeated in
  \<open>SubcategoriesTab.jsx\<close>, \<open>ProductsTab.jsx\<close> and \<open>lib/api.js\<close>): a body that
  is not JSON reads as \<open>{error: 'Request failed'}\<close>, and an empty or absent
  \<open>error\<close> falls back to \<open>HTTP status: statusText\<close>.  A rejected \<open>fetch\<close>
  propagates its own message.\<close>

fun handleResponse :: "'a http_response \<Rightarrow> string + 'a" where
  "handleResponse (HttpOk v) = Inr v"
| "handleResponse (HttpError status statusText body) =
     (let e = (case body of BodyUnparsable \<Rightarrow> Some ''Request failed'' | BodyJson f \<Rightarrow> f) in
      Inl (js_name_or e (''HTTP '' @ nat_str status @ '': '' @ statusText)))"
| "handleResponse (NetworkError m) = Inl m"

text \<open>\<open>handleResponse\<close> of \<open>utils/api.js\<close>: an unparsable body reads as \<open>{}\<close>
  and the fallback message omits the status text.\<close>

fun handleResponse_utils :: "'a http_response \<Rightarrow> string + 'a" where
  "handleResponse_utils (HttpOk v) = Inr v"
| "handleResponse_utils (HttpError status statusText body) =
     (let e = (case body of BodyUnparsable \<Rightarrow> None | BodyJson f \<Rightarrow> f) in
      Inl (js_name_or e (''HTTP '' @ nat_str status)))"
| "handleResponse_utils (NetworkError m) = Inl m"

text \<open>\<open>authFetch\<close> of \<open>utils/api.js\<close>: without a stored admin token it throws
  before any request is made; otherwise the request goes out with the bearer
  header and its answer passes through \<open>handleResponse\<close>.\<close>

definition authFetch :: "string option \<Rightarrow> 'a http_response \<Rightarrow> string + 'a" where
  "authFetch token resp =
     (case token of
        None \<Rightarrow> Inl ''No authentication token found. Please login.''
      | Some t \<Rightarrow> if t = [] then Inl ''No authentication token found. Please login.''
                  else handleResponse_utils resp)"

section \<open>Requests and in-flight bookkeeping\<close>

datatype collection = Categories | Subcategories | Products

datatype 'f request =
    GetAll collection
  | Create 'f
  | Update string 'f
  | Delete string

text \<open>What the continuation after an \<open>await\<close> will do: finish a submission
  (remembering whether it was an update), finish a deletion, or store fetched
  data.\<close>

datatype pending = PSubmit bool | PDelete | PFetch

definition remove_nth :: "nat \<Rightarrow> 'a list \<Rightarrow> 'a list" where
  "remove_nth k xs = take k xs @ drop (Suc k) xs"

datatype variant = Success | Destructive

record toast =
  title :: string
  toast_description :: string
  variant :: variant

section \<open>Lemmas\<close>

declare nat_str.simps [simp del]

lemma nat_str_nonempty [simp]: "nat_str n \<noteq> []"
  by (subst nat_str.simps) simp

lemma handleResponse_Inr: "handleResponse r = Inr v \<longleftrightarrow> r = HttpOk v"
  by (cases r) (auto simp: Let_def)

lemma handleResponse_message_nonempty: "handleResponse r = Inl m \<Longrightarrow> m \<noteq> [] \<or> (\<exists>m'. r = NetworkError m')"
  by (cases r) (auto simp: Let_def js_name_or_nonempty)

lemma length_remove_nth [simp]: "k < length xs \<Longrightarrow> length (remove_nth k xs) = length xs - 1"
  by (simp add: remove_nth_def)

lemma set_remove_nth: "set (remove_nth k xs) \<subseteq> set xs"
  by (auto simp: remove_nth_def dest: in_set_takeD in_set_dropD)

end
