(* ===== verification/CategoriesTab.thy ===== *)
theory CategoriesTab
  imports Catalog Slug AdminApi
begin

text \<open>
  The admin tab \<open>src/src/components/admin/CategoriesTab.jsx\<close> as a state
  machine.  Its React state (\<open>useState\<close> hooks) is the record
  \<open>categoriesTab\<close>, with the in-flight requests added as \<open>pendingReqs\<close>; a
  user action or a backend answer is a \<open>categoryEvent\<close>; \<open>categoriesTab_step\<close>
  runs the handler of one event and returns the new state and the requests it
  sends.  An \<open>await\<close> splits a handler in two: the part before it issues the
  request and records a \<open>pending\<close> entry, the part after it runs when a
  response event names that entry.  Controls that the page does not render in
  a state (the inputs and the submit button of a closed modal) have no effect
  there.  \<open>filteredCategories\<close>, which the code keeps in state and recomputes in
  an effect on every change of \<open>categories\<close> or \<open>searchTerm\<close>, is the
  derived view \<open>visibleCategories\<close>.
\<close>

section \<open>State, events and handlers\<close>

record categoryForm =
  name :: string
  slug :: string
  description :: string
  image :: string
  sortOrder :: int
  isActive :: bool

definition emptyCategoryForm :: categoryForm where
  "emptyCategoryForm =
     \<lparr>name = [], slug = [], description = [], image = [], sortOrder = 0, isActive = True\<rparr>"

record categoriesTab =
  categories :: "category list"
  loading :: bool
  showModal :: bool
  editingCategory :: "category option"
  searchTerm :: string
  toast :: "toast option"
  formData :: categoryForm
  pendingReqs :: "pending list"

text \<open>The state after the first render and the mount effect, which calls
  \<open>fetchCategories\<close>.\<close>

definition categoriesTab_init :: categoriesTab where
  "categoriesTab_init =
     \<lparr>categories = [], loading = True, showModal = False, editingCategory = None,
      searchTerm = [], toast = None, formData = emptyCategoryForm, pendingReqs = [PFetch]\<rparr>"

datatype categoryEvent =
    ClickAdd
  | ClickEdit category
  | ClickDelete string bool
  | CloseModal
  | InputName string
  | InputSlug string
  | InputDescription string
  | InputImage string
  | InputSortOrder "int option"
  | InputActive bool
  | ClickSubmit
  | SearchInput string
  | MutationResponse nat "unit http_response"
  | FetchResponse nat "category list http_response"
  | ToastTimeout

type_synonym categoryStep = "categoriesTab \<times> categoryForm request list"

definition showToast :: "string \<Rightarrow> string \<Rightarrow> variant \<Rightarrow> categoriesTab \<Rightarrow> categoriesTab" where
  "showToast t d v s = s\<lparr>toast := Some \<lparr>title = t, toast_description = d, variant = v\<rparr>\<rparr>"

definition fetchCategories :: "categoriesTab \<Rightarrow> categoryStep" where
  "fetchCategories s = (s\<lparr>loading := True, pendingReqs := pendingReqs s @ [PFetch]\<rparr>, [GetAll Categories])"

definition handleCloseModal :: "categoriesTab \<Rightarrow> categoriesTab" where
  "handleCloseModal s = s\<lparr>showModal := False, formData := emptyCategoryForm, editingCategory := None\<rparr>"

text \<open>\<open>handleEdit\<close>: the form is prefilled through the code's fallbacks.\<close>

definition formOfCategory :: "category \<Rightarrow> categoryForm" where
  "formOfCategory c =
     \<lparr>name = entity.name c, slug = entity.slug c,
      description = (case category.description c of None \<Rightarrow> [] | Some d \<Rightarrow> d),
      image = (case category.image c of None \<Rightarrow> [] | Some i \<Rightarrow> i),
      sortOrder = (case category.sortOrder c of None \<Rightarrow> 0 | Some n \<Rightarrow> n),
      isActive = (case entity.isActive c of None \<Rightarrow> True | Some b \<Rightarrow> b)\<rparr>"

definition handleEdit :: "category \<Rightarrow> categoriesTab \<Rightarrow> categoriesTab" where
  "handleEdit c s = s\<lparr>editingCategory := Some c, formData := formOfCategory c, showModal := True\<rparr>"

text \<open>The \<open>onChange\<close> of the name input: the slug follows the name only while
  a new category is being created.\<close>

definition inputName :: "string \<Rightarrow> categoriesTab \<Rightarrow> categoriesTab" where
  "inputName n s =
     s\<lparr>formData := (formData s)\<lparr>name := n,
        slug := (if editingCategory s \<noteq> None then slug (formData s) else generateSlug n)\<rparr>\<rparr>"

text \<open>\<open>handleSubmit\<close> up to its \<open>await\<close>: the guard, then the request.\<close>

definition handleSubmit :: "categoriesTab \<Rightarrow> categoryStep" where
  "handleSubmit s =
     (if name (formData s) = [] \<or> slug (formData s) = [] then (s, [])
      else (s\<lparr>pendingReqs := pendingReqs s @ [PSubmit (editingCategory s \<noteq> None)]\<rparr>,
            [case editingCategory s of
               Some c \<Rightarrow> Update (entity.id c) (formData s)
             | None \<Rightarrow> Create (formData s)]))"

text \<open>\<open>handleDelete\<close> up to its \<open>await\<close>: nothing without confirmation.\<close>

definition handleDelete :: "string \<Rightarrow> bool \<Rightarrow> categoriesTab \<Rightarrow> categoryStep" where
  "handleDelete i confirmed s =
     (if \<not> confirmed then (s, [])
      else (s\<lparr>pendingReqs := pendingReqs s @ [PDelete]\<rparr>, [Delete i]))"

text \<open>The continuations after the \<open>await\<close> of \<open>handleSubmit\<close> and
  \<open>handleDelete\<close>, once the entry has left \<open>pendingReqs\<close>.\<close>

definition submitDone :: "bool \<Rightarrow> string + unit \<Rightarrow> categoriesTab \<Rightarrow> categoryStep" where
  "submitDone upd r s =
     (case r of
        Inr _ \<Rightarrow> fetchCategories (handleCloseModal (showToast ''Success''
                   (if upd then ''Category updated successfully'' else ''Category created successfully'')
                   Success s))
      | Inl m \<Rightarrow> (showToast ''Error'' m Destructive s, []))"

definition deleteDone :: "string + unit \<Rightarrow> categoriesTab \<Rightarrow> categoryStep" where
  "deleteDone r s =
     (case r of
        Inr _ \<Rightarrow> fetchCategories (showToast ''Success'' ''Category deleted successfully'' Success s)
      | Inl m \<Rightarrow> (showToast ''Error'' m Destructive s, []))"

text \<open>\<open>fetchCategories\<close> after its \<open>await\<close>: store the data or show the error,
  and clear the loading flag in both cases.\<close>

definition fetchDone :: "string + category list \<Rightarrow> categoriesTab \<Rightarrow> categoriesTab" where
  "fetchDone r s =
     (case r of
        Inr data \<Rightarrow> s\<lparr>categories := data\<rparr>
      | Inl m \<Rightarrow> showToast ''Error'' m Destructive s)\<lparr>loading := False\<rparr>"

definition whenModal :: "(categoriesTab \<Rightarrow> categoriesTab) \<Rightarrow> categoriesTab \<Rightarrow> categoryStep" where
  "whenModal f s = (if showModal s then (f s, []) else (s, []))"

fun categoriesTab_step :: "categoriesTab \<Rightarrow> categoryEvent \<Rightarrow> categoryStep" where
  "categoriesTab_step s ClickAdd = (s\<lparr>showModal := True\<rparr>, [])"
| "categoriesTab_step s (ClickEdit c) = (handleEdit c s, [])"
| "categoriesTab_step s (ClickDelete i ok) = handleDelete i ok s"
| "categoriesTab_step s CloseModal = (handleCloseModal s, [])"
| "categoriesTab_step s (InputName n) = whenModal (inputName n) s"
| "categoriesTab_step s (InputSlug v) =
     whenModal (\<lambda>s. s\<lparr>formData := (formData s)\<lparr>slug := v\<rparr>\<rparr>) s"
| "categoriesTab_step s (InputDescription v) =
     whenModal (\<lambda>s. s\<lparr>formData := (formData s)\<lparr>description := v\<rparr>\<rparr>) s"
| "categoriesTab_step s (InputImage v) =
     whenModal (\<lambda>s. s\<lparr>formData := (formData s)\<lparr>image := v\<rparr>\<rparr>) s"
| "categoriesTab_step s (InputSortOrder v) =
     whenModal (\<lambda>s. s\<lparr>formData := (formData s)\<lparr>sortOrder := (case v of None \<Rightarrow> 0 | Some n \<Rightarrow> n)\<rparr>\<rparr>) s"
| "categoriesTab_step s (InputActive b) =
     whenModal (\<lambda>s. s\<lparr>formData := (formData s)\<lparr>isActive := b\<rparr>\<rparr>) s"
| "categoriesTab_step s ClickSubmit = (if showModal s then handleSubmit s else (s, []))"
| "categoriesTab_step s (SearchInput t) = (s\<lparr>searchTerm := t\<rparr>, [])"
| "categoriesTab_step s (MutationResponse k r) =
     (if k < length (pendingReqs s) then
        (let s' = s\<lparr>pendingReqs := remove_nth k (pendingReqs s)\<rparr> in
         case pendingReqs s ! k of
           PSubmit upd \<Rightarrow> submitDone upd (handleResponse r) s'
         | PDelete \<Rightarrow> deleteDone (handleResponse r) s'
         | PFetch \<Rightarrow> (s, []))
      else (s, []))"
| "categoriesTab_step s (FetchResponse k r) =
     (if k < length (pendingReqs s) \<and> pendingReqs s ! k = PFetch
      then (fetchDone (handleResponse r) (s\<lparr>pendingReqs := remove_nth k (pendingReqs s)\<rparr>), [])
      else (s, []))"
| "categoriesTab_step s ToastTimeout = (s\<lparr>toast := None\<rparr>, [])"

abbreviation categoriesTab_run :: "categoriesTab \<Rightarrow> categoryEvent list \<Rightarrow> categoryStep" where
  "categoriesTab_run \<equiv> run_steps categoriesTab_step"

definition visibleCategories :: "categoriesTab \<Rightarrow> category list" where
  "visibleCategories s = filteredCategories (searchTerm s) (categories s)"

definition modal_inv :: "categoriesTab \<Rightarrow> bool" where
  "modal_inv s \<longleftrightarrow> showModal s \<or> (editingCategory s = None \<and> formData s = emptyCategoryForm)"

section \<open>Lemmas\<close>

lemmas categoriesTab_defs = showToast_def fetchCategories_def handleCloseModal_def handleEdit_def
  inputName_def handleSubmit_def handleDelete_def submitDone_def deleteDone_def fetchDone_def whenModal_def

lemma modal_inv_step: "modal_inv s \<Longrightarrow> modal_inv (fst (categoriesTab_step s e))"
proof (cases e)
  case (MutationResponse k r)
  assume "modal_inv s"
  then show ?thesis using MutationResponse
    by (auto simp: modal_inv_def categoriesTab_defs Let_def split: pending.splits sum.splits)
next
  case (FetchResponse k r)
  assume "modal_inv s"
  then show ?thesis using FetchResponse
    by (auto simp: modal_inv_def categoriesTab_defs split: sum.splits)
qed (auto simp: modal_inv_def categoriesTab_defs)

lemma modal_inv_run: "modal_inv s \<Longrightarrow> modal_inv (fst (categoriesTab_run s es))"
  by (rule run_steps_inv[where I = modal_inv, OF modal_inv_step])

section \<open>Properties\<close>

text \<open>C3. In every state reachable from the mounted tab, a closed modal holds
  no record being edited and an empty form: closing discards all edits and no
  handler leaves a half-filled form behind.\<close>

theorem categoriesTab_modal_inv: "modal_inv (fst (categoriesTab_run categoriesTab_init es))"
  by (rule modal_inv_run) (simp add: modal_inv_def categoriesTab_init_def)

text \<open>C4. Typing a name while creating a category regenerates the slug from it;
  while editing one, the slug stays as it is.\<close>

theorem categoriesTab_name_slug_sync:
  "showModal s \<Longrightarrow>
   formData (fst (categoriesTab_step s (InputName n))) =
     (formData s)\<lparr>name := n, slug := (if editingCategory s = None then generateSlug n else slug (formData s))\<rparr>"
  by (simp add: categoriesTab_defs)

text \<open>C5. Clicking submit sends exactly one request, a create or an update of the
  record being edited, when the modal is open and name and slug are non-empty,
  and no request otherwise.\<close>

theorem categoriesTab_submit_requests:
  "snd (categoriesTab_step s ClickSubmit) =
     (if showModal s \<and> name (formData s) \<noteq> [] \<and> slug (formData s) \<noteq> []
      then [case editingCategory s of None \<Rightarrow> Create (formData s) | Some c \<Rightarrow> Update (entity.id c) (formData s)]
      else [])"
  by (simp add: categoriesTab_defs)

text \<open>A submission with an empty name or slug changes nothing at all.\<close>

theorem categoriesTab_submit_blocked:
  "name (formData s) = [] \<or> slug (formData s) = [] \<Longrightarrow> categoriesTab_step s ClickSubmit = (s, [])"
  by (auto simp: categoriesTab_defs)

text \<open>C8. When a submission succeeds, the modal closes, the form is reset, a
  success toast is shown and the category list is fetched again.\<close>

theorem categoriesTab_submit_success:
  "k < length (pendingReqs s) \<Longrightarrow> pendingReqs s ! k = PSubmit upd \<Longrightarrow>
   (let (t, rs) = categoriesTab_step s (MutationResponse k (HttpOk ())) in
      \<not> showModal t \<and> editingCategory t = None \<and> formData t = emptyCategoryForm \<and>
      loading t \<and> rs = [GetAll Categories] \<and> categories t = categories s \<and>
      map_option variant (toast t) = Some Success)"
  by (simp add: categoriesTab_defs)

text \<open>When a submission fails, the modal, the record being edited and the
  entered values stay as they were, nothing is sent, and the error message is
  shown in a destructive toast.\<close>

theorem categoriesTab_submit_failure:
  "k < length (pendingReqs s) \<Longrightarrow> pendingReqs s ! k = PSubmit upd \<Longrightarrow> handleResponse r = Inl m \<Longrightarrow>
   (let (t, rs) = categoriesTab_step s (MutationResponse k r) in
      showModal t = showModal s \<and> editingCategory t = editingCategory s \<and> formData t = formData s \<and>
      rs = [] \<and> toast t = Some \<lparr>title = ''Error'', toast_description = m, variant = Destructive\<rparr>)"
  by (simp add: categoriesTab_defs)

text \<open>A delete request is sent only after the user confirms; a declined
  confirmation leaves the state unchanged.\<close>

theorem categoriesTab_delete_confirm:
  "categoriesTab_step s (ClickDelete i ok) =
     (if ok then (s\<lparr>pendingReqs := pendingReqs s @ [PDelete]\<rparr>, [Delete i]) else (s, []))"
  by (simp add: categoriesTab_defs)

text \<open>The scenario of the specification: typing the name "Gold Chains" into a
  new category fills in the slug "gold-chains"; after the slug is edited by hand
  to "gold-chain", the create request carries the hand-edited slug.\<close>

theorem categoriesTab_gold_chains:
  "formData (fst (categoriesTab_run categoriesTab_init [ClickAdd, InputName ''Gold Chains''])) =
     emptyCategoryForm\<lparr>name := ''Gold Chains'', slug := ''gold-chains''\<rparr> \<and>
   snd (categoriesTab_run categoriesTab_init [ClickAdd, InputName ''Gold Chains'', InputSlug ''gold-chain'', ClickSubmit]) =
     [Create (emptyCategoryForm\<lparr>name := ''Gold Chains'', slug := ''gold-chain''\<rparr>)]"
  by code_simp

text \<open>The submit button stays enabled while a submission is in flight: two
  clicks on it send two identical create requests.\<close>

theorem categoriesTab_double_submit:
  "showModal s \<Longrightarrow> name (formData s) \<noteq> [] \<Longrightarrow> slug (formData s) \<noteq> [] \<Longrightarrow> editingCategory s = None \<Longrightarrow>
   snd (categoriesTab_run s [ClickSubmit, ClickSubmit]) = [Create (formData s), Create (formData s)]"
  by (simp add: categoriesTab_defs)


subsection \<open>Witnesses\<close>

theorem categoriesTab_name_slug_sync_witness:
  "showModal (categoriesTab_init\<lparr>showModal := True\<rparr>) \<and>
   formData (fst (categoriesTab_step (categoriesTab_init\<lparr>showModal := True\<rparr>) (InputName ''Gold Chains''))) =
     emptyCategoryForm\<lparr>name := ''Gold Chains'', slug := ''gold-chains''\<rparr>"
proof -
  have g: "generateSlug ''Gold Chains'' = ''gold-chains''" by code_simp
  show ?thesis
    using categoriesTab_name_slug_sync[of "categoriesTab_init\<lparr>showModal := True\<rparr>" "''Gold Chains''"] g
    by (simp add: categoriesTab_init_def emptyCategoryForm_def)
qed

theorem categoriesTab_submit_blocked_witness:
  "(name (formData (categoriesTab_init\<lparr>showModal := True\<rparr>)) = [] \<or>
    slug (formData (categoriesTab_init\<lparr>showModal := True\<rparr>)) = []) \<and>
   categoriesTab_step (categoriesTab_init\<lparr>showModal := True\<rparr>) ClickSubmit = (categoriesTab_init\<lparr>showModal := True\<rparr>, [])"
proof -
  have h: "name (formData (categoriesTab_init\<lparr>showModal := True\<rparr>)) = [] \<or>
           slug (formData (categoriesTab_init\<lparr>showModal := True\<rparr>)) = []"
    by (simp add: categoriesTab_init_def emptyCategoryForm_def)
  with categoriesTab_submit_blocked[OF h] show ?thesis by blast
qed

theorem categoriesTab_submit_success_witness:
  "0 < length (pendingReqs (categoriesTab_init\<lparr>pendingReqs := [PSubmit False]\<rparr>)) \<and>
   pendingReqs (categoriesTab_init\<lparr>pendingReqs := [PSubmit False]\<rparr>) ! 0 = PSubmit False \<and>
   snd (categoriesTab_step (categoriesTab_init\<lparr>pendingReqs := [PSubmit False]\<rparr>) (MutationResponse 0 (HttpOk ()))) = [GetAll Categories]"
  using categoriesTab_submit_success[of 0 "categoriesTab_init\<lparr>pendingReqs := [PSubmit False]\<rparr>" False]
  by (simp add: split_def Let_def)

theorem categoriesTab_submit_failure_witness:
  "0 < length (pendingReqs (categoriesTab_init\<lparr>pendingReqs := [PSubmit True]\<rparr>)) \<and>
   pendingReqs (categoriesTab_init\<lparr>pendingReqs := [PSubmit True]\<rparr>) ! 0 = PSubmit True \<and>
   handleResponse (HttpError 409 ''Conflict'' (BodyJson (Some ''Slug already exists'')) :: unit http_response)
     = Inl ''Slug already exists'' \<and>
   toast (fst (categoriesTab_step (categoriesTab_init\<lparr>pendingReqs := [PSubmit True]\<rparr>)
     (MutationResponse 0 (HttpError 409 ''Conflict'' (BodyJson (Some ''Slug already exists''))))))
     = Some \<lparr>title = ''Error'', toast_description = ''Slug already exists'', variant = Destructive\<rparr>"
proof -
  have h: "handleResponse (HttpError 409 ''Conflict'' (BodyJson (Some ''Slug already exists'')) :: unit http_response)
             = Inl ''Slug already exists''"
    by simp
  show ?thesis
    using categoriesTab_submit_failure[of 0 "categoriesTab_init\<lparr>pendingReqs := [PSubmit True]\<rparr>" True _ "''Slug already exists''", OF _ _ h] h
    by (simp add: split_def Let_def)
qed

theorem categoriesTab_double_submit_witness:
  "showModal (categoriesTab_init\<lparr>showModal := True, formData := emptyCategoryForm\<lparr>name := ''Rings'', slug := ''rings''\<rparr>\<rparr>) \<and>
   snd (categoriesTab_run (categoriesTab_init\<lparr>showModal := True, formData := emptyCategoryForm\<lparr>name := ''Rings'', slug := ''rings''\<rparr>\<rparr>)
          [ClickSubmit, ClickSubmit]) =
     [Create (emptyCategoryForm\<lparr>name := ''Rings'', slug := ''rings''\<rparr>), Create (emptyCategoryForm\<lparr>name := ''Rings'', slug := ''rings''\<rparr>)]"
  using categoriesTab_double_submit[of "categoriesTab_init\<lparr>showModal := True, formData := emptyCategoryForm\<lparr>name := ''Rings'', slug := ''rings''\<rparr>\<rparr>"]
  by (simp add: categoriesTab_init_def)

end
