(* ===== verification/SubcategoriesTab.thy ===== *)
theory SubcategoriesTab
  imports Catalog Slug AdminApi
begin

text \<open>
  The admin tab \<open>src/src/components/admin/SubcategoriesTab.jsx\<close>
  (\<open>SubcategoryManager\<close>) as a state machine, built like \<open>CategoriesTab\<close>:
  the record \<open>subcategoriesTab\<close> holds its hooks and its in-flight requests,
  \<open>subcategoriesTab_step\<close> runs one handler.  It differs from the category tab
  in three ways the model keeps: the form has a parent-category select and
  its submit guard also requires \<open>categorySlug\<close>; \<open>fetchData\<close> loads
  subcategories and categories together with \<open>Promise.all\<close>, so one response
  event carries both answers and either failure discards both; and a failed
  request is only logged with \<open>console.error\<close>, so it changes no state the
  user sees.
  The handlers keep the names of the source, prefixed with \<open>sub_\<close> to
  tell them from the handlers of the same name in \<open>CategoriesTab\<close>.
\<close>

section \<open>State, events and handlers\<close>

record subcategoryForm =
  categorySlug :: string
  name :: string
  slug :: string
  description :: string
  image :: string
  sortOrder :: int
  isActive :: bool

definition emptySubcategoryForm :: subcategoryForm where
  "emptySubcategoryForm =
     \<lparr>categorySlug = [], name = [], slug = [], description = [], image = [], sortOrder = 0,
      isActive = True\<rparr>"

record subcategoriesTab =
  subcategories :: "subcategory list"
  categories :: "category list"
  loading :: bool
  showModal :: bool
  editingSubcategory :: "subcategory option"
  searchTerm :: string
  formData :: subcategoryForm
  pendingReqs :: "pending list"

definition subcategoriesTab_init :: subcategoriesTab where
  "subcategoriesTab_init =
     \<lparr>subcategories = [], categories = [], loading = True, showModal = False,
      editingSubcategory = None, searchTerm = [], formData = emptySubcategoryForm,
      pendingReqs = [PFetch]\<rparr>"

datatype subcategoryEvent =
    ClickAdd
  | ClickEdit subcategory
  | ClickDelete string bool
  | CloseModal
  | SelectCategory string
  | InputName string
  | InputSlug string
  | InputDescription string
  | InputImage string
  | InputSortOrder "int option"
  | InputActive bool
  | ClickSubmit
  | SearchInput string
  | MutationResponse nat "unit http_response"
  | FetchResponse nat "subcategory list http_response" "category list http_response"

type_synonym subcategoryStep = "subcategoriesTab \<times> subcategoryForm request list"

definition sub_fetchData :: "subcategoriesTab \<Rightarrow> subcategoryStep" where
  "sub_fetchData s =
     (s\<lparr>loading := True, pendingReqs := pendingReqs s @ [PFetch]\<rparr>,
      [GetAll Subcategories, GetAll Categories])"

definition sub_handleCloseModal :: "subcategoriesTab \<Rightarrow> subcategoriesTab" where
  "sub_handleCloseModal s =
     s\<lparr>showModal := False, editingSubcategory := None, formData := emptySubcategoryForm\<rparr>"

definition formOfSubcategory :: "subcategory \<Rightarrow> subcategoryForm" where
  "formOfSubcategory c =
     \<lparr>categorySlug = subcategory.categorySlug c, name = entity.name c, slug = entity.slug c,
      description = (case category.description c of None \<Rightarrow> [] | Some d \<Rightarrow> d),
      image = (case category.image c of None \<Rightarrow> [] | Some i \<Rightarrow> i),
      sortOrder = (case category.sortOrder c of None \<Rightarrow> 0 | Some n \<Rightarrow> n),
      isActive = (case entity.isActive c of None \<Rightarrow> True | Some b \<Rightarrow> b)\<rparr>"

definition sub_handleEdit :: "subcategory \<Rightarrow> subcategoriesTab \<Rightarrow> subcategoriesTab" where
  "sub_handleEdit c s = s\<lparr>editingSubcategory := Some c, formData := formOfSubcategory c, showModal := True\<rparr>"

definition sub_inputName :: "string \<Rightarrow> subcategoriesTab \<Rightarrow> subcategoriesTab" where
  "sub_inputName n s =
     s\<lparr>formData := (formData s)\<lparr>name := n,
        slug := (if editingSubcategory s \<noteq> None then slug (formData s) else generateSlug n)\<rparr>\<rparr>"

definition sub_handleSubmit :: "subcategoriesTab \<Rightarrow> subcategoryStep" where
  "sub_handleSubmit s =
     (if categorySlug (formData s) = [] \<or> name (formData s) = [] \<or> slug (formData s) = [] then (s, [])
      else (s\<lparr>pendingReqs := pendingReqs s @ [PSubmit (editingSubcategory s \<noteq> None)]\<rparr>,
            [case editingSubcategory s of
               Some c \<Rightarrow> Update (entity.id c) (formData s)
             | None \<Rightarrow> Create (formData s)]))"

definition sub_handleDelete :: "string \<Rightarrow> bool \<Rightarrow> subcategoriesTab \<Rightarrow> subcategoryStep" where
  "sub_handleDelete i confirmed s =
     (if \<not> confirmed then (s, [])
      else (s\<lparr>pendingReqs := pendingReqs s @ [PDelete]\<rparr>, [Delete i]))"

text \<open>After the \<open>await\<close> of \<open>handleSubmit\<close>: \<open>fetchData(); handleCloseModal()\<close>
  on success, \<open>console.error\<close> on failure.\<close>

definition sub_submitDone :: "string + unit \<Rightarrow> subcategoriesTab \<Rightarrow> subcategoryStep" where
  "sub_submitDone r s =
     (case r of
        Inr _ \<Rightarrow> (let (t, rs) = sub_fetchData s in (sub_handleCloseModal t, rs))
      | Inl _ \<Rightarrow> (s, []))"

definition sub_deleteDone :: "string + unit \<Rightarrow> subcategoriesTab \<Rightarrow> subcategoryStep" where
  "sub_deleteDone r s = (case r of Inr _ \<Rightarrow> sub_fetchData s | Inl _ \<Rightarrow> (s, []))"

text \<open>After the \<open>await Promise.all\<close> of \<open>fetchData\<close>: both collections are
  stored only when both requests succeeded.\<close>

definition sub_fetchDone :: "string + subcategory list \<Rightarrow> string + category list \<Rightarrow> subcategoriesTab \<Rightarrow> subcategoriesTab" where
  "sub_fetchDone rs rc s =
     (case (rs, rc) of
        (Inr subs, Inr cats) \<Rightarrow> s\<lparr>subcategories := subs, categories := cats\<rparr>
      | _ \<Rightarrow> s)\<lparr>loading := False\<rparr>"

definition sub_whenModal :: "(subcategoriesTab \<Rightarrow> subcategoriesTab) \<Rightarrow> subcategoriesTab \<Rightarrow> subcategoryStep" where
  "sub_whenModal f s = (if showModal s then (f s, []) else (s, []))"

fun subcategoriesTab_step :: "subcategoriesTab \<Rightarrow> subcategoryEvent \<Rightarrow> subcategoryStep" where
  "subcategoriesTab_step s ClickAdd = (s\<lparr>showModal := True\<rparr>, [])"
| "subcategoriesTab_step s (ClickEdit c) = (sub_handleEdit c s, [])"
| "subcategoriesTab_step s (ClickDelete i ok) = sub_handleDelete i ok s"
| "subcategoriesTab_step s CloseModal = (sub_handleCloseModal s, [])"
| "subcategoriesTab_step s (SelectCategory c) =
     sub_whenModal (\<lambda>s. s\<lparr>formData := (formData s)\<lparr>categorySlug := c\<rparr>\<rparr>) s"
| "subcategoriesTab_step s (InputName n) = sub_whenModal (sub_inputName n) s"
| "subcategoriesTab_step s (InputSlug v) =
     sub_whenModal (\<lambda>s. s\<lparr>formData := (formData s)\<lparr>slug := v\<rparr>\<rparr>) s"
| "subcategoriesTab_step s (InputDescription v) =
     sub_whenModal (\<lambda>s. s\<lparr>formData := (formData s)\<lparr>description := v\<rparr>\<rparr>) s"
| "subcategoriesTab_step s (InputImage v) =
     sub_whenModal (\<lambda>s. s\<lparr>formData := (formData s)\<lparr>image := v\<rparr>\<rparr>) s"
| "subcategoriesTab_step s (InputSortOrder v) =
     sub_whenModal (\<lambda>s. s\<lparr>formData := (formData s)\<lparr>sortOrder := (case v of None \<Rightarrow> 0 | Some n \<Rightarrow> n)\<rparr>\<rparr>) s"
| "subcategoriesTab_step s (InputActive b) =
     sub_whenModal (\<lambda>s. s\<lparr>formData := (formData s)\<lparr>isActive := b\<rparr>\<rparr>) s"
| "subcategoriesTab_step s ClickSubmit = (if showModal s then sub_handleSubmit s else (s, []))"
| "subcategoriesTab_step s (SearchInput t) = (s\<lparr>searchTerm := t\<rparr>, [])"
| "subcategoriesTab_step s (MutationResponse k r) =
     (if k < length (pendingReqs s) then
        (let s' = s\<lparr>pendingReqs := remove_nth k (pendingReqs s)\<rparr> in
         case pendingReqs s ! k of
           PSubmit _ \<Rightarrow> sub_submitDone (handleResponse r) s'
         | PDelete \<Rightarrow> sub_deleteDone (handleResponse r) s'
         | PFetch \<Rightarrow> (s, []))
      else (s, []))"
| "subcategoriesTab_step s (FetchResponse k rs rc) =
     (if k < length (pendingReqs s) \<and> pendingReqs s ! k = PFetch
      then (sub_fetchDone (handleResponse rs) (handleResponse rc)
              (s\<lparr>pendingReqs := remove_nth k (pendingReqs s)\<rparr>), [])
      else (s, []))"

abbreviation subcategoriesTab_run :: "subcategoriesTab \<Rightarrow> subcategoryEvent list \<Rightarrow> subcategoryStep" where
  "subcategoriesTab_run \<equiv> run_steps subcategoriesTab_step"

text \<open>The rows the tab shows, and the parent label of each row.\<close>

definition visibleSubcategories :: "subcategoriesTab \<Rightarrow> subcategory list" where
  "visibleSubcategories s = filteredSubcategories (searchTerm s) (subcategories s)"

definition parentLabel :: "subcategoriesTab \<Rightarrow> subcategory \<Rightarrow> string" where
  "parentLabel s sub = getCategoryName (categories s) (subcategory.categorySlug sub)"

definition sub_modal_inv :: "subcategoriesTab \<Rightarrow> bool" where
  "sub_modal_inv s \<longleftrightarrow> showModal s \<or> (editingSubcategory s = None \<and> formData s = emptySubcategoryForm)"

section \<open>Lemmas\<close>

lemmas subcategoriesTab_defs = sub_fetchData_def sub_handleCloseModal_def sub_handleEdit_def sub_inputName_def
  sub_handleSubmit_def sub_handleDelete_def sub_submitDone_def sub_deleteDone_def sub_fetchDone_def sub_whenModal_def

lemma sub_modal_inv_step: "sub_modal_inv s \<Longrightarrow> sub_modal_inv (fst (subcategoriesTab_step s e))"
proof (cases e)
  case (MutationResponse k r)
  assume "sub_modal_inv s"
  then show ?thesis using MutationResponse
    by (auto simp: sub_modal_inv_def subcategoriesTab_defs Let_def split: pending.splits sum.splits)
next
  case (FetchResponse k rs rc)
  assume "sub_modal_inv s"
  then show ?thesis using FetchResponse
    by (auto simp: sub_modal_inv_def subcategoriesTab_defs split: sum.splits)
qed (auto simp: sub_modal_inv_def subcategoriesTab_defs)

lemma sub_modal_inv_init: "sub_modal_inv subcategoriesTab_init"
  unfolding sub_modal_inv_def subcategoriesTab_init_def by simp

section \<open>Properties\<close>

text \<open>In every reachable state of the subcategory tab a closed modal has no
  record being edited and an empty form.\<close>

theorem subcategoriesTab_modal_inv: "sub_modal_inv (fst (subcategoriesTab_run subcategoriesTab_init es))"
  using sub_modal_inv_step sub_modal_inv_init by (rule run_steps_inv)

text \<open>The subcategory form sends a create or update request exactly when the
  modal is open and the parent category, the name and the slug are all
  non-empty.\<close>

theorem subcategoriesTab_submit_requests:
  "snd (subcategoriesTab_step s ClickSubmit) =
     (if showModal s \<and> categorySlug (formData s) \<noteq> [] \<and> name (formData s) \<noteq> [] \<and> slug (formData s) \<noteq> []
      then [case editingSubcategory s of None \<Rightarrow> Create (formData s) | Some c \<Rightarrow> Update (entity.id c) (formData s)]
      else [])"
  by (simp add: subcategoriesTab_defs)

text \<open>A failed submission or deletion changes nothing but the bookkeeping of
  in-flight requests: the form stays open with its values, and no error
  reaches the user (it is only logged).\<close>

theorem subcategoriesTab_failure_silent:
  "k < length (pendingReqs s) \<Longrightarrow> pendingReqs s ! k \<noteq> PFetch \<Longrightarrow> handleResponse r = Inl m \<Longrightarrow>
   subcategoriesTab_step s (MutationResponse k r) = (s\<lparr>pendingReqs := remove_nth k (pendingReqs s)\<rparr>, [])"
  by (cases "pendingReqs s ! k") (simp_all add: subcategoriesTab_defs)

text \<open>A reload stores the fetched subcategories and categories only when both
  requests succeeded; otherwise both lists keep their previous contents.  The
  loading flag is cleared either way.\<close>

theorem subcategoriesTab_fetch_all_or_nothing:
  "k < length (pendingReqs s) \<Longrightarrow> pendingReqs s ! k = PFetch \<Longrightarrow>
   (let t = fst (subcategoriesTab_step s (FetchResponse k rs rc)) in
      \<not> loading t \<and>
      (subcategories t, categories t) =
        (case (handleResponse rs, handleResponse rc) of
           (Inr subs, Inr cats) \<Rightarrow> (subs, cats)
         | _ \<Rightarrow> (subcategories s, categories s)))"
  by (simp add: subcategoriesTab_defs split: sum.splits)

subsection \<open>Witnesses\<close>

theorem subcategoriesTab_failure_silent_witness:
  "0 < length (pendingReqs (subcategoriesTab_init\<lparr>pendingReqs := [PSubmit False]\<rparr>)) \<and>
   pendingReqs (subcategoriesTab_init\<lparr>pendingReqs := [PSubmit False]\<rparr>) ! 0 \<noteq> PFetch \<and>
   handleResponse (NetworkError ''Failed to fetch'' :: unit http_response) = Inl ''Failed to fetch'' \<and>
   subcategoriesTab_step (subcategoriesTab_init\<lparr>pendingReqs := [PSubmit False]\<rparr>)
     (MutationResponse 0 (NetworkError ''Failed to fetch'')) =
   (subcategoriesTab_init\<lparr>pendingReqs := []\<rparr>, [])"
  using subcategoriesTab_failure_silent[of 0 "subcategoriesTab_init\<lparr>pendingReqs := [PSubmit False]\<rparr>"
          "NetworkError ''Failed to fetch''" "''Failed to fetch''"]
  by (simp add: remove_nth_def)

theorem subcategoriesTab_fetch_all_or_nothing_witness:
  "0 < length (pendingReqs subcategoriesTab_init) \<and> pendingReqs subcategoriesTab_init ! 0 = PFetch \<and>
   subcategories (fst (subcategoriesTab_step subcategoriesTab_init
     (FetchResponse 0 (HttpOk []) (NetworkError ''Failed to fetch'')))) = []"
  using subcategoriesTab_fetch_all_or_nothing[of 0 subcategoriesTab_init "HttpOk []" "NetworkError ''Failed to fetch''"]
  by (simp add: subcategoriesTab_init_def Let_def)

end
