(* ===== verification/ProductsTab.thy ===== *)
theory ProductsTab
  imports Catalog Slug AdminApi
begin

text \<open>
  The admin tab \<open>src/src/components/admin/ProductsTab.jsx\<close> as a state
  machine, built like \<open>CategoriesTab\<close> and \<open>SubcategoriesTab\<close>.  Its form
  holds the nested \<open>pricing\<close>, \<open>details\<close> and \<open>inventory\<close> objects of a
  product; the inputs the modal renders are the name (with the slug following
  it while creating), SKU, slug, category and subcategory selects, base price,
  stock, metal and the active flag.  Choosing a category clears the chosen
  subcategory, and the subcategory select is disabled until a category is
  chosen; its options are \<open>subcategoryOptions\<close> of \<open>Catalog\<close>, which the code
  keeps in the state \<open>filteredSubcategories\<close> and recomputes in an effect, and
  which the model derives (\<open>productSubcategoryOptions\<close>).  \<open>fetchData\<close> loads
  products, categories and subcategories with one \<open>Promise.all\<close>; failures
  are only logged.
  The handlers keep the names of the source, prefixed with \<open>prod_\<close> to
  tell them from the handlers of the same name in \<open>CategoriesTab\<close>.
\<close>

section \<open>State, events and handlers\<close>

record productForm =
  name :: string
  slug :: string
  categorySlug :: string
  subCategorySlug :: string
  sku :: string
  pricing :: pricing
  details :: details
  images :: "string list"
  tags :: "string list"
  inventory :: inventory
  isActive :: bool

definition defaultPricing :: pricing where
  "defaultPricing = \<lparr>basePrice = 0, discountedPrice = 0, couponApplicable = True, couponList = []\<rparr>"

definition defaultDetails :: details where
  "defaultDetails =
     \<lparr>metal = [], metalPurity = [], stone = [], stoneType = [], weight = 0, stoneWeight = 0,
      metalWeight = 0, size = [], color = [], clarity = [], certification = []\<rparr>"

definition defaultInventory :: inventory where
  "defaultInventory = \<lparr>stock = 0, inStock = True\<rparr>"

definition emptyProductForm :: productForm where
  "emptyProductForm =
     \<lparr>name = [], slug = [], categorySlug = [], subCategorySlug = [], sku = [],
      pricing = defaultPricing, details = defaultDetails, images = [], tags = [],
      inventory = defaultInventory, isActive = True\<rparr>"

record productsTab =
  products :: "product list"
  categories :: "category list"
  subcategories :: "subcategory list"
  loading :: bool
  showModal :: bool
  editingProduct :: "product option"
  searchTerm :: string
  formData :: productForm
  pendingReqs :: "pending list"

definition productsTab_init :: productsTab where
  "productsTab_init =
     \<lparr>products = [], categories = [], subcategories = [], loading = True, showModal = False,
      editingProduct = None, searchTerm = [], formData = emptyProductForm, pendingReqs = [PFetch]\<rparr>"

datatype productEvent =
    ClickAdd
  | ClickEdit product
  | ClickDelete string bool
  | CloseModal
  | InputName string
  | InputSku string
  | InputSlug string
  | SelectCategory string
  | SelectSubcategory string
  | InputBasePrice "rat option"
  | InputStock "int option"
  | InputMetal string
  | InputActive bool
  | ClickSubmit
  | SearchInput string
  | MutationResponse nat "unit http_response"
  | FetchResponse nat "product list http_response" "category list http_response"
      "subcategory list http_response"

type_synonym productStep = "productsTab \<times> productForm request list"

definition prod_fetchData :: "productsTab \<Rightarrow> productStep" where
  "prod_fetchData s =
     (s\<lparr>loading := True, pendingReqs := pendingReqs s @ [PFetch]\<rparr>,
      [GetAll Products, GetAll Categories, GetAll Subcategories])"

definition prod_handleCloseModal :: "productsTab \<Rightarrow> productsTab" where
  "prod_handleCloseModal s = s\<lparr>showModal := False, editingProduct := None, formData := emptyProductForm\<rparr>"

definition formOfProduct :: "product \<Rightarrow> productForm" where
  "formOfProduct p =
     \<lparr>name = entity.name p, slug = entity.slug p, categorySlug = product.categorySlug p,
      subCategorySlug = (case product.subCategorySlug p of None \<Rightarrow> [] | Some v \<Rightarrow> v),
      sku = product.sku p,
      pricing = (case product.pricing p of None \<Rightarrow> defaultPricing | Some v \<Rightarrow> v),
      details = (case product.details p of None \<Rightarrow> defaultDetails | Some v \<Rightarrow> v),
      images = (case product.images p of None \<Rightarrow> [] | Some v \<Rightarrow> v),
      tags = (case product.tags p of None \<Rightarrow> [] | Some v \<Rightarrow> v),
      inventory = (case product.inventory p of None \<Rightarrow> defaultInventory | Some v \<Rightarrow> v),
      isActive = (case entity.isActive p of None \<Rightarrow> True | Some b \<Rightarrow> b)\<rparr>"

definition prod_handleEdit :: "product \<Rightarrow> productsTab \<Rightarrow> productsTab" where
  "prod_handleEdit p s = s\<lparr>editingProduct := Some p, formData := formOfProduct p, showModal := True\<rparr>"

definition prod_inputName :: "string \<Rightarrow> productsTab \<Rightarrow> productsTab" where
  "prod_inputName n s =
     s\<lparr>formData := (formData s)\<lparr>name := n,
        slug := (if editingProduct s \<noteq> None then slug (formData s) else generateSlug n)\<rparr>\<rparr>"

text \<open>The \<open>onChange\<close> of the category select.\<close>

definition selectCategory :: "string \<Rightarrow> productsTab \<Rightarrow> productsTab" where
  "selectCategory c s = s\<lparr>formData := (formData s)\<lparr>categorySlug := c, subCategorySlug := []\<rparr>\<rparr>"

definition prod_handleSubmit :: "productsTab \<Rightarrow> productStep" where
  "prod_handleSubmit s =
     (if name (formData s) = [] \<or> slug (formData s) = [] \<or> categorySlug (formData s) = [] \<or>
         sku (formData s) = [] then (s, [])
      else (s\<lparr>pendingReqs := pendingReqs s @ [PSubmit (editingProduct s \<noteq> None)]\<rparr>,
            [case editingProduct s of
               Some p \<Rightarrow> Update (entity.id p) (formData s)
             | None \<Rightarrow> Create (formData s)]))"

definition prod_handleDelete :: "string \<Rightarrow> bool \<Rightarrow> productsTab \<Rightarrow> productStep" where
  "prod_handleDelete i confirmed s =
     (if \<not> confirmed then (s, [])
      else (s\<lparr>pendingReqs := pendingReqs s @ [PDelete]\<rparr>, [Delete i]))"

definition prod_submitDone :: "string + unit \<Rightarrow> productsTab \<Rightarrow> productStep" where
  "prod_submitDone r s =
     (case r of
        Inr _ \<Rightarrow> (let (t, rs) = prod_fetchData s in (prod_handleCloseModal t, rs))
      | Inl _ \<Rightarrow> (s, []))"

definition prod_deleteDone :: "string + unit \<Rightarrow> productsTab \<Rightarrow> productStep" where
  "prod_deleteDone r s = (case r of Inr _ \<Rightarrow> prod_fetchData s | Inl _ \<Rightarrow> (s, []))"

definition prod_fetchDone ::
  "string + product list \<Rightarrow> string + category list \<Rightarrow> string + subcategory list \<Rightarrow> productsTab \<Rightarrow> productsTab" where
  "prod_fetchDone rp rc rs s =
     (case (rp, rc, rs) of
        (Inr ps, Inr cats, Inr subs) \<Rightarrow> s\<lparr>products := ps, categories := cats, subcategories := subs\<rparr>
      | _ \<Rightarrow> s)\<lparr>loading := False\<rparr>"

definition prod_whenModal :: "(productsTab \<Rightarrow> productsTab) \<Rightarrow> productsTab \<Rightarrow> productStep" where
  "prod_whenModal f s = (if showModal s then (f s, []) else (s, []))"

definition setForm :: "(productForm \<Rightarrow> productForm) \<Rightarrow> productsTab \<Rightarrow> productStep" where
  "setForm f = prod_whenModal (\<lambda>s. s\<lparr>formData := f (formData s)\<rparr>)"

fun productsTab_step :: "productsTab \<Rightarrow> productEvent \<Rightarrow> productStep" where
  "productsTab_step s ClickAdd = (s\<lparr>showModal := True\<rparr>, [])"
| "productsTab_step s (ClickEdit p) = (prod_handleEdit p s, [])"
| "productsTab_step s (ClickDelete i ok) = prod_handleDelete i ok s"
| "productsTab_step s CloseModal = (prod_handleCloseModal s, [])"
| "productsTab_step s (InputName n) = prod_whenModal (prod_inputName n) s"
| "productsTab_step s (InputSku v) = setForm (\<lambda>f. f\<lparr>sku := v\<rparr>) s"
| "productsTab_step s (InputSlug v) = setForm (\<lambda>f. f\<lparr>slug := v\<rparr>) s"
| "productsTab_step s (SelectCategory c) = prod_whenModal (selectCategory c) s"
| "productsTab_step s (SelectSubcategory v) =
     (if categorySlug (formData s) \<noteq> [] then setForm (\<lambda>f. f\<lparr>subCategorySlug := v\<rparr>) s else (s, []))"
| "productsTab_step s (InputBasePrice v) =
     setForm (\<lambda>f. f\<lparr>pricing := (pricing f)\<lparr>basePrice := (case v of None \<Rightarrow> 0 | Some x \<Rightarrow> x)\<rparr>\<rparr>) s"
| "productsTab_step s (InputStock v) =
     setForm (\<lambda>f. f\<lparr>inventory := (inventory f)\<lparr>stock := (case v of None \<Rightarrow> 0 | Some x \<Rightarrow> x)\<rparr>\<rparr>) s"
| "productsTab_step s (InputMetal v) = setForm (\<lambda>f. f\<lparr>details := (details f)\<lparr>metal := v\<rparr>\<rparr>) s"
| "productsTab_step s (InputActive b) = setForm (\<lambda>f. f\<lparr>isActive := b\<rparr>) s"
| "productsTab_step s ClickSubmit = (if showModal s then prod_handleSubmit s else (s, []))"
| "productsTab_step s (SearchInput t) = (s\<lparr>searchTerm := t\<rparr>, [])"
| "productsTab_step s (MutationResponse k r) =
     (if k < length (pendingReqs s) then
        (let s' = s\<lparr>pendingReqs := remove_nth k (pendingReqs s)\<rparr> in
         case pendingReqs s ! k of
           PSubmit _ \<Rightarrow> prod_submitDone (handleResponse r) s'
         | PDelete \<Rightarrow> prod_deleteDone (handleResponse r) s'
         | PFetch \<Rightarrow> (s, []))
      else (s, []))"
| "productsTab_step s (FetchResponse k rp rc rs) =
     (if k < length (pendingReqs s) \<and> pendingReqs s ! k = PFetch
      then (prod_fetchDone (handleResponse rp) (handleResponse rc) (handleResponse rs)
              (s\<lparr>pendingReqs := remove_nth k (pendingReqs s)\<rparr>), [])
      else (s, []))"

abbreviation productsTab_run :: "productsTab \<Rightarrow> productEvent list \<Rightarrow> productStep" where
  "productsTab_run \<equiv> run_steps productsTab_step"

text \<open>The options of the subcategory select, and the rows of the tab.\<close>

definition productSubcategoryOptions :: "productsTab \<Rightarrow> subcategory list" where
  "productSubcategoryOptions s = subcategoryOptions (categorySlug (formData s)) (subcategories s)"

definition visibleProducts :: "productsTab \<Rightarrow> product list" where
  "visibleProducts s = filteredProducts (searchTerm s) (products s)"

section \<open>Lemmas\<close>

lemmas productsTab_defs = prod_fetchData_def prod_handleCloseModal_def prod_handleEdit_def prod_inputName_def selectCategory_def
  prod_handleSubmit_def prod_handleDelete_def prod_submitDone_def prod_deleteDone_def prod_fetchDone_def prod_whenModal_def setForm_def

section \<open>Properties\<close>

text \<open>The product form sends a create or update request exactly when the
  modal is open and name, slug, category and SKU are all non-empty.\<close>

theorem productsTab_submit_requests:
  "snd (productsTab_step s ClickSubmit) =
     (if showModal s \<and> name (formData s) \<noteq> [] \<and> slug (formData s) \<noteq> [] \<and>
         categorySlug (formData s) \<noteq> [] \<and> sku (formData s) \<noteq> []
      then [case editingProduct s of None \<Rightarrow> Create (formData s) | Some p \<Rightarrow> Update (entity.id p) (formData s)]
      else [])"
  by (simp add: productsTab_defs)

text \<open>C9. The scenario of the specification: choosing category A, a subcategory,
  then category B leaves no subcategory chosen, and the options offered are
  exactly the subcategories of B.\<close>

theorem productsTab_change_category:
  "showModal s \<Longrightarrow> a \<noteq> [] \<Longrightarrow>
   (let t = fst (productsTab_run s [SelectCategory a, SelectSubcategory v, SelectCategory b]) in
      categorySlug (formData t) = b \<and> subCategorySlug (formData t) = [] \<and>
      productSubcategoryOptions t = subcategoryOptions b (subcategories s))"
  by (simp add: productsTab_defs productSubcategoryOptions_def)

text \<open>While no category is chosen, the subcategory select is disabled: a
  subcategory event changes nothing.\<close>

theorem productsTab_subcategory_needs_category:
  "categorySlug (formData s) = [] \<Longrightarrow> productsTab_step s (SelectSubcategory v) = (s, [])"
  by simp

text \<open>A failed product submission or deletion changes nothing but the
  bookkeeping of in-flight requests: the form keeps its values and no error
  reaches the user.\<close>

theorem productsTab_failure_silent:
  "k < length (pendingReqs s) \<Longrightarrow> pendingReqs s ! k \<noteq> PFetch \<Longrightarrow> handleResponse r = Inl m \<Longrightarrow>
   productsTab_step s (MutationResponse k r) = (s\<lparr>pendingReqs := remove_nth k (pendingReqs s)\<rparr>, [])"
  by (cases "pendingReqs s ! k") (simp_all add: productsTab_defs)

subsection \<open>Witnesses\<close>

theorem productsTab_change_category_witness:
  "showModal (productsTab_init\<lparr>showModal := True\<rparr>) \<and> ''rings'' \<noteq> [] \<and>
   subCategorySlug (formData (fst (productsTab_run (productsTab_init\<lparr>showModal := True\<rparr>)
      [SelectCategory ''rings'', SelectSubcategory ''bands'', SelectCategory ''chains'']))) = []"
  using productsTab_change_category[of "productsTab_init\<lparr>showModal := True\<rparr>" "''rings''" "''bands''" "''chains''"]
  by (simp add: Let_def)

theorem productsTab_subcategory_needs_category_witness:
  "categorySlug (formData productsTab_init) = [] \<and>
   productsTab_step productsTab_init (SelectSubcategory ''bands'') = (productsTab_init, [])"
  using productsTab_subcategory_needs_category[of productsTab_init "''bands''"]
  by (simp add: productsTab_init_def emptyProductForm_def)

theorem productsTab_failure_silent_witness:
  "0 < length (pendingReqs (productsTab_init\<lparr>pendingReqs := [PDelete]\<rparr>)) \<and>
   pendingReqs (productsTab_init\<lparr>pendingReqs := [PDelete]\<rparr>) ! 0 \<noteq> PFetch \<and>
   handleResponse (HttpError 404 ''Not Found'' BodyUnparsable :: unit http_response) = Inl ''Request failed'' \<and>
   productsTab_step (productsTab_init\<lparr>pendingReqs := [PDelete]\<rparr>)
     (MutationResponse 0 (HttpError 404 ''Not Found'' BodyUnparsable)) = (productsTab_init\<lparr>pendingReqs := []\<rparr>, [])"
  using productsTab_failure_silent[of 0 "productsTab_init\<lparr>pendingReqs := [PDelete]\<rparr>"
          "HttpError 404 ''Not Found'' BodyUnparsable" "''Request failed''"]
  by (simp add: remove_nth_def)

end
