(* ===== verification/Routes.thy ===== *)
theory Routes
  imports Prelude
begin

text \<open>
  The route table of \<open>src/src/App.jsx\<close> and the code that builds the paths it
  matches: \<open>handleNavigation\<close> of \<open>components/homepage/Navigation.jsx\<close>,
  \<open>getProductUrl\<close> of \<open>components/products/ProductCard.jsx\<close>,
  \<open>handleCategoryClick\<close> of \<open>CategoryCardsSection.jsx\<close> and
  \<open>getBreadcrumbs\<close> of \<open>pages/ProductDetailPage.jsx\<close>.

  The matching itself is done by the router library the sources call
  (React Router 6, not part of the repository), modelled from its documented
  behaviour: \<open>navigate\<close> keeps the part of a target before \<open>?\<close> or \<open>#\<close> as
  the path name; the path name is split at \<open>/\<close>, trailing slashes are
  ignored; a literal segment matches case-insensitively, a \<open>:param\<close> segment
  matches any non-empty segment and binds it, \<open>*\<close> matches the rest; the
  routes are tried in the order of their score (\<open>computeScore\<close>: one point
  per segment of the path split at \<open>/\<close>, ten per literal, three per
  parameter, one per empty segment, two for an index route, minus two for a
  splat), routes of equal score in the order they are written.  The nested
  \<open>/admin\<close> layout route contributes its index and child routes; its own
  branch, which an index child always outranks, is left out.
\<close>

section \<open>Route table\<close>

datatype page =
    HomePage
  | ProductsListingPage
  | ProductDetailPage
  | LoginPage
  | AdminAuthRedirect
  | AdminDashboard
  | AdminUsers
  | AdminProducts
  | AdminEvents
  | AdminCoupons
  | AdminLayoutOnly
  | NotFound

text \<open>A branch of the flattened route tree: its full path (the parent's path
  joined with the child's by \<open>/\<close>), whether its leaf is an index route, and
  the page it renders.\<close>

record route =
  path :: string
  index_route :: bool
  element :: page

text \<open>The branches in the order the router flattens the \<open><Routes>\<close> of
  \<open>App.jsx\<close>: the children of \<open>/admin\<close> come before \<open>/admin\<close> itself, whose
  index child has the path \<open>/admin/\<close>, and \<open>*\<close> becomes \<open>/*\<close>.\<close>

definition appRoutes :: "route list" where
  "appRoutes =
     [\<lparr>path = ''/'', index_route = False, element = HomePage\<rparr>,
      \<lparr>path = ''/products'', index_route = False, element = ProductsListingPage\<rparr>,
      \<lparr>path = ''/products/category/:categorySlug/:subCategorySlug'', index_route = False,
        element = ProductsListingPage\<rparr>,
      \<lparr>path = ''/products/category/:categorySlug'', index_route = False, element = ProductsListingPage\<rparr>,
      \<lparr>path = ''/products/collection/:collectionSlug'', index_route = False, element = ProductsListingPage\<rparr>,
      \<lparr>path = ''/product/:slug'', index_route = False, element = ProductDetailPage\<rparr>,
      \<lparr>path = ''/products/category/:categorySlug/:subCategorySlug/:slug'', index_route = False,
        element = ProductDetailPage\<rparr>,
      \<lparr>path = ''/products/category/:categorySlug/:slug'', index_route = False, element = ProductDetailPage\<rparr>,
      \<lparr>path = ''/login'', index_route = False, element = LoginPage\<rparr>,
      \<lparr>path = ''/adminauth'', index_route = False, element = AdminAuthRedirect\<rparr>,
      \<lparr>path = ''/admin/'', index_route = True, element = AdminDashboard\<rparr>,
      \<lparr>path = ''/admin/users'', index_route = False, element = AdminUsers\<rparr>,
      \<lparr>path = ''/admin/products'', index_route = False, element = AdminProducts\<rparr>,
      \<lparr>path = ''/admin/events'', index_route = False, element = AdminEvents\<rparr>,
      \<lparr>path = ''/admin/coupons'', index_route = False, element = AdminCoupons\<rparr>,
      \<lparr>path = ''/admin'', index_route = False, element = AdminLayoutOnly\<rparr>,
      \<lparr>path = ''/*'', index_route = False, element = NotFound\<rparr>]"

section \<open>The router\<close>

text \<open>\<open>s.split(d)\<close>.\<close>

fun split_on :: "char \<Rightarrow> string \<Rightarrow> string list" where
  "split_on d [] = [[]]"
| "split_on d (x # xs) =
     (if x = d then [] # split_on d xs
      else (case split_on d xs of w # ws \<Rightarrow> (x # w) # ws | [] \<Rightarrow> [[x]]))"

text \<open>\<open>/^:[\w-]+$/\<close>, the dynamic segments of a route path.\<close>

definition is_param_seg :: "string \<Rightarrow> bool" where
  "is_param_seg s \<longleftrightarrow>
     (case s of
        [] \<Rightarrow> False
      | c # n \<Rightarrow> c = CHR '':'' \<and> n \<noteq> [] \<and>
          list_all (\<lambda>x. let k = (of_char x :: nat) in
                          (48 \<le> k \<and> k \<le> 57) \<or> (65 \<le> k \<and> k \<le> 90) \<or> (97 \<le> k \<and> k \<le> 122) \<or>
                          x = CHR ''_'' \<or> x = CHR ''-'') n)"

text \<open>\<open>computeScore(path, index)\<close> of the router.\<close>

definition computeScore :: "string \<Rightarrow> bool \<Rightarrow> int" where
  "computeScore p idx =
     (let segs = split_on CHR ''/'' p in
      int (length segs) + (if ''*'' \<in> set segs then -2 else 0) + (if idx then 2 else 0) +
      sum_list (map (\<lambda>s. if is_param_seg s then 3 else if s = [] then 1 else 10)
                    (filter (\<lambda>s. s \<noteq> ''*'') segs)))"

text \<open>\<open>rankRouteBranches\<close>: by descending score; a stable sort, so that branches
  of equal score stay in flattening order.\<close>

definition rankRoutes :: "route list \<Rightarrow> route list" where
  "rankRoutes rs = sort_key (\<lambda>r. - computeScore (path r) (index_route r)) rs"

text \<open>\<open>navigate(to)\<close>: the path name is the part before a query or a hash.\<close>

definition pathname_of :: "string \<Rightarrow> string" where
  "pathname_of to = takeWhile (\<lambda>c. c \<noteq> CHR ''?'' \<and> c \<noteq> CHR ''#'') to"

text \<open>The segments of an absolute path, trailing slashes ignored (the \<open>\/*$\<close>
  that \<open>compilePath\<close> appends); a path that is not absolute has none.\<close>

definition path_segments :: "string \<Rightarrow> string list option" where
  "path_segments p =
     (case p of
        [] \<Rightarrow> None
      | c # r \<Rightarrow> if c \<noteq> CHR ''/'' then None
                 else Some (rev (dropWhile (\<lambda>s. s = []) (rev (split_on CHR ''/'' r)))))"

datatype seg = Lit string | Param string | Splat

definition seg_of :: "string \<Rightarrow> seg" where
  "seg_of s = (if s = ''*'' then Splat else if is_param_seg s then Param (tl s) else Lit s)"

definition route_pattern :: "route \<Rightarrow> seg list" where
  "route_pattern r = (case path_segments (path r) of None \<Rightarrow> [] | Some ss \<Rightarrow> map seg_of ss)"

fun slash_join :: "string list \<Rightarrow> string" where
  "slash_join [] = []"
| "slash_join [s] = s"
| "slash_join (s # ss) = s @ ''/'' @ slash_join ss"

text \<open>The regular expression \<open>compilePath\<close> builds, case-insensitive: a literal
  segment matches ignoring case, \<open>([^\/]+)\<close> a non-empty segment, \<open>(.*)\<close>
  the rest of the path.\<close>

fun match_segs :: "seg list \<Rightarrow> string list \<Rightarrow> (string \<times> string) list option" where
  "match_segs [] [] = Some []"
| "match_segs [Splat] xs = Some [(''*'', slash_join xs)]"
| "match_segs (Lit l # ps) (x # xs) =
     (if js_to_lower x = js_to_lower l then match_segs ps xs else None)"
| "match_segs (Param n # ps) (x # xs) =
     (if x \<noteq> [] then map_option (\<lambda>bs. (n, x) # bs) (match_segs ps xs) else None)"
| "match_segs _ _ = None"

definition routeTable :: "(seg list \<times> page) list" where
  "routeTable = map (\<lambda>r. (route_pattern r, element r)) (rankRoutes appRoutes)"

fun first_match :: "(seg list \<times> page) list \<Rightarrow> string list \<Rightarrow> (page \<times> (string \<times> string) list) option" where
  "first_match [] segs = None"
| "first_match ((ps, e) # rs) segs =
     (case match_segs ps segs of
        Some bs \<Rightarrow> Some (e, bs)
      | None \<Rightarrow> first_match rs segs)"

text \<open>The page rendered and the parameters \<open>useParams()\<close> returns after
  \<open>navigate(to)\<close>.\<close>

definition navigateTo :: "string \<Rightarrow> (page \<times> (string \<times> string) list) option" where
  "navigateTo to =
     (case path_segments (pathname_of to) of
        None \<Rightarrow> None
      | Some segs \<Rightarrow> first_match routeTable segs)"

section \<open>Path builders\<close>

text \<open>\<open>handleNavigation\<close> of \<open>Navigation.jsx\<close>, and the two kinds of target the
  menu passes to it.\<close>

definition handleNavigation :: "string \<Rightarrow> string" where
  "handleNavigation p = (if prefix ''/category/'' p then ''/products'' @ p else p)"

definition categoryLink :: "string \<Rightarrow> string" where
  "categoryLink c = handleNavigation (''/category/'' @ c)"

definition subcategoryLink :: "string \<Rightarrow> string \<Rightarrow> string" where
  "subcategoryLink c s = handleNavigation (''/category/'' @ c @ ''/'' @ s)"

text \<open>\<open>handleCategoryClick\<close> of \<open>CategoryCardsSection.jsx\<close>.\<close>

definition handleCategoryClick :: "string \<Rightarrow> string" where
  "handleCategoryClick c = ''/products/category/'' @ c"

text \<open>\<open>useParams()\<close>: a parameter the matched route does not bind is
  \<open>undefined\<close>.\<close>

definition useParams :: "(string \<times> string) list \<Rightarrow> string \<Rightarrow> string option" where
  "useParams bs k = map_of bs k"

text \<open>\<open>getProductUrl\<close> of \<open>ProductCard.jsx\<close>, given the parameters of the page
  the card is rendered on and the product's slug.\<close>

definition getProductUrl :: "(string \<times> string) list \<Rightarrow> string \<Rightarrow> string" where
  "getProductUrl params productSlug =
     (let categorySlug = useParams params ''categorySlug'';
          subCategorySlug = useParams params ''subCategorySlug'' in
      if js_truthy_str categorySlug \<and> js_truthy_str subCategorySlug then
        ''/products/category/'' @ js_template categorySlug @ ''/'' @ js_template subCategorySlug @ ''/'' @ productSlug
      else if js_truthy_str categorySlug then
        ''/products/category/'' @ js_template categorySlug @ ''/'' @ productSlug
      else ''/product/'' @ productSlug)"

text \<open>\<open>getBreadcrumbs\<close> of \<open>ProductDetailPage.jsx\<close>, given the page's
  parameters and the name of the loaded product, if any: a label and, except
  for the product crumb, a path.\<close>

definition dashes_to_spaces :: "string \<Rightarrow> string" where
  "dashes_to_spaces s = map (\<lambda>c. if c = CHR ''-'' then CHR '' '' else c) s"

definition getBreadcrumbs :: "(string \<times> string) list \<Rightarrow> string option \<Rightarrow> (string \<times> string option) list" where
  "getBreadcrumbs params product =
     (let categorySlug = useParams params ''categorySlug'';
          subCategorySlug = useParams params ''subCategorySlug'' in
      [(''Home '', Some ''/''), ('' Products'', Some ''/products'')] @
      (if js_truthy_str categorySlug
       then [(dashes_to_spaces (js_template categorySlug), Some (''/products/category/'' @ js_template categorySlug))]
       else []) @
      (if js_truthy_str subCategorySlug
       then [(dashes_to_spaces (js_template subCategorySlug),
              Some (''/products/category/'' @ js_template categorySlug @ ''/'' @ js_template subCategorySlug))]
       else []) @
      (case product of None \<Rightarrow> [] | Some n \<Rightarrow> [(n, None)]))"

section \<open>Paths of segments\<close>

text \<open>A path segment that survives the round trip through \<open>navigate\<close>:
  non-empty, without \<open>/\<close>, \<open>?\<close> or \<open>#\<close>.  Every non-empty slug is one.\<close>

definition url_segment :: "string \<Rightarrow> bool" where
  "url_segment s \<longleftrightarrow> s \<noteq> [] \<and> CHR ''/'' \<notin> set s \<and> CHR ''?'' \<notin> set s \<and> CHR ''#'' \<notin> set s"

definition join_path :: "string list \<Rightarrow> string" where
  "join_path ss = concat (map (\<lambda>s. CHR ''/'' # s) ss)"

definition param_names :: "seg list \<Rightarrow> string list" where
  "param_names ps = concat (map (\<lambda>p. case p of Lit _ \<Rightarrow> [] | Param n \<Rightarrow> [n] | Splat \<Rightarrow> [''*'']) ps)"

definition seg_shape :: "seg list \<Rightarrow> seg list" where
  "seg_shape ps = map (\<lambda>p. case p of Param _ \<Rightarrow> Param [] | q \<Rightarrow> q) ps"

section \<open>Lemmas\<close>

lemma routeTable_eq:
  "routeTable =
   [([Lit ''products'', Lit ''category'', Param ''categorySlug'', Param ''subCategorySlug'', Param ''slug''], ProductDetailPage),
    ([Lit ''products'', Lit ''category'', Param ''categorySlug'', Param ''subCategorySlug''], ProductsListingPage),
    ([Lit ''products'', Lit ''category'', Param ''categorySlug'', Param ''slug''], ProductDetailPage),
    ([Lit ''products'', Lit ''category'', Param ''categorySlug''], ProductsListingPage),
    ([Lit ''products'', Lit ''collection'', Param ''collectionSlug''], ProductsListingPage),
    ([Lit ''admin'', Lit ''users''], AdminUsers),
    ([Lit ''admin'', Lit ''products''], AdminProducts),
    ([Lit ''admin'', Lit ''events''], AdminEvents),
    ([Lit ''admin'', Lit ''coupons''], AdminCoupons),
    ([Lit ''product'', Param ''slug''], ProductDetailPage),
    ([Lit ''admin''], AdminDashboard),
    ([Lit ''products''], ProductsListingPage), ([Lit ''login''], LoginPage),
    ([Lit ''adminauth''], AdminAuthRedirect),
    ([Lit ''admin''], AdminLayoutOnly), ([], HomePage), ([Splat], NotFound)]"
  by code_simp

lemma split_on_nodelim: "d \<notin> set xs \<Longrightarrow> split_on d xs = [xs]"
  by (induction xs) auto

lemma split_on_append_delim: "d \<notin> set xs \<Longrightarrow> split_on d (xs @ d # ys) = xs # split_on d ys"
  by (induction xs) (auto split: list.split)

lemma split_on_join_path:
  "d \<notin> set s \<Longrightarrow> (\<forall>t\<in>set ss. d \<notin> set t) \<Longrightarrow> d = CHR ''/'' \<Longrightarrow> split_on d (s @ join_path ss) = s # ss"
proof (induction ss arbitrary: s)
  case Nil
  then show ?case by (simp add: join_path_def split_on_nodelim)
next
  case (Cons t ss)
  then show ?case by (simp add: join_path_def split_on_append_delim)
qed

lemma rev_dropWhile_last:
  "xs \<noteq> [] \<Longrightarrow> \<not> P (last xs) \<Longrightarrow> rev (dropWhile P (rev xs)) = xs"
  by (induction xs rule: rev_induct) auto

lemma url_segment_join:
  "\<forall>s\<in>set ss. url_segment s \<Longrightarrow> ss \<noteq> [] \<Longrightarrow>
   pathname_of (join_path ss) = join_path ss \<and> path_segments (join_path ss) = Some ss"
proof (cases ss)
  case (Cons s ss')
  assume a: "\<forall>s\<in>set ss. url_segment s"
  have p: "pathname_of (join_path ss) = join_path ss"
    using a by (auto simp: pathname_of_def join_path_def url_segment_def takeWhile_eq_all_conv)
  have "split_on CHR ''/'' (s @ join_path ss') = s # ss'"
    using a Cons by (intro split_on_join_path) (auto simp: url_segment_def)
  moreover have "last (s # ss') \<noteq> []" using a Cons by (simp add: url_segment_def)
  ultimately show ?thesis
    using p Cons rev_dropWhile_last[of "s # ss'" "\<lambda>s. s = []"]
    by (simp add: path_segments_def join_path_def)
qed simp

lemma navigateTo_join:
  "\<forall>s\<in>set ss. url_segment s \<Longrightarrow> ss \<noteq> [] \<Longrightarrow> navigateTo (join_path ss) = first_match routeTable ss"
  by (simp add: navigateTo_def url_segment_join)

lemma url_segment_nonempty: "url_segment s \<Longrightarrow> s \<noteq> []"
  by (simp add: url_segment_def)

lemma link_paths:
  "categoryLink c = join_path [''products'', ''category'', c]"
  "handleCategoryClick c = join_path [''products'', ''category'', c]"
  "subcategoryLink c s = join_path [''products'', ''category'', c, s]"
  by (simp_all add: categoryLink_def subcategoryLink_def handleCategoryClick_def handleNavigation_def join_path_def)

lemma url_segment_lits [simp]:
  "url_segment ''products''" "url_segment ''category''" "url_segment ''product''"
  by (simp_all add: url_segment_def)

lemma getProductUrl_paths:
  "c \<noteq> [] \<Longrightarrow> s \<noteq> [] \<Longrightarrow>
     getProductUrl [(''categorySlug'', c), (''subCategorySlug'', s)] p = join_path [''products'', ''category'', c, s, p]"
  "c \<noteq> [] \<Longrightarrow> getProductUrl [(''categorySlug'', c)] p = join_path [''products'', ''category'', c, p]"
  "getProductUrl [] p = join_path [''product'', p]"
  by (simp_all add: getProductUrl_def useParams_def join_path_def)

lemma match_segs_params: "match_segs ps xs = Some bs \<Longrightarrow> map fst bs = param_names ps"
  by (induction ps xs arbitrary: bs rule: match_segs.induct) (auto simp: param_names_def split: if_splits)

lemma match_segs_shape:
  "match_segs ps xs = Some bs \<Longrightarrow> seg_shape qs = seg_shape ps \<Longrightarrow> match_segs qs xs \<noteq> None"
proof (induction ps xs arbitrary: bs qs rule: match_segs.induct)
  case (3 l ps x xs)
  then show ?case by (cases qs; cases "hd qs") (auto simp: seg_shape_def split: if_splits seg.splits)
next
  case (4 n ps x xs)
  then show ?case by (cases qs; cases "hd qs") (auto simp: seg_shape_def split: if_splits seg.splits)
qed (auto simp: seg_shape_def split: seg.splits)

lemma first_match_SomeD:
  "first_match tbl xs = Some (e, bs) \<Longrightarrow> \<exists>ps. (ps, e) \<in> set tbl \<and> match_segs ps xs = Some bs"
  by (induction tbl xs rule: first_match.induct) (auto split: option.splits)

lemma breadcrumb_paths:
  "c \<noteq> [] \<Longrightarrow> s \<noteq> [] \<Longrightarrow>
   map snd (getBreadcrumbs [(''categorySlug'', c), (''subCategorySlug'', s), (''slug'', p)] (Some n)) =
     [Some ''/'', Some ''/products'', Some (join_path [''products'', ''category'', c]),
      Some (join_path [''products'', ''category'', c, s]), None]"
  by (simp add: getBreadcrumbs_def useParams_def join_path_def)

section \<open>Properties\<close>




text \<open>C38. The detail route \<open>/products/category/:categorySlug/:slug\<close> is never
  rendered: no path reaches the detail page with exactly these two
  parameters, since the subcategory listing route of the same shape is
  ranked before it.\<close>

theorem routes_category_detail_unreachable:
  "navigateTo to \<noteq> Some (ProductDetailPage, [(''categorySlug'', c), (''slug'', p)])"
proof
  assume r: "navigateTo to = Some (ProductDetailPage, [(''categorySlug'', c), (''slug'', p)])"
  then obtain segs where t: "first_match routeTable segs = Some (ProductDetailPage, [(''categorySlug'', c), (''slug'', p)])"
    by (auto simp: navigateTo_def split: option.splits)
  define listing where "listing = [Lit ''products'', Lit ''category'', Param ''categorySlug'', Param ''subCategorySlug'']"
  have l: "match_segs listing segs = None"
    using t by (auto simp: routeTable_eq listing_def param_names_def dest!: match_segs_params split: option.splits)
  from t obtain ps bs where "(ps, ProductDetailPage) \<in> set routeTable" "match_segs ps segs = Some bs"
      "map fst bs = [''categorySlug'', ''slug'']"
    using first_match_SomeD by fastforce
  then have "ps = [Lit ''products'', Lit ''category'', Param ''categorySlug'', Param ''slug'']" "match_segs ps segs = Some bs"
    by (auto simp: routeTable_eq param_names_def dest: match_segs_params)
  then show False
    using l match_segs_shape[of ps segs bs listing] by (simp add: listing_def seg_shape_def)
qed

text \<open>On a product detail page reached with its category and subcategory,
  every breadcrumb with a path navigates back: to the home page, the listing
  page, the category listing and the subcategory listing.\<close>

theorem routes_breadcrumbs:
  "url_segment c \<Longrightarrow> url_segment s \<Longrightarrow>
   map (map_option navigateTo \<circ> snd)
       (getBreadcrumbs [(''categorySlug'', c), (''subCategorySlug'', s), (''slug'', p)] (Some n)) =
     [Some (Some (HomePage, [])), Some (Some (ProductsListingPage, [])),
      Some (Some (ProductsListingPage, [(''categorySlug'', c)])),
      Some (Some (ProductsListingPage, [(''categorySlug'', c), (''subCategorySlug'', s)])), None]"
proof -
  assume c: "url_segment c" and s: "url_segment s"
  let ?b = "getBreadcrumbs [(''categorySlug'', c), (''subCategorySlug'', s), (''slug'', p)] (Some n)"
  have "map (map_option navigateTo \<circ> snd) ?b = map (map_option navigateTo) (map snd ?b)"
    by simp
  also have "map snd ?b =
      [Some ''/'', Some ''/products'', Some (join_path [''products'', ''category'', c]),
       Some (join_path [''products'', ''category'', c, s]), None]"
    using c s by (simp add: breadcrumb_paths url_segment_nonempty)
  also have "map (map_option navigateTo) \<dots> = [Some (Some (HomePage, [])), Some (Some (ProductsListingPage, [])),
      Some (Some (ProductsListingPage, [(''categorySlug'', c)])),
      Some (Some (ProductsListingPage, [(''categorySlug'', c), (''subCategorySlug'', s)])), None]"
    using c s by (simp add: navigateTo_join url_segment_nonempty routeTable_eq)
      (simp add: navigateTo_def pathname_of_def path_segments_def routeTable_eq)
  finally show ?thesis .
qed

subsection \<open>Witnesses\<close>




theorem routes_breadcrumbs_witness:
  "url_segment ''rings'' \<and> url_segment ''bands'' \<and>
   map (map_option navigateTo \<circ> snd)
       (getBreadcrumbs [(''categorySlug'', ''rings''), (''subCategorySlug'', ''bands''), (''slug'', ''gold-ring'')]
          (Some ''Gold Ring'')) =
     [Some (Some (HomePage, [])), Some (Some (ProductsListingPage, [])),
      Some (Some (ProductsListingPage, [(''categorySlug'', ''rings'')])),
      Some (Some (ProductsListingPage, [(''categorySlug'', ''rings''), (''subCategorySlug'', ''bands'')])), None]"
  using routes_breadcrumbs[of "''rings''" "''bands''" "''gold-ring''" "''Gold Ring''"] by (simp add: url_segment_def)

end
