(* ===== verification/Users.thy ===== *)
theory Users
  imports AdminApi
begin

text \<open>
  The admin page \<open>src/src/pages/admin/Users.jsx\<close>: the list of users with
  their carts fetched from the backend, the search box, the cart dialog and
  the CSV export of \<open>downloadExcel\<close>.  The page is a state machine like the
  admin tabs (\<open>usersPage_step\<close>); the list it shows, \<open>filteredUsers\<close>, is
  kept in state by an effect, which the model runs after every step that
  changes its dependencies.  The CSV text is checked against a reader of the
  format (RFC 4180: fields separated by commas, rows by line feeds, a field
  in double quotes may contain both, a doubled quote stands for one), which
  is the specification of the export, not code of the repository.
\<close>

section \<open>Users and the search\<close>

record cartLine =
  productId :: string
  line_name :: "string option"
  price :: "rat option"
  quantity :: int

record user =
  id :: string
  phone :: "string option"
  name :: "string option"
  email :: "string option"
  is_admin :: int
  hasCart :: bool
  itemCount :: "int option"
  cartValue :: "rat option"
  created_at :: "string option"
  updated_at :: "string option"
  cart_items :: "cartLine list option"

text \<open>\<open>String.prototype.trim\<close> on the Latin-1 range: the white space it removes
  is TAB, LF, VT, FF, CR, SPACE and NO-BREAK SPACE.\<close>

definition js_is_space :: "char \<Rightarrow> bool" where
  "js_is_space c \<longleftrightarrow> (of_char c :: nat) \<in> {9, 10, 11, 12, 13, 32, 160}"

definition js_trim :: "string \<Rightarrow> string" where
  "js_trim s = rev (dropWhile js_is_space (rev (dropWhile js_is_space s)))"

text \<open>\<open>x?.toLowerCase().includes(q)\<close>: false when \<open>x\<close> is absent.\<close>

definition opt_includes :: "string option \<Rightarrow> string \<Rightarrow> bool" where
  "opt_includes x q = (case x of None \<Rightarrow> False | Some v \<Rightarrow> js_includes (js_to_lower v) q)"

text \<open>The search effect (lines 43--55): the query is tested for emptiness
  after trimming, but matched untrimmed.\<close>

definition filterUsers :: "string \<Rightarrow> user list \<Rightarrow> user list" where
  "filterUsers q us =
     (if js_trim q = [] then us
      else (let query = js_to_lower q in
            filter (\<lambda>u. opt_includes (phone u) query \<or> opt_includes (name u) query \<or>
                       opt_includes (email u) query) us))"

section \<open>CSV export\<close>

definition nl :: char where "nl = CHR 0x0A"

datatype cell = CStr string | CNum int

text \<open>The renderings \<open>downloadExcel\<close> delegates to the platform: \<open>toFixed(2)\<close>,
  \<open>new Date(d).toLocaleDateString()\<close> and the rupee sign.\<close>

record exportFormat =
  toFixed2 :: "rat \<Rightarrow> string"
  localeDate :: "string option \<Rightarrow> string"
  rupee :: string

definition csvHeaders :: "string list" where
  "csvHeaders = [''Phone'', ''Name'', ''Email'', ''Is Admin'', ''Has Cart'', ''Items in Cart'',
                 ''Cart Value'', ''Registered'', ''Last Active'']"

definition excelRow :: "exportFormat \<Rightarrow> user \<Rightarrow> cell list" where
  "excelRow fmt u =
     [CStr (js_name_or (phone u) ''N/A''),
      CStr (js_name_or (name u) ''N/A''),
      CStr (js_name_or (email u) ''N/A''),
      CStr (if is_admin u \<noteq> 0 then ''Yes'' else ''No''),
      CStr (if hasCart u then ''Yes'' else ''No''),
      CNum (case itemCount u of None \<Rightarrow> 0 | Some n \<Rightarrow> n),
      CStr (case cartValue u of
              Some v \<Rightarrow> if v \<noteq> 0 then rupee fmt @ toFixed2 fmt v else rupee fmt @ ''0.00''
            | None \<Rightarrow> rupee fmt @ ''0.00''),
      CStr (localeDate fmt (created_at u)),
      CStr (localeDate fmt (updated_at u))]"

text \<open>A string value containing a comma or a double quote is quoted, its
  quotes doubled; every other value is written as it is.\<close>

definition needs_quotes :: "string \<Rightarrow> bool" where
  "needs_quotes s \<longleftrightarrow> CHR '','' \<in> set s \<or> CHR ''\"'' \<in> set s"

definition double_quotes :: "string \<Rightarrow> string" where
  "double_quotes s = concat (map (\<lambda>c. if c = CHR ''\"'' then ''\"\"'' else [c]) s)"

fun csv_field :: "cell \<Rightarrow> string" where
  "csv_field (CStr s) = (if needs_quotes s then CHR ''\"'' # double_quotes s @ ''\"'' else s)"
| "csv_field (CNum n) = int_str n"

fun js_join :: "string \<Rightarrow> string list \<Rightarrow> string" where
  "js_join sep [] = []"
| "js_join sep [x] = x"
| "js_join sep (x # xs) = x @ sep @ js_join sep xs"

definition csv_line :: "cell list \<Rightarrow> string" where
  "csv_line r = js_join '','' (map csv_field r)"

definition csvContent :: "cell list list \<Rightarrow> string" where
  "csvContent rows = js_join [nl] (js_join '','' csvHeaders # map csv_line rows)"

section \<open>Reading CSV\<close>

datatype csv_mode = FieldStart | Unquoted | Quoted | QuoteInQuoted

record csv_st =
  mode :: csv_mode
  fld :: string
  cur_row :: "string list"
  done_rows :: "string list list"

definition push_field :: "csv_st \<Rightarrow> csv_st" where
  "push_field st = st\<lparr>mode := FieldStart, fld := [], cur_row := cur_row st @ [fld st]\<rparr>"

definition push_row :: "csv_st \<Rightarrow> csv_st" where
  "push_row st = (let st' = push_field st in st'\<lparr>cur_row := [], done_rows := done_rows st' @ [cur_row st']\<rparr>)"

definition add_char :: "char \<Rightarrow> csv_mode \<Rightarrow> csv_st \<Rightarrow> csv_st" where
  "add_char c m st = st\<lparr>mode := m, fld := fld st @ [c]\<rparr>"

fun csv_step :: "csv_st \<Rightarrow> char \<Rightarrow> csv_st" where
  "csv_step st c =
     (case mode st of
        Quoted \<Rightarrow> if c = CHR ''\"'' then st\<lparr>mode := QuoteInQuoted\<rparr> else add_char c Quoted st
      | QuoteInQuoted \<Rightarrow>
          if c = CHR ''\"'' then add_char c Quoted st
          else if c = CHR '','' then push_field st
          else if c = nl then push_row st
          else add_char c Unquoted st
      | m \<Rightarrow>
          if c = CHR '','' then push_field st
          else if c = nl then push_row st
          else if c = CHR ''\"'' \<and> m = FieldStart then st\<lparr>mode := Quoted\<rparr>
          else add_char c Unquoted st)"

definition csv_init :: csv_st where
  "csv_init = \<lparr>mode = FieldStart, fld = [], cur_row = [], done_rows = []\<rparr>"

fun cell_text :: "cell \<Rightarrow> string" where
  "cell_text (CStr s) = s"
| "cell_text (CNum n) = int_str n"

text \<open>A cell the export writes so that a reader gets it back: a line feed in
  a value is safe only inside quotes.\<close>

fun cell_ok :: "cell \<Rightarrow> bool" where
  "cell_ok (CStr s) \<longleftrightarrow> needs_quotes s \<or> list_all (\<lambda>c. c \<noteq> nl) s"
| "cell_ok (CNum n) \<longleftrightarrow> True"

definition parse_csv :: "string \<Rightarrow> string list list" where
  "parse_csv s = done_rows (push_row (fold (\<lambda>c st. csv_step st c) s csv_init))"

section \<open>The page\<close>

record userStats =
  totalUsers :: int
  activeUsers :: int
  usersWithCarts :: int
  totalCartValue :: rat

record usersPage =
  users :: "user list"
  filteredUsers :: "user list"
  loading :: bool
  searchQuery :: string
  selectedUser :: "user option"
  cartDialogOpen :: bool
  stats :: userStats

definition usersPage_init :: usersPage where
  "usersPage_init =
     \<lparr>users = [], filteredUsers = [], loading = True, searchQuery = [], selectedUser = None,
      cartDialogOpen = False,
      stats = \<lparr>totalUsers = 0, activeUsers = 0, usersWithCarts = 0, totalCartValue = 0\<rparr>\<rparr>"

text \<open>What \<open>response.json()\<close> yields: the \<open>success\<close> flag, \<open>data\<close> and
  \<open>stats\<close> (absent stats make \<open>data.stats.totalUsers\<close> throw after the two
  lists have been set), or a failure of the request or of the JSON parse.\<close>

datatype usersResponse =
    UsersJson bool "user list" "userStats option"
  | UsersFailed string

datatype usersEffect =
    FetchUsersWithCarts string
  | UsersAlert string
  | DownloadCsv string

datatype usersEvent =
    UsersLoaded usersResponse
  | SearchChange string
  | ViewCart user
  | DialogOpenChange bool
  | DownloadClick

text \<open>The effect of lines 43--55, run whenever \<open>searchQuery\<close> or \<open>users\<close>
  changes.\<close>

definition syncFiltered :: "usersPage \<Rightarrow> usersPage" where
  "syncFiltered s = s\<lparr>filteredUsers := filterUsers (searchQuery s) (users s)\<rparr>"

text \<open>Mounting the page: \<open>fetchUsersWithCarts\<close> up to its \<open>await\<close>, with the
  \<open>adminToken\<close> read from storage.\<close>

definition usersPage_mount :: "string option \<Rightarrow> usersPage \<times> usersEffect list" where
  "usersPage_mount adminToken = (usersPage_init, [FetchUsersWithCarts (js_bearer adminToken)])"

definition fetchUsersDone :: "usersResponse \<Rightarrow> usersPage \<Rightarrow> usersPage" where
  "fetchUsersDone r s =
     (case r of
        UsersJson True us (Some st) \<Rightarrow>
          syncFiltered (s\<lparr>users := us, filteredUsers := us, stats := st, loading := False\<rparr>)
      | UsersJson True us None \<Rightarrow> syncFiltered (s\<lparr>users := us, filteredUsers := us, loading := False\<rparr>)
      | _ \<Rightarrow> s\<lparr>loading := False\<rparr>)"

definition downloadExcel :: "exportFormat \<Rightarrow> usersPage \<Rightarrow> usersEffect list" where
  "downloadExcel fmt s =
     (if filteredUsers s = [] then [UsersAlert ''No users to download'']
      else [DownloadCsv (csvContent (map (excelRow fmt) (filteredUsers s)))])"

text \<open>\<open>disabled={!user.hasCart || user.itemCount === 0}\<close>.\<close>

definition viewCartDisabled :: "user \<Rightarrow> bool" where
  "viewCartDisabled u \<longleftrightarrow> \<not> hasCart u \<or> itemCount u = Some 0"

text \<open>While \<open>loading\<close> the page renders only a spinner, so the search box,
  the table, its buttons and the dialog receive no events.\<close>

fun usersPage_step :: "exportFormat \<Rightarrow> usersPage \<Rightarrow> usersEvent \<Rightarrow> usersPage \<times> usersEffect list" where
  "usersPage_step fmt s (UsersLoaded r) = (fetchUsersDone r s, [])"
| "usersPage_step fmt s (SearchChange q) =
     (if loading s then (s, []) else (syncFiltered (s\<lparr>searchQuery := q\<rparr>), []))"
| "usersPage_step fmt s (ViewCart u) =
     (if loading s \<or> u \<notin> set (filteredUsers s) \<or> viewCartDisabled u then (s, [])
      else (s\<lparr>selectedUser := Some u, cartDialogOpen := True\<rparr>, []))"
| "usersPage_step fmt s (DialogOpenChange b) =
     (if loading s then (s, []) else (s\<lparr>cartDialogOpen := b\<rparr>, []))"
| "usersPage_step fmt s DownloadClick =
     (if loading s \<or> filteredUsers s = [] then (s, []) else (s, downloadExcel fmt s))"

text \<open>A row of the users table (lines 249--290): the shown contact fields,
  the admin and cart badges, the item count and cart value shown, and
  whether \<open>View Cart\<close> is disabled.\<close>

definition tableRow :: "exportFormat \<Rightarrow> user \<Rightarrow> string list \<times> bool \<times> bool \<times> int \<times> string \<times> bool" where
  "tableRow fmt u =
     ([js_name_or (phone u) ''N/A'', js_name_or (name u) ''N/A'', js_name_or (email u) ''N/A''],
      is_admin u = 1, hasCart u,
      (case itemCount u of Some n \<Rightarrow> if n > 0 then n else 0 | None \<Rightarrow> 0),
      (case cartValue u of Some v \<Rightarrow> if v > 0 then rupee fmt @ toFixed2 fmt v else rupee fmt @ ''0.00''
                         | None \<Rightarrow> rupee fmt @ ''0.00''),
      viewCartDisabled u)"

text \<open>Reader states at the start of a field.\<close>

abbreviation csv_run :: "string \<Rightarrow> csv_st \<Rightarrow> csv_st" where
  "csv_run s st \<equiv> fold (\<lambda>c st. csv_step st c) s st"

definition fresh :: "csv_st \<Rightarrow> bool" where
  "fresh st \<longleftrightarrow> mode st = FieldStart \<and> fld st = []"

section \<open>Lemmas\<close>

lemma nl_simps [simp]: "nl \<noteq> CHR '',''" "nl \<noteq> CHR ''\"''" "CHR '','' \<noteq> nl" "CHR ''\"'' \<noteq> nl"
  by (simp_all add: nl_def)

declare csv_step.simps [simp del]

lemma csv_step_simps:
  "mode st = FieldStart \<Longrightarrow> csv_step st CHR ''\"'' = st\<lparr>mode := Quoted\<rparr>"
  "mode st = Quoted \<Longrightarrow> csv_step st CHR ''\"'' = st\<lparr>mode := QuoteInQuoted\<rparr>"
  "mode st \<noteq> Quoted \<Longrightarrow> csv_step st CHR '','' = push_field st"
  "mode st \<noteq> Quoted \<Longrightarrow> csv_step st nl = push_row st"
  by (cases "mode st"; simp add: csv_step.simps)+

lemma csv_step_plain:
  "c \<noteq> CHR '','' \<Longrightarrow> c \<noteq> CHR ''\"'' \<Longrightarrow> c \<noteq> nl \<Longrightarrow> mode st = FieldStart \<or> mode st = Unquoted \<Longrightarrow>
   csv_step st c = st\<lparr>mode := Unquoted, fld := fld st @ [c]\<rparr>"
  by (auto simp: csv_step.simps add_char_def)

lemma csv_step_in_quotes:
  "mode st = Quoted \<Longrightarrow> c \<noteq> CHR ''\"'' \<Longrightarrow> csv_step st c = st\<lparr>fld := fld st @ [c]\<rparr>"
  "mode st = Quoted \<Longrightarrow> csv_step (csv_step st CHR ''\"'') CHR ''\"'' = st\<lparr>fld := fld st @ [CHR ''\"'']\<rparr>"
  by (simp_all add: csv_step.simps add_char_def)

lemma csv_run_plain:
  "\<forall>c\<in>set s. c \<noteq> CHR '','' \<and> c \<noteq> CHR ''\"'' \<and> c \<noteq> nl \<Longrightarrow> s \<noteq> [] \<Longrightarrow>
   mode st = FieldStart \<or> mode st = Unquoted \<Longrightarrow>
   csv_run s st = st\<lparr>mode := Unquoted, fld := fld st @ s\<rparr>"
proof (induction s arbitrary: st)
  case (Cons c s)
  have "csv_step st c = st\<lparr>mode := Unquoted, fld := fld st @ [c]\<rparr>"
    using Cons.prems by (simp add: csv_step_plain)
  then show ?case using Cons by (cases "s = []") simp_all
qed simp

lemma csv_run_quoted:
  "mode st = Quoted \<Longrightarrow> csv_run (double_quotes s) st = st\<lparr>fld := fld st @ s\<rparr>"
proof (induction s arbitrary: st)
  case (Cons c s)
  then show ?case by (cases "c = CHR ''\"''") (simp_all add: double_quotes_def csv_step_in_quotes)
qed (simp add: double_quotes_def)

lemma nat_str_digits: "c \<in> set (nat_str n) \<Longrightarrow> 48 \<le> (of_char c :: nat) \<and> (of_char c :: nat) \<le> 57"
proof (induction n rule: nat_str.induct)
  case (1 n)
  show ?case
  proof (cases "n < 10")
    case True
    with "1.prems" show ?thesis by (simp add: nat_str.simps[of n] of_char_of)
  next
    case False
    with "1.prems" have "c \<in> set (nat_str (n div 10)) \<or> c = digit_char (n mod 10)"
      by (auto simp add: nat_str.simps[of n])
    with "1.IH" False show ?thesis by (auto simp: of_char_of)
  qed
qed

lemma int_str_plain: "c \<in> set (int_str i) \<Longrightarrow> c \<noteq> CHR '','' \<and> c \<noteq> CHR ''\"'' \<and> c \<noteq> nl"
  by (auto simp: int_str_def nl_def dest!: nat_str_digits split: if_splits)

lemma push_field_fresh: "fresh st \<Longrightarrow> push_field (st\<lparr>mode := m, fld := f\<rparr>) = st\<lparr>cur_row := cur_row st @ [f]\<rparr>"
  by (cases st) (simp add: fresh_def push_field_def)

lemma csv_run_field:
  assumes "cell_ok x" "fresh st"
  shows "mode (csv_run (csv_field x) st) \<noteq> Quoted \<and>
         push_field (csv_run (csv_field x) st) = st\<lparr>cur_row := cur_row st @ [cell_text x]\<rparr>"
proof (cases x)
  case (CStr s)
  show ?thesis
  proof (cases "needs_quotes s")
    case True
    have "csv_run (csv_field x) st = st\<lparr>mode := QuoteInQuoted, fld := s\<rparr>"
      using assms(2) True CStr by (simp add: csv_run_quoted fresh_def csv_step_simps)
    then show ?thesis using assms(2) CStr push_field_fresh[of st] by simp
  next
    case False
    then have plain: "\<forall>c\<in>set s. c \<noteq> CHR '','' \<and> c \<noteq> CHR ''\"'' \<and> c \<noteq> nl"
      using assms(1) CStr by (auto simp: needs_quotes_def list_all_iff)
    show ?thesis
    proof (cases "s = []")
      case True
      then show ?thesis using assms(2) CStr
        by (cases st) (simp add: fresh_def push_field_def needs_quotes_def)
    next
      case ne: False
      then show ?thesis using assms(2) CStr False plain push_field_fresh[of st]
        by (simp add: csv_run_plain fresh_def)
    qed
  qed
next
  case (CNum n)
  have plain: "\<forall>c\<in>set (int_str n). c \<noteq> CHR '','' \<and> c \<noteq> CHR ''\"'' \<and> c \<noteq> nl"
    using int_str_plain by blast
  moreover have "int_str n \<noteq> []" by (simp add: int_str_def)
  ultimately show ?thesis using assms(2) CNum push_field_fresh[of st]
    by (simp add: csv_run_plain fresh_def)
qed

lemma js_join_Cons: "xs \<noteq> [] \<Longrightarrow> js_join sep (x # xs) = x @ sep @ js_join sep xs"
  by (cases xs) simp_all

lemma fresh_cur_row [simp]: "fresh (st\<lparr>cur_row := r\<rparr>) = fresh st"
  by (simp add: fresh_def)

lemma csv_run_row:
  "xs \<noteq> [] \<Longrightarrow> \<forall>x\<in>set xs. cell_ok x \<Longrightarrow> fresh st \<Longrightarrow>
   mode (csv_run (js_join '','' (map csv_field xs)) st) \<noteq> Quoted \<and>
   push_field (csv_run (js_join '','' (map csv_field xs)) st) = st\<lparr>cur_row := cur_row st @ map cell_text xs\<rparr>"
proof (induction xs arbitrary: st)
  case (Cons x xs)
  show ?case
  proof (cases "xs = []")
    case True
    then show ?thesis using Cons.prems csv_run_field by simp
  next
    case False
    let ?st = "csv_run (csv_field x) st"
    have f: "mode ?st \<noteq> Quoted" "push_field ?st = st\<lparr>cur_row := cur_row st @ [cell_text x]\<rparr>"
      using Cons.prems csv_run_field by simp_all
    have "csv_run (js_join '','' (map csv_field (x # xs))) st =
          csv_run (js_join '','' (map csv_field xs)) (st\<lparr>cur_row := cur_row st @ [cell_text x]\<rparr>)"
      using False f by (simp add: js_join_Cons csv_step_simps)
    then show ?thesis using Cons.IH[of "st\<lparr>cur_row := cur_row st @ [cell_text x]\<rparr>"] Cons.prems False
      by simp
  qed
qed simp

lemma csv_run_lines:
  "rs \<noteq> [] \<Longrightarrow> \<forall>r\<in>set rs. r \<noteq> [] \<and> (\<forall>x\<in>set r. cell_ok x) \<Longrightarrow> fresh st \<Longrightarrow> cur_row st = [] \<Longrightarrow>
   push_row (csv_run (js_join [nl] (map csv_line rs)) st) = st\<lparr>done_rows := done_rows st @ map (map cell_text) rs\<rparr>"
proof (induction rs arbitrary: st)
  case (Cons r rs)
  let ?st = "csv_run (csv_line r) st"
  have row: "mode ?st \<noteq> Quoted" "push_field ?st = st\<lparr>cur_row := map cell_text r\<rparr>"
    using Cons.prems csv_run_row[of r st] by (simp_all add: csv_line_def)
  then have pr: "push_row ?st = st\<lparr>done_rows := done_rows st @ [map cell_text r]\<rparr>"
    using Cons.prems by (cases st) (simp add: push_row_def Let_def)
  show ?case
  proof (cases "rs = []")
    case True
    then show ?thesis using pr by simp
  next
    case False
    have "csv_run (js_join [nl] (map csv_line (r # rs))) st =
          csv_run (js_join [nl] (map csv_line rs)) (st\<lparr>done_rows := done_rows st @ [map cell_text r]\<rparr>)"
      using False row(1) pr by (simp add: js_join_Cons csv_step_simps)
    moreover have "fresh (st\<lparr>done_rows := done_rows st @ [map cell_text r]\<rparr>)"
      using Cons.prems by (simp add: fresh_def)
    ultimately show ?thesis
      using Cons.IH[of "st\<lparr>done_rows := done_rows st @ [map cell_text r]\<rparr>"] Cons.prems False by simp
  qed
qed simp

lemma csvHeaders_cells: "js_join '','' csvHeaders = csv_line (map CStr csvHeaders)"
  by (simp add: csvHeaders_def csv_line_def needs_quotes_def)

lemma csvHeaders_ok: "\<forall>x\<in>set (map CStr csvHeaders). cell_ok x"
  by (simp add: csvHeaders_def nl_def)

lemma parse_csvContent:
  "\<forall>r\<in>set rows. r \<noteq> [] \<and> (\<forall>x\<in>set r. cell_ok x) \<Longrightarrow>
   parse_csv (csvContent rows) = csvHeaders # map (map cell_text) rows"
proof -
  assume ok: "\<forall>r\<in>set rows. r \<noteq> [] \<and> (\<forall>x\<in>set r. cell_ok x)"
  have "csvContent rows = js_join [nl] (map csv_line (map CStr csvHeaders # rows))"
    by (simp add: csvContent_def csvHeaders_cells)
  moreover have "\<forall>r\<in>set (map CStr csvHeaders # rows). r \<noteq> [] \<and> (\<forall>x\<in>set r. cell_ok x)"
    using ok csvHeaders_ok by (simp add: csvHeaders_def)
  ultimately show ?thesis
    using csv_run_lines[of "map CStr csvHeaders # rows" csv_init]
    by (simp add: parse_csv_def csv_init_def fresh_def o_def)
qed

lemma filtered_inv_step:
  "filteredUsers s = filterUsers (searchQuery s) (users s) \<Longrightarrow>
   filteredUsers (fst (usersPage_step fmt s e)) =
     filterUsers (searchQuery (fst (usersPage_step fmt s e))) (users (fst (usersPage_step fmt s e)))"
  by (cases e) (auto simp: fetchUsersDone_def syncFiltered_def split: usersResponse.splits bool.splits option.splits)

lemma filtered_inv_init: "filteredUsers usersPage_init = filterUsers (searchQuery usersPage_init) (users usersPage_init)"
  by (simp add: usersPage_init_def filterUsers_def js_trim_def)

section \<open>Properties\<close>

text \<open>C10. The CSV export reads back: when every value of the exported rows is
  written safely (no line feed outside quotes), a CSV reader recovers the
  header and, row by row, the values of the users shown, in order.\<close>

theorem usersPage_csv_roundtrip:
  "\<not> loading s \<Longrightarrow> filteredUsers s \<noteq> [] \<Longrightarrow>
   \<forall>u\<in>set (filteredUsers s). \<forall>x\<in>set (excelRow fmt u). cell_ok x \<Longrightarrow>
   \<exists>csv. usersPage_step fmt s DownloadClick = (s, [DownloadCsv csv]) \<and>
         parse_csv csv = csvHeaders # map (\<lambda>u. map cell_text (excelRow fmt u)) (filteredUsers s)"
  by (simp add: downloadExcel_def parse_csvContent excelRow_def)


text \<open>In every state of the page reached from its mount, the list shown is
  the search result of the current query over the fetched users.\<close>

theorem usersPage_filtered_inv:
  "let s = fst (run_steps (usersPage_step fmt) usersPage_init es) in
   filteredUsers s = filterUsers (searchQuery s) (users s)"
  unfolding Let_def
  using filtered_inv_step filtered_inv_init by (rule run_steps_inv)

text \<open>The search tests the trimmed query for emptiness but matches the
  untrimmed one: a leading space makes a user named Ann disappear from the
  results for \<open>ann\<close>.\<close>

theorem usersPage_search_untrimmed:
  "filterUsers ''ann'' [\<lparr>id = ''7'', phone = None, name = Some ''Ann'', email = None, is_admin = 0,
       hasCart = False, itemCount = None, cartValue = None, created_at = None, updated_at = None,
       cart_items = None\<rparr>] \<noteq> [] \<and>
   filterUsers '' ann'' [\<lparr>id = ''7'', phone = None, name = Some ''Ann'', email = None, is_admin = 0,
       hasCart = False, itemCount = None, cartValue = None, created_at = None, updated_at = None,
       cart_items = None\<rparr>] = []"
  by code_simp

text \<open>The alert \<open>No users to download\<close> is never shown: the download
  button is disabled exactly when there is nothing to export.\<close>

theorem usersPage_no_alert: "UsersAlert m \<notin> set (snd (usersPage_step fmt s e))"
  by (cases e) (simp_all add: downloadExcel_def)

text \<open>The cart dialog opens only for a user of the list who has a cart
  that is not known to be empty.\<close>

theorem usersPage_view_cart_guard:
  "\<not> cartDialogOpen s \<Longrightarrow> cartDialogOpen (fst (usersPage_step fmt s (ViewCart u))) \<Longrightarrow>
   hasCart u \<and> itemCount u \<noteq> Some 0 \<and> u \<in> set (filteredUsers s) \<and>
   selectedUser (fst (usersPage_step fmt s (ViewCart u))) = Some u"
  by (auto simp: viewCartDisabled_def split: if_splits)

text \<open>A failed fetch, or a response with \<open>success: false\<close>, only ends the
  loading state; a successful response without \<open>stats\<close> still stores the
  users (the exception comes after \<open>setUsers\<close>) and keeps the old totals.\<close>

theorem usersPage_fetch_outcomes:
  "fst (usersPage_step fmt s (UsersLoaded (UsersFailed m))) = s\<lparr>loading := False\<rparr> \<and>
   fst (usersPage_step fmt s (UsersLoaded (UsersJson False us st))) = s\<lparr>loading := False\<rparr> \<and>
   users (fst (usersPage_step fmt s (UsersLoaded (UsersJson True us None)))) = us \<and>
   stats (fst (usersPage_step fmt s (UsersLoaded (UsersJson True us None)))) = stats s"
  by (simp add: fetchUsersDone_def syncFiltered_def)

text \<open>The export and the table disagree on who is an admin: the export
  tests \<open>is_admin\<close> for truth, the table for the value 1.\<close>

theorem usersPage_admin_flag_mismatch:
  "excelRow fmt (u\<lparr>is_admin := 2\<rparr>) ! 3 = CStr ''Yes'' \<and> \<not> fst (snd (tableRow fmt (u\<lparr>is_admin := 2\<rparr>)))"
  by (simp add: excelRow_def tableRow_def)

subsection \<open>Witnesses\<close>

theorem usersPage_csv_roundtrip_witness:
  "\<not> loading (usersPage_init\<lparr>loading := False, users := [\<lparr>id = ''7'', phone = Some ''99'',
       name = Some ''Lee, Ann'', email = None, is_admin = 0, hasCart = False, itemCount = None, cartValue = None,
       created_at = None, updated_at = None, cart_items = None\<rparr>], filteredUsers := [\<lparr>id = ''7'', phone = Some ''99'',
       name = Some ''Lee, Ann'', email = None, is_admin = 0, hasCart = False, itemCount = None, cartValue = None,
       created_at = None, updated_at = None, cart_items = None\<rparr>]\<rparr>) \<and>
   (\<exists>csv. usersPage_step \<lparr>toFixed2 = \<lambda>_. ''1.00'', localeDate = \<lambda>_. ''1/2/2025'', rupee = ''Rs ''\<rparr>
      (usersPage_init\<lparr>loading := False, users := [\<lparr>id = ''7'', phone = Some ''99'',
       name = Some ''Lee, Ann'', email = None, is_admin = 0, hasCart = False, itemCount = None, cartValue = None,
       created_at = None, updated_at = None, cart_items = None\<rparr>], filteredUsers := [\<lparr>id = ''7'', phone = Some ''99'',
       name = Some ''Lee, Ann'', email = None, is_admin = 0, hasCart = False, itemCount = None, cartValue = None,
       created_at = None, updated_at = None, cart_items = None\<rparr>]\<rparr>) DownloadClick =
      (usersPage_init\<lparr>loading := False, users := [\<lparr>id = ''7'', phone = Some ''99'',
       name = Some ''Lee, Ann'', email = None, is_admin = 0, hasCart = False, itemCount = None, cartValue = None,
       created_at = None, updated_at = None, cart_items = None\<rparr>], filteredUsers := [\<lparr>id = ''7'', phone = Some ''99'',
       name = Some ''Lee, Ann'', email = None, is_admin = 0, hasCart = False, itemCount = None, cartValue = None,
       created_at = None, updated_at = None, cart_items = None\<rparr>]\<rparr>, [DownloadCsv csv]) \<and>
    parse_csv csv = [csvHeaders, [''99'', ''Lee, Ann'', ''N/A'', ''No'', ''No'', ''0'', ''Rs 0.00'', ''1/2/2025'', ''1/2/2025'']])"
proof -
  let ?u = "\<lparr>id = ''7'', phone = Some ''99'',
       name = Some ''Lee, Ann'', email = None, is_admin = 0, hasCart = False, itemCount = None, cartValue = None,
       created_at = None, updated_at = None, cart_items = None\<rparr> :: user"
  let ?f = "\<lparr>toFixed2 = \<lambda>_. ''1.00'', localeDate = \<lambda>_. ''1/2/2025'', rupee = ''Rs ''\<rparr> :: exportFormat"
  let ?s = "usersPage_init\<lparr>loading := False, users := [?u], filteredUsers := [?u]\<rparr>"
  have z: "int_str 0 = ''0''" by code_simp
  have p: "\<forall>u\<in>set (filteredUsers ?s). \<forall>x\<in>set (excelRow ?f u). cell_ok x"
    by (simp add: excelRow_def needs_quotes_def nl_def z)
  have r: "map cell_text (excelRow ?f ?u) = [''99'', ''Lee, Ann'', ''N/A'', ''No'', ''No'', ''0'', ''Rs 0.00'', ''1/2/2025'', ''1/2/2025'']"
    by (simp add: excelRow_def z)
  show ?thesis using usersPage_csv_roundtrip[of ?s ?f, OF _ _ p] r by simp
qed

theorem usersPage_view_cart_guard_witness:
  "\<not> cartDialogOpen (usersPage_init\<lparr>loading := False,
      users := [\<lparr>id = ''7'', phone = Some ''99'', name = Some ''Ann'', email = None, is_admin = 0, hasCart = True,
                 itemCount = Some 2, cartValue = Some 5, created_at = None, updated_at = None, cart_items = None\<rparr>],
      filteredUsers := [\<lparr>id = ''7'', phone = Some ''99'', name = Some ''Ann'', email = None, is_admin = 0, hasCart = True,
                 itemCount = Some 2, cartValue = Some 5, created_at = None, updated_at = None, cart_items = None\<rparr>]\<rparr>) \<and>
   cartDialogOpen (fst (usersPage_step \<lparr>toFixed2 = \<lambda>_. ''5.00'', localeDate = \<lambda>_. ''n/a'', rupee = ''Rs ''\<rparr>
     (usersPage_init\<lparr>loading := False,
      users := [\<lparr>id = ''7'', phone = Some ''99'', name = Some ''Ann'', email = None, is_admin = 0, hasCart = True,
                 itemCount = Some 2, cartValue = Some 5, created_at = None, updated_at = None, cart_items = None\<rparr>],
      filteredUsers := [\<lparr>id = ''7'', phone = Some ''99'', name = Some ''Ann'', email = None, is_admin = 0, hasCart = True,
                 itemCount = Some 2, cartValue = Some 5, created_at = None, updated_at = None, cart_items = None\<rparr>]\<rparr>)
     (ViewCart \<lparr>id = ''7'', phone = Some ''99'', name = Some ''Ann'', email = None, is_admin = 0, hasCart = True,
                 itemCount = Some 2, cartValue = Some 5, created_at = None, updated_at = None, cart_items = None\<rparr>))) \<and>
   hasCart \<lparr>id = ''7'', phone = Some ''99'', name = Some ''Ann'', email = None, is_admin = 0, hasCart = True,
                 itemCount = Some 2, cartValue = Some 5, created_at = None, updated_at = None, cart_items = None\<rparr>"
  using usersPage_view_cart_guard[of "usersPage_init\<lparr>loading := False,
      users := [\<lparr>id = ''7'', phone = Some ''99'', name = Some ''Ann'', email = None, is_admin = 0, hasCart = True,
                 itemCount = Some 2, cartValue = Some 5, created_at = None, updated_at = None, cart_items = None\<rparr>],
      filteredUsers := [\<lparr>id = ''7'', phone = Some ''99'', name = Some ''Ann'', email = None, is_admin = 0, hasCart = True,
                 itemCount = Some 2, cartValue = Some 5, created_at = None, updated_at = None, cart_items = None\<rparr>]\<rparr>"
    "\<lparr>toFixed2 = \<lambda>_. ''5.00'', localeDate = \<lambda>_. ''n/a'', rupee = ''Rs ''\<rparr>"
    "\<lparr>id = ''7'', phone = Some ''99'', name = Some ''Ann'', email = None, is_admin = 0, hasCart = True,
                 itemCount = Some 2, cartValue = Some 5, created_at = None, updated_at = None, cart_items = None\<rparr>"]
  by (simp add: usersPage_init_def viewCartDisabled_def)

end
