(* ===== verification/Storefront.thy ===== *)
theory Storefront
  imports AdminApi
begin

text \<open>
  The three providers of \<open>src/src/contexts/CartContext.jsx\<close> that the
  storefront runs under: \<open>CartProvider\<close>, \<open>WishlistProvider\<close> and the
  storefront \<open>AuthProvider\<close>.  They share \<open>localStorage\<close> (the keys
  \<open>authToken\<close> and \<open>user\<close>); the model holds that storage and the state of
  the three providers in one record, \<open>storefront\<close>, and runs every handler of
  the context values as an event of \<open>storefront_step\<close>.  As in the admin
  tabs, an \<open>await\<close> splits a handler into the request it sends, recorded as
  pending, and a response event that runs the rest.  Cart and wishlist items
  are JSON objects the client never inspects, a type variable here; so is
  the user object, which \<open>JSON.stringify\<close> and \<open>JSON.parse\<close> carry through
  storage unchanged.
\<close>

section \<open>State\<close>

record 'u storage =
  authToken :: "string option"
  userData :: "'u option"

datatype storePending = PCartFetch | PCartMutation | PCartClear | PWishFetch | PWishMutation

record ('i, 'u) storefront =
  storage :: "'u storage"
  cartItems :: "'i list"
  cartCount :: nat
  wishlistItems :: "'i list"
  wishlistCount :: nat
  user :: "'u option"
  isAuthenticated :: bool
  authLoading :: bool
  pending :: "storePending list"

definition storefront_init :: "'u storage \<Rightarrow> ('i, 'u) storefront" where
  "storefront_init st =
     \<lparr>storage = st, cartItems = [], cartCount = 0, wishlistItems = [], wishlistCount = 0,
      user = None, isAuthenticated = False, authLoading = True, pending = []\<rparr>"

text \<open>What the providers send: the requests with their \<open>Authorization\<close>
  header, and the \<open>alert\<close> boxes.\<close>

datatype 'i storeEffect =
    GetCart string
  | PostCartAdd string 'i
  | DeleteCartRemove string string
  | PutCartUpdate string string int
  | DeleteCartClear string
  | GetWishlist string
  | PostWishlistAdd string 'i
  | DeleteWishlistRemove string string
  | StoreAlert string

text \<open>The events: mounting the providers, the functions of the three context
  values, and the answer to the pending request at an index (its body's
  \<open>items\<close>, absent or not; the body of a mutation is not read).\<close>

datatype ('i, 'u) storeEvent =
    Mount
  | AddToCart 'i
  | RemoveFromCart string
  | UpdateCartItem string int
  | ClearCart
  | RefreshCart
  | AddToWishlist 'i
  | RemoveFromWishlist string
  | RefreshWishlist
  | Login 'u string
  | Logout
  | StoreResponse nat "'i list option http_response"

type_synonym ('i, 'u) storeStep = "('i, 'u) storefront \<times> 'i storeEffect list"

section \<open>Handlers\<close>


definition token :: "('i, 'u) storefront \<Rightarrow> string option" where
  "token s = authToken (storage s)"

definition send :: "storePending \<Rightarrow> 'i storeEffect \<Rightarrow> ('i, 'u) storefront \<Rightarrow> ('i, 'u) storeStep" where
  "send p r s = (s\<lparr>pending := pending s @ [p]\<rparr>, [r])"

text \<open>\<open>fetchCart\<close> and \<open>fetchWishlist\<close> up to their \<open>await\<close>: nothing without a
  token.\<close>

definition fetchCart :: "('i, 'u) storefront \<Rightarrow> ('i, 'u) storeStep" where
  "fetchCart s =
     (if js_truthy_str (token s) then send PCartFetch (GetCart (js_bearer (token s))) s else (s, []))"

definition fetchWishlist :: "('i, 'u) storefront \<Rightarrow> ('i, 'u) storeStep" where
  "fetchWishlist s =
     (if js_truthy_str (token s) then send PWishFetch (GetWishlist (js_bearer (token s))) s else (s, []))"

text \<open>After the \<open>await\<close> of a fetch: \<open>setCartItems(data.items || [])\<close> and
  \<open>setCartCount(data.items?.length || 0)\<close> when \<open>response.ok\<close>.\<close>

definition cartFetchDone :: "'i list option http_response \<Rightarrow> ('i, 'u) storefront \<Rightarrow> ('i, 'u) storefront" where
  "cartFetchDone r s =
     (case r of
        HttpOk d \<Rightarrow> s\<lparr>cartItems := (case d of None \<Rightarrow> [] | Some xs \<Rightarrow> xs),
                      cartCount := (case d of None \<Rightarrow> 0 | Some xs \<Rightarrow> length xs)\<rparr>
      | _ \<Rightarrow> s)"

definition wishFetchDone :: "'i list option http_response \<Rightarrow> ('i, 'u) storefront \<Rightarrow> ('i, 'u) storefront" where
  "wishFetchDone r s =
     (case r of
        HttpOk d \<Rightarrow> s\<lparr>wishlistItems := (case d of None \<Rightarrow> [] | Some xs \<Rightarrow> xs),
                      wishlistCount := (case d of None \<Rightarrow> 0 | Some xs \<Rightarrow> length xs)\<rparr>
      | _ \<Rightarrow> s)"

definition addToCart :: "'i \<Rightarrow> ('i, 'u) storefront \<Rightarrow> ('i, 'u) storeStep" where
  "addToCart item s =
     (if js_truthy_str (token s) then send PCartMutation (PostCartAdd (js_bearer (token s)) item) s
      else (s, [StoreAlert ''Please login to add items to cart'']))"

text \<open>\<open>removeFromCart\<close>, \<open>updateCartItem\<close> and \<open>clearCart\<close> read the token but
  do not check it.\<close>

definition removeFromCart :: "string \<Rightarrow> ('i, 'u) storefront \<Rightarrow> ('i, 'u) storeStep" where
  "removeFromCart itemId s = send PCartMutation (DeleteCartRemove (js_bearer (token s)) itemId) s"

definition updateCartItem :: "string \<Rightarrow> int \<Rightarrow> ('i, 'u) storefront \<Rightarrow> ('i, 'u) storeStep" where
  "updateCartItem itemId q s = send PCartMutation (PutCartUpdate (js_bearer (token s)) itemId q) s"

definition clearCart :: "('i, 'u) storefront \<Rightarrow> ('i, 'u) storeStep" where
  "clearCart s = send PCartClear (DeleteCartClear (js_bearer (token s))) s"

definition addToWishlist :: "'i \<Rightarrow> ('i, 'u) storefront \<Rightarrow> ('i, 'u) storeStep" where
  "addToWishlist item s =
     (if js_truthy_str (token s) then send PWishMutation (PostWishlistAdd (js_bearer (token s)) item) s
      else (s, [StoreAlert ''Please login to add items to wishlist'']))"

definition removeFromWishlist :: "string \<Rightarrow> ('i, 'u) storefront \<Rightarrow> ('i, 'u) storeStep" where
  "removeFromWishlist itemId s = send PWishMutation (DeleteWishlistRemove (js_bearer (token s)) itemId) s"

text \<open>The mount effects: \<open>WishlistProvider\<close> and \<open>CartProvider\<close> fetch, the
  \<open>AuthProvider\<close> restores the session when both keys are present.\<close>

definition authMount :: "('i, 'u) storefront \<Rightarrow> ('i, 'u) storefront" where
  "authMount s =
     (let s' = (if js_truthy_str (token s) \<and> userData (storage s) \<noteq> None
                then s\<lparr>user := userData (storage s), isAuthenticated := True\<rparr> else s)
      in s'\<lparr>authLoading := False\<rparr>)"

definition storeMount :: "('i, 'u) storefront \<Rightarrow> ('i, 'u) storeStep" where
  "storeMount s =
     (let (s1, r1) = fetchWishlist s; (s2, r2) = fetchCart s1 in (authMount s2, r1 @ r2))"

definition login :: "'u \<Rightarrow> string \<Rightarrow> ('i, 'u) storefront \<Rightarrow> ('i, 'u) storefront" where
  "login u t s = s\<lparr>storage := \<lparr>authToken = Some t, userData = Some u\<rparr>, user := Some u, isAuthenticated := True\<rparr>"

definition logout :: "('i, 'u) storefront \<Rightarrow> ('i, 'u) storefront" where
  "logout s = s\<lparr>storage := \<lparr>authToken = None, userData = None\<rparr>, user := None, isAuthenticated := False\<rparr>"

text \<open>The rest of a handler after its \<open>await\<close>; a mutation that succeeded
  refetches (\<open>await fetchCart()\<close>), reading the token again.\<close>

definition storeDone :: "storePending \<Rightarrow> 'i list option http_response \<Rightarrow> ('i, 'u) storefront \<Rightarrow> ('i, 'u) storeStep" where
  "storeDone p r s =
     (case p of
        PCartFetch \<Rightarrow> (cartFetchDone r s, [])
      | PWishFetch \<Rightarrow> (wishFetchDone r s, [])
      | PCartMutation \<Rightarrow> (case r of HttpOk _ \<Rightarrow> fetchCart s | _ \<Rightarrow> (s, []))
      | PWishMutation \<Rightarrow> (case r of HttpOk _ \<Rightarrow> fetchWishlist s | _ \<Rightarrow> (s, []))
      | PCartClear \<Rightarrow> (case r of HttpOk _ \<Rightarrow> (s\<lparr>cartItems := [], cartCount := 0\<rparr>, []) | _ \<Rightarrow> (s, [])))"

fun storefront_step :: "('i, 'u) storefront \<Rightarrow> ('i, 'u) storeEvent \<Rightarrow> ('i, 'u) storeStep" where
  "storefront_step s Mount = storeMount s"
| "storefront_step s (AddToCart i) = addToCart i s"
| "storefront_step s (RemoveFromCart i) = removeFromCart i s"
| "storefront_step s (UpdateCartItem i q) = updateCartItem i q s"
| "storefront_step s ClearCart = clearCart s"
| "storefront_step s RefreshCart = fetchCart s"
| "storefront_step s (AddToWishlist i) = addToWishlist i s"
| "storefront_step s (RemoveFromWishlist i) = removeFromWishlist i s"
| "storefront_step s RefreshWishlist = fetchWishlist s"
| "storefront_step s (Login u t) = (login u t s, [])"
| "storefront_step s Logout = (logout s, [])"
| "storefront_step s (StoreResponse k r) =
     (if k < length (pending s) then storeDone (pending s ! k) r (s\<lparr>pending := remove_nth k (pending s)\<rparr>)
      else (s, []))"

section \<open>Specification of the cart view\<close>

text \<open>What the cart shown by the client should be: a mirror of the server.
  It changes only with a snapshot the server sends (the answer to a
  \<open>GET /cart\<close>) or when the server confirms that it cleared the cart; no
  handler changes it on its own.\<close>

datatype 'i cartObs = Snapshot "'i list" | Emptied | Unchanged

definition cart_mirror :: "'i list \<Rightarrow> 'i cartObs \<Rightarrow> 'i list" where
  "cart_mirror items obs = (case obs of Snapshot xs \<Rightarrow> xs | Emptied \<Rightarrow> [] | Unchanged \<Rightarrow> items)"

definition cart_obs :: "('i, 'u) storefront \<Rightarrow> ('i, 'u) storeEvent \<Rightarrow> 'i cartObs" where
  "cart_obs s e =
     (case e of
        StoreResponse k (HttpOk d) \<Rightarrow>
          if k < length (pending s) then
            (case pending s ! k of
               PCartFetch \<Rightarrow> Snapshot (case d of None \<Rightarrow> [] | Some xs \<Rightarrow> xs)
             | PCartClear \<Rightarrow> Emptied
             | _ \<Rightarrow> Unchanged)
          else Unchanged
      | _ \<Rightarrow> Unchanged)"

definition count_inv :: "('i, 'u) storefront \<Rightarrow> bool" where
  "count_inv s \<longleftrightarrow> cartCount s = length (cartItems s) \<and> wishlistCount s = length (wishlistItems s)"

section \<open>Lemmas\<close>

lemmas store_defs = send_def fetchCart_def fetchWishlist_def cartFetchDone_def wishFetchDone_def
  addToCart_def removeFromCart_def updateCartItem_def clearCart_def addToWishlist_def
  removeFromWishlist_def authMount_def storeMount_def login_def logout_def storeDone_def token_def

lemma fetch_items [simp]:
  "cartItems (fst (fetchCart s)) = cartItems s" "cartCount (fst (fetchCart s)) = cartCount s"
  "wishlistItems (fst (fetchCart s)) = wishlistItems s" "wishlistCount (fst (fetchCart s)) = wishlistCount s"
  "cartItems (fst (fetchWishlist s)) = cartItems s" "cartCount (fst (fetchWishlist s)) = cartCount s"
  "wishlistItems (fst (fetchWishlist s)) = wishlistItems s" "wishlistCount (fst (fetchWishlist s)) = wishlistCount s"
  by (simp_all add: fetchCart_def fetchWishlist_def send_def)

lemma count_inv_step: "count_inv s \<Longrightarrow> count_inv (fst (storefront_step s e))"
proof (cases e)
  case (StoreResponse k r)
  assume "count_inv s"
  then show ?thesis using StoreResponse
    by (auto simp: count_inv_def storeDone_def cartFetchDone_def wishFetchDone_def
             split: storePending.splits http_response.splits option.splits)
qed (auto simp: count_inv_def store_defs split: prod.splits)

lemma count_inv_init: "count_inv (storefront_init st)"
  by (simp add: count_inv_def storefront_init_def)

section \<open>Properties\<close>

text \<open>C11. In every state reached from the mounted providers the badge counts
  are the lengths of the item lists: \<open>cartCount\<close> of the cart and
  \<open>wishlistCount\<close> of the wishlist.\<close>

theorem storefront_count_inv:
  "count_inv (fst (run_steps storefront_step (storefront_init st) es))"
  using count_inv_step count_inv_init by (rule run_steps_inv)

text \<open>C12. The client's cart refines the mirror specification: after every
  event the cart shown is what the mirror makes of the observation, so it
  changes only with a snapshot from the server or a confirmed clear.\<close>

theorem storefront_cart_mirror:
  "cartItems (fst (storefront_step s e)) = cart_mirror (cartItems s) (cart_obs s e)"
proof (cases e)
  case (StoreResponse k r)
  then show ?thesis
    by (auto simp: cart_mirror_def cart_obs_def storeDone_def cartFetchDone_def wishFetchDone_def
             split: storePending.splits http_response.splits option.splits)
qed (auto simp: cart_mirror_def cart_obs_def store_defs split: prod.splits)

text \<open>C24. Without a stored token, removing, updating and clearing still send
  their requests, with the header \<open>Bearer null\<close>.\<close>

theorem storefront_bearer_null:
  "token s = None \<Longrightarrow>
   snd (storefront_step s (RemoveFromCart i)) = [DeleteCartRemove ''Bearer null'' i] \<and>
   snd (storefront_step s (UpdateCartItem i q)) = [PutCartUpdate ''Bearer null'' i q] \<and>
   snd (storefront_step s ClearCart) = [DeleteCartClear ''Bearer null''] \<and>
   snd (storefront_step s (RemoveFromWishlist i)) = [DeleteWishlistRemove ''Bearer null'' i]"
  by (simp add: store_defs js_bearer_def)

text \<open>Adding to the cart or the wishlist without a token changes nothing
  and only shows the login alert.\<close>

theorem storefront_add_requires_login:
  "\<not> js_truthy_str (token s) \<Longrightarrow>
   storefront_step s (AddToCart i) = (s, [StoreAlert ''Please login to add items to cart'']) \<and>
   storefront_step s (AddToWishlist i) = (s, [StoreAlert ''Please login to add items to wishlist''])"
  by (simp add: addToCart_def addToWishlist_def)

text \<open>Logging out forgets the token and the user but keeps the cart and
  the wishlist of the user who left, with their counts.\<close>

theorem storefront_logout_keeps_cart:
  "let t = fst (storefront_step s Logout) in
   token t = None \<and> user t = None \<and> \<not> isAuthenticated t \<and>
   cartItems t = cartItems s \<and> cartCount t = cartCount s \<and>
   wishlistItems t = wishlistItems s \<and> wishlistCount t = wishlistCount s"
  by (simp add: logout_def token_def)

text \<open>C32. After logging in, refreshing the cart sends \<open>GET /cart\<close> with the
  new token, and the server's answer becomes the cart shown.\<close>

theorem storefront_login_refresh:
  "t \<noteq> [] \<Longrightarrow>
   run_steps storefront_step s [Login u t, RefreshCart, StoreResponse (length (pending s)) (HttpOk (Some xs))] =
     ((login u t s)\<lparr>cartItems := xs, cartCount := length xs\<rparr>, [GetCart (''Bearer '' @ t)])"
  by (simp add: store_defs js_bearer_def remove_nth_def)

subsection \<open>Witnesses\<close>

theorem storefront_bearer_null_witness:
  "token (storefront_init \<lparr>authToken = None, userData = None\<rparr> :: (string, string) storefront) = None \<and>
   snd (storefront_step (storefront_init \<lparr>authToken = None, userData = None\<rparr> :: (string, string) storefront)
          ClearCart) = [DeleteCartClear ''Bearer null'']"
  using storefront_bearer_null[of "storefront_init \<lparr>authToken = None, userData = None\<rparr> :: (string, string) storefront"]
  by (simp add: storefront_init_def token_def)

theorem storefront_add_requires_login_witness:
  "\<not> js_truthy_str (token (storefront_init \<lparr>authToken = Some [], userData = None\<rparr> :: (string, string) storefront)) \<and>
   storefront_step (storefront_init \<lparr>authToken = Some [], userData = None\<rparr> :: (string, string) storefront)
     (AddToCart ''ring-1'') =
     (storefront_init \<lparr>authToken = Some [], userData = None\<rparr>, [StoreAlert ''Please login to add items to cart''])"
  using storefront_add_requires_login[of "storefront_init \<lparr>authToken = Some [], userData = None\<rparr> :: (string, string) storefront"]
  by (simp add: storefront_init_def token_def)

theorem storefront_login_refresh_witness:
  "''tok'' \<noteq> [] \<and>
   cartItems (fst (run_steps storefront_step
     (storefront_init \<lparr>authToken = None, userData = None\<rparr> :: (string, string) storefront)
     [Login ''ann'' ''tok'', RefreshCart, StoreResponse 0 (HttpOk (Some [''ring-1'']))])) = [''ring-1'']"
  using storefront_login_refresh[of "''tok''" "storefront_init \<lparr>authToken = None, userData = None\<rparr> :: (string, string) storefront"
          "''ann''" "[''ring-1'']"]
  by (simp add: storefront_init_def)

end
