(* ===== verification/AdminAuth.thy ===== *)
theory AdminAuth
  imports Prelude
begin

text \<open>
  The admin \<open>AuthProvider\<close> of \<open>src/src/contexts/AuthContext.jsx\<close>: the
  session lives in \<open>localStorage\<close> under \<open>adminToken\<close> and \<open>adminUser\<close> (a
  JSON text); \<open>checkAuth\<close> runs on mount and accepts a stored session only
  for a user whose \<open>isAdmin\<close> is set, \<open>login\<close> stores a session, and
  \<open>logout\<close> removes it and navigates to \<open>/login\<close>.  A stored user text is
  either the JSON of a user or text \<open>JSON.parse\<close> rejects.
\<close>

record adminUser =
  adminName :: string
  isAdmin :: bool

datatype storedUser = StoredUser adminUser | StoredGarbage string

record adminAuth =
  adminToken :: "string option"
  adminUserText :: "storedUser option"
  authUser :: "adminUser option"
  authLoading :: bool

datatype adminAuthEffect = NavigateTo string

definition adminAuth_init :: "string option \<Rightarrow> storedUser option \<Rightarrow> adminAuth" where
  "adminAuth_init t u = \<lparr>adminToken = t, adminUserText = u, authUser = None, authLoading = True\<rparr>"

text \<open>\<open>if (token && userData)\<close>: a stored text is truthy unless empty; the JSON
  text of a user never is.\<close>

definition stored_truthy :: "storedUser option \<Rightarrow> bool" where
  "stored_truthy u = (case u of None \<Rightarrow> False | Some (StoredUser _) \<Rightarrow> True | Some (StoredGarbage t) \<Rightarrow> t \<noteq> [])"

definition adminLogout :: "adminAuth \<Rightarrow> adminAuth \<times> adminAuthEffect list" where
  "adminLogout s = (s\<lparr>adminToken := None, adminUserText := None, authUser := None\<rparr>, [NavigateTo ''/login''])"

definition checkAuth :: "adminAuth \<Rightarrow> adminAuth \<times> adminAuthEffect list" where
  "checkAuth s =
     (let (s', r) =
        (if js_truthy_str (adminToken s) \<and> stored_truthy (adminUserText s) then
           (case adminUserText s of
              Some (StoredUser u) \<Rightarrow> if isAdmin u then (s\<lparr>authUser := Some u\<rparr>, []) else adminLogout s
            | _ \<Rightarrow> adminLogout s)
         else (s, []))
      in (s'\<lparr>authLoading := False\<rparr>, r))"

definition adminLogin :: "string \<Rightarrow> adminUser \<Rightarrow> adminAuth \<Rightarrow> adminAuth" where
  "adminLogin t u s = s\<lparr>adminToken := Some t, adminUserText := Some (StoredUser u), authUser := Some u\<rparr>"

definition adminIsAuthenticated :: "adminAuth \<Rightarrow> bool" where
  "adminIsAuthenticated s \<longleftrightarrow> authUser s \<noteq> None"

section \<open>Properties\<close>

text \<open>C25. After the mount check, a signed-in user is an administrator, and a
  stored session of a user who is not, or whose text does not parse, is
  removed with a redirect to the login page.\<close>

theorem adminAuth_checkAuth:
  "let (s, r) = checkAuth (adminAuth_init t u) in
   \<not> authLoading s \<and>
   (\<forall>v. authUser s = Some v \<longrightarrow> isAdmin v) \<and>
   (js_truthy_str t \<and> stored_truthy u \<and> authUser s = None \<longrightarrow>
      adminToken s = None \<and> adminUserText s = None \<and> r = [NavigateTo ''/login''])"
  by (auto simp: checkAuth_def adminAuth_init_def adminLogout_def split: option.splits storedUser.splits)

text \<open>\<open>login\<close> does not check \<open>isAdmin\<close>: a user who is not an administrator
  is signed in until the next mount, whose check then signs them out.\<close>

theorem adminAuth_login_unchecked:
  "\<not> isAdmin u \<Longrightarrow> t \<noteq> [] \<Longrightarrow>
   adminIsAuthenticated (adminLogin t u s) \<and>
   (let (s', r) = checkAuth (adminAuth_init (adminToken (adminLogin t u s)) (adminUserText (adminLogin t u s))) in
      \<not> adminIsAuthenticated s' \<and> r = [NavigateTo ''/login''])"
  by (simp add: adminLogin_def adminIsAuthenticated_def checkAuth_def adminAuth_init_def adminLogout_def
                stored_truthy_def)

subsection \<open>Witnesses\<close>

theorem adminAuth_login_unchecked_witness:
  "\<not> isAdmin \<lparr>adminName = ''shop'', isAdmin = False\<rparr> \<and> ''tok'' \<noteq> [] \<and>
   adminIsAuthenticated (adminLogin ''tok'' \<lparr>adminName = ''shop'', isAdmin = False\<rparr> (adminAuth_init None None))"
  using adminAuth_login_unchecked[of "\<lparr>adminName = ''shop'', isAdmin = False\<rparr>" "''tok''" "adminAuth_init None None"]
  by simp

theorem adminAuth_checkAuth_witness:
  "fst (checkAuth (adminAuth_init (Some ''tok'') (Some (StoredUser \<lparr>adminName = ''shop'', isAdmin = False\<rparr>)))) =
     \<lparr>adminToken = None, adminUserText = None, authUser = None, authLoading = False\<rparr> \<and>
   snd (checkAuth (adminAuth_init (Some ''tok'') (Some (StoredUser \<lparr>adminName = ''shop'', isAdmin = False\<rparr>)))) =
     [NavigateTo ''/login'']"
  using adminAuth_checkAuth[of "Some ''tok''" "Some (StoredUser \<lparr>adminName = ''shop'', isAdmin = False\<rparr>)"]
  by (simp add: checkAuth_def adminAuth_init_def adminLogout_def stored_truthy_def)

end
