(* ===== verification/HeroCarousel.thy ===== *)
theory HeroCarousel
  imports AdminApi
begin

text \<open>
  The banner carousel of \<open>src/src/components/homepage/HeroCarousel.jsx\<close>.
  Its index is a JavaScript number, and the arithmetic of \<open>nextSlide\<close> and
  \<open>prevSlide\<close> is \<open>%\<close> by \<open>banners.length\<close>: while the banners are still
  loading that length is 0 and the remainder is \<open>NaN\<close>.  The model keeps
  that: \<open>jsnum\<close> is an integer or \<open>NaN\<close>, with the \<open>+\<close>, \<open>-\<close> and the
  truncating \<open>%\<close> of JavaScript, and an array read at \<open>NaN\<close> or out of
  range is \<open>undefined\<close>.  The state is the four hooks, the events are the
  fetch answer, the arrow keys (the listener is installed at mount, before
  the banners arrive), the five-second interval (running while there are
  banners and the pointer is not over them), hovering, and the dots.
\<close>

section \<open>JavaScript numbers\<close>

datatype jsnum = JNum int | JNaN

fun js_add :: "jsnum \<Rightarrow> jsnum \<Rightarrow> jsnum" where
  "js_add (JNum a) (JNum b) = JNum (a + b)"
| "js_add _ _ = JNaN"

fun js_sub :: "jsnum \<Rightarrow> jsnum \<Rightarrow> jsnum" where
  "js_sub (JNum a) (JNum b) = JNum (a - b)"
| "js_sub _ _ = JNaN"

text \<open>\<open>a % b\<close>: the remainder of the division truncated toward zero, with the
  sign of \<open>a\<close>; \<open>NaN\<close> when \<open>b\<close> is 0.\<close>

fun js_mod :: "jsnum \<Rightarrow> jsnum \<Rightarrow> jsnum" where
  "js_mod (JNum a) (JNum b) = (if b = 0 then JNaN else JNum (sgn a * (\<bar>a\<bar> mod \<bar>b\<bar>)))"
| "js_mod _ _ = JNaN"

text \<open>\<open>xs[i]\<close>: \<open>undefined\<close> (None) at \<open>NaN\<close> and outside the array.\<close>

fun js_index :: "'a list \<Rightarrow> jsnum \<Rightarrow> 'a option" where
  "js_index xs (JNum i) = (if 0 \<le> i \<and> i < int (length xs) then Some (xs ! nat i) else None)"
| "js_index xs JNaN = None"

definition js_len :: "'a list \<Rightarrow> jsnum" where
  "js_len xs = JNum (int (length xs))"

section \<open>State and events\<close>

record banner =
  bannerId :: string
  imageUrl :: string
  mobileImageUrl :: "string option"
  title :: "string option"
  subtitle :: "string option"
  ctaText :: "string option"
  ctaLink :: "string option"
  order :: int
  isActive :: bool

record heroCarousel =
  banners :: "banner list"
  currentIndex :: jsnum
  loading :: bool
  isPaused :: bool

definition heroCarousel_init :: heroCarousel where
  "heroCarousel_init = \<lparr>banners = [], currentIndex = JNum 0, loading = True, isPaused = False\<rparr>"

datatype heroEvent =
    BannersLoaded "banner list http_response"
  | KeyArrowLeft
  | KeyArrowRight
  | IntervalTick
  | MouseEnter
  | MouseLeave
  | DotClick nat

text \<open>\<open>loadLocalBanners\<close>: four bundled banners (their image URLs, resolved
  against the module at run time, are kept as the relative paths).\<close>

definition localBanners :: "banner list" where
  "localBanners =
     [\<lparr>bannerId = ''local-banner-1'', imageUrl = ''../media/banners/banner1.jpeg'',
       mobileImageUrl = Some ''../media/banners/banner1-mobile.jpg'', title = Some ''Exquisite Diamond Collection'',
       subtitle = Some ''Discover timeless elegance'', ctaText = Some ''Shop Now'', ctaLink = Some ''/collections'',
       order = 1, isActive = True\<rparr>,
      \<lparr>bannerId = ''local-banner-2'', imageUrl = ''../media/banners/banner2.jpg'',
       mobileImageUrl = Some ''../media/banners/banner2-mobile.jpg'', title = Some ''New Arrivals'',
       subtitle = Some ''Trending diamond jewellery'', ctaText = Some ''Explore'', ctaLink = Some ''/new-arrivals'',
       order = 2, isActive = True\<rparr>,
      \<lparr>bannerId = ''local-banner-3'', imageUrl = ''../media/banners/banner3.jpg'',
       mobileImageUrl = Some ''../media/banners/banner2-mobile.jpg'', title = Some ''New Arrivals'',
       subtitle = Some ''Trending diamond jewellery'', ctaText = Some ''Explore'', ctaLink = Some ''/new-arrivals'',
       order = 3, isActive = True\<rparr>,
      \<lparr>bannerId = ''local-banner-4'', imageUrl = ''../media/banners/banner4.jpg'',
       mobileImageUrl = Some ''../media/banners/banner2-mobile.jpg'', title = Some ''New Arrivals'',
       subtitle = Some ''Trending diamond jewellery'', ctaText = Some ''Explore'', ctaLink = Some ''/new-arrivals'',
       order = 4, isActive = True\<rparr>]"

text \<open>\<open>fetchBanners\<close> after its \<open>await\<close>: the active banners sorted by
  \<open>order\<close> (a stable sort), or the local banners when there are none or the
  request failed; \<open>loading\<close> ends either way.\<close>

definition fetchBannersDone :: "banner list http_response \<Rightarrow> heroCarousel \<Rightarrow> heroCarousel" where
  "fetchBannersDone r s =
     (let bs = (case r of
                  HttpOk data \<Rightarrow>
                    (let active = sort_key order (filter isActive data) in
                     if active \<noteq> [] then active else localBanners)
                | _ \<Rightarrow> localBanners)
      in s\<lparr>banners := bs, loading := False\<rparr>)"

definition nextSlide :: "heroCarousel \<Rightarrow> heroCarousel" where
  "nextSlide s = s\<lparr>currentIndex := js_mod (js_add (currentIndex s) (JNum 1)) (js_len (banners s))\<rparr>"

definition prevSlide :: "heroCarousel \<Rightarrow> heroCarousel" where
  "prevSlide s =
     s\<lparr>currentIndex := js_mod (js_add (js_sub (currentIndex s) (JNum 1)) (js_len (banners s))) (js_len (banners s))\<rparr>"

definition getPrevIndex :: "heroCarousel \<Rightarrow> jsnum" where
  "getPrevIndex s = js_mod (js_add (js_sub (currentIndex s) (JNum 1)) (js_len (banners s))) (js_len (banners s))"

definition getNextIndex :: "heroCarousel \<Rightarrow> jsnum" where
  "getNextIndex s = js_mod (js_add (currentIndex s) (JNum 1)) (js_len (banners s))"

text \<open>The only fetch is the one of the mount effect, so its answer arrives
  while \<open>loading\<close>.  Which controls exist: the interval runs while there are banners and
  the carousel is not paused; the hover area is rendered once loading is
  over and there are banners, the dots when there are two or more.\<close>

fun heroCarousel_step :: "heroCarousel \<Rightarrow> heroEvent \<Rightarrow> heroCarousel" where
  "heroCarousel_step s (BannersLoaded r) = (if loading s then fetchBannersDone r s else s)"
| "heroCarousel_step s KeyArrowLeft = prevSlide s"
| "heroCarousel_step s KeyArrowRight = nextSlide s"
| "heroCarousel_step s IntervalTick = (if banners s \<noteq> [] \<and> \<not> isPaused s then nextSlide s else s)"
| "heroCarousel_step s MouseEnter = (if loading s \<or> banners s = [] then s else s\<lparr>isPaused := True\<rparr>)"
| "heroCarousel_step s MouseLeave = (if loading s \<or> banners s = [] then s else s\<lparr>isPaused := False\<rparr>)"
| "heroCarousel_step s (DotClick i) =
     (if loading s \<or> length (banners s) \<le> 1 \<or> length (banners s) \<le> i then s
      else s\<lparr>currentIndex := JNum (int i)\<rparr>)"

text \<open>The render: with two or more banners it reads
  \<open>banners[getPrevIndex()].imageUrl\<close> and \<open>banners[getNextIndex()].imageUrl\<close>,
  which throws a \<open>TypeError\<close> when either index reads \<open>undefined\<close>; the
  banner shown is the one whose index equals \<open>currentIndex\<close>.\<close>

definition heroRenderThrows :: "heroCarousel \<Rightarrow> bool" where
  "heroRenderThrows s \<longleftrightarrow>
     \<not> loading s \<and> 1 < length (banners s) \<and>
     (js_index (banners s) (getPrevIndex s) = None \<or> js_index (banners s) (getNextIndex s) = None)"

definition shownBanner :: "heroCarousel \<Rightarrow> banner option" where
  "shownBanner s = (if loading s then None else js_index (banners s) (currentIndex s))"

definition hero_valid_index :: "heroCarousel \<Rightarrow> bool" where
  "hero_valid_index s \<longleftrightarrow> (\<exists>i. currentIndex s = JNum i \<and> 0 \<le> i \<and> i < int (length (banners s)))"

definition hero_loaded_inv :: "heroCarousel \<Rightarrow> bool" where
  "hero_loaded_inv s \<longleftrightarrow> loading s \<or> 0 < length (banners s)"

section \<open>Lemmas\<close>

lemma js_mod_nonneg: "0 \<le> a \<Longrightarrow> 0 < b \<Longrightarrow> js_mod (JNum a) (JNum b) = JNum (a mod b)"
  by (auto simp: sgn_if)

lemma slide_fields [simp]:
  "loading (nextSlide s) = loading s" "banners (nextSlide s) = banners s" "isPaused (nextSlide s) = isPaused s"
  "loading (prevSlide s) = loading s" "banners (prevSlide s) = banners s" "isPaused (prevSlide s) = isPaused s"
  by (simp_all add: nextSlide_def prevSlide_def)

lemma localBanners_length [simp]: "length localBanners = 4"
  by (simp add: localBanners_def)

lemma fetchBannersDone_nonempty: "banners (fetchBannersDone r s) \<noteq> [] \<and> \<not> loading (fetchBannersDone r s)"
  by (auto simp: fetchBannersDone_def Let_def localBanners_def split: http_response.splits)

lemma hero_loaded_inv_step: "hero_loaded_inv s \<Longrightarrow> hero_loaded_inv (heroCarousel_step s e)"
  by (cases e) (auto simp: hero_loaded_inv_def nextSlide_def prevSlide_def fetchBannersDone_nonempty)

lemma js_mod_range: "0 \<le> a \<Longrightarrow> 0 < b \<Longrightarrow> \<exists>c. js_mod (JNum a) (JNum b) = JNum c \<and> 0 \<le> c \<and> c < b"
  using js_mod_nonneg[of a b] by (simp del: js_mod.simps)

lemma valid_index_next: "hero_valid_index s \<Longrightarrow> hero_valid_index (nextSlide s)"
proof -
  assume "hero_valid_index s"
  then obtain i where i: "currentIndex s = JNum i" "0 \<le> i" "i < int (length (banners s))"
    by (auto simp: hero_valid_index_def)
  moreover have "banners s \<noteq> []" using i by auto
  ultimately show ?thesis
    using js_mod_range[of "i + 1" "int (length (banners s))"]
    by (auto simp: hero_valid_index_def nextSlide_def js_len_def simp del: js_mod.simps)
qed

lemma valid_index_prev: "hero_valid_index s \<Longrightarrow> hero_valid_index (prevSlide s)"
proof -
  assume "hero_valid_index s"
  then obtain i where i: "currentIndex s = JNum i" "0 \<le> i" "i < int (length (banners s))"
    by (auto simp: hero_valid_index_def)
  moreover have "banners s \<noteq> []" using i by auto
  ultimately show ?thesis
    using js_mod_range[of "i - 1 + int (length (banners s))" "int (length (banners s))"]
    by (auto simp: hero_valid_index_def prevSlide_def js_len_def simp del: js_mod.simps)
qed

lemma valid_index_step:
  "\<not> loading s \<Longrightarrow> hero_valid_index s \<Longrightarrow>
   \<not> loading (heroCarousel_step s e) \<and> hero_valid_index (heroCarousel_step s e)"
  by (cases e) (simp_all add: valid_index_next valid_index_prev, auto simp: hero_valid_index_def)

lemma valid_index_steps:
  "\<not> loading s \<Longrightarrow> hero_valid_index s \<Longrightarrow>
   \<not> loading (foldl heroCarousel_step s es) \<and> hero_valid_index (foldl heroCarousel_step s es)"
  by (induction es arbitrary: s) (simp_all add: valid_index_step)

lemma valid_index_render:
  "\<not> loading s \<Longrightarrow> hero_valid_index s \<Longrightarrow> \<not> heroRenderThrows s \<and> shownBanner s \<noteq> None"
  by (auto simp: hero_valid_index_def heroRenderThrows_def shownBanner_def getPrevIndex_def
                 getNextIndex_def js_len_def)

section \<open>Properties\<close>

text \<open>Once loading is over there is at least one banner: an empty or
  failed answer falls back to the local banners, so the hero is never
  empty after loading.\<close>

theorem heroCarousel_loaded_nonempty:
  "hero_loaded_inv (foldl heroCarousel_step heroCarousel_init es)"
proof -
  have "hero_loaded_inv s \<Longrightarrow> hero_loaded_inv (foldl heroCarousel_step s es)" for s
    by (induction es arbitrary: s) (simp_all add: hero_loaded_inv_step)
  then show ?thesis by (simp add: hero_loaded_inv_def heroCarousel_init_def)
qed

text \<open>C18. When no arrow key is pressed before the banners arrive, the index
  stays a valid position through every later event (arrows, interval,
  dots, hovering): the render never reads outside the banners and always
  shows one.\<close>

theorem heroCarousel_index_bounds:
  "let s = foldl heroCarousel_step heroCarousel_init (BannersLoaded r # es) in
   hero_valid_index s \<and> \<not> heroRenderThrows s \<and> shownBanner s \<noteq> None"
proof -
  let ?s0 = "heroCarousel_step heroCarousel_init (BannersLoaded r)"
  have "\<not> loading ?s0 \<and> hero_valid_index ?s0"
    using fetchBannersDone_nonempty[of r heroCarousel_init]
    by (auto simp: heroCarousel_init_def hero_valid_index_def fetchBannersDone_def Let_def)
  then show ?thesis using valid_index_steps[of ?s0 es] valid_index_render by (simp add: Let_def)
qed

text \<open>C28. An arrow key pressed while the banners are loading divides by the
  length 0: the index becomes \<open>NaN\<close> and stays so; after loading no banner
  is shown, and with the local banners the render throws reading
  \<open>banners[NaN].imageUrl\<close>.\<close>

theorem heroCarousel_key_while_loading:
  "currentIndex (foldl heroCarousel_step heroCarousel_init [KeyArrowRight, BannersLoaded r]) = JNaN \<and>
   shownBanner (foldl heroCarousel_step heroCarousel_init [KeyArrowRight, BannersLoaded r]) = None \<and>
   heroRenderThrows (foldl heroCarousel_step heroCarousel_init [KeyArrowLeft, BannersLoaded (NetworkError m)])"
  by (simp add: heroCarousel_init_def nextSlide_def prevSlide_def js_len_def fetchBannersDone_def
                shownBanner_def heroRenderThrows_def getPrevIndex_def)

end
