(* ===== verification/ReviewsCarousel.thy ===== *)
theory ReviewsCarousel
  imports HeroCarousel
begin

text \<open>
  The reviews carousel of \<open>src/src/components/homepage/ReviewsCarousel.jsx\<close>:
  a window of three consecutive reviews, taken cyclically from
  \<open>currentIndex\<close>, rotated by an interval while the pointer is not over it,
  and by arrows and dots shown when there are more than three reviews.  The
  index arithmetic is the one of \<open>HeroCarousel\<close>, on \<open>jsnum\<close>; here every
  control that moves the index exists only while there are reviews, so the
  index never becomes \<open>NaN\<close>.
\<close>

record review =
  reviewId :: string
  customerName :: string
  customerAvatar :: "string option"
  rating :: rat
  reviewText :: string
  reviewDate :: string
  isVerified :: bool

record reviewsCarousel =
  reviews :: "review list"
  rLoading :: bool
  rIndex :: jsnum
  isHovered :: bool

definition reviewsCarousel_init :: reviewsCarousel where
  "reviewsCarousel_init = \<lparr>reviews = [], rLoading = True, rIndex = JNum 0, isHovered = False\<rparr>"

datatype reviewsEvent =
    ReviewsLoaded "review list http_response"
  | ReviewsPrev
  | ReviewsNext
  | ReviewsDot nat
  | ReviewsTick
  | ReviewsEnter
  | ReviewsLeave

text \<open>\<open>fetchReviews\<close> after its \<open>await\<close>: the body replaces the reviews when
  the response is ok; loading ends either way.\<close>

definition fetchReviewsDone :: "review list http_response \<Rightarrow> reviewsCarousel \<Rightarrow> reviewsCarousel" where
  "fetchReviewsDone r s =
     (case r of HttpOk data \<Rightarrow> s\<lparr>reviews := data, rLoading := False\<rparr> | _ \<Rightarrow> s\<lparr>rLoading := False\<rparr>)"

definition reviewsNext :: "reviewsCarousel \<Rightarrow> reviewsCarousel" where
  "reviewsNext s = s\<lparr>rIndex := js_mod (js_add (rIndex s) (JNum 1)) (js_len (reviews s))\<rparr>"

definition reviewsPrev :: "reviewsCarousel \<Rightarrow> reviewsCarousel" where
  "reviewsPrev s = s\<lparr>rIndex := js_mod (js_add (js_sub (rIndex s) (JNum 1)) (js_len (reviews s))) (js_len (reviews s))\<rparr>"

text \<open>\<open>getVisibleReviews\<close>: \<open>reviews[(currentIndex + i) % reviews.length]\<close>
  for \<open>i = 0, 1, 2\<close>.\<close>

definition visibleReviews :: "reviewsCarousel \<Rightarrow> review option list" where
  "visibleReviews s =
     (if reviews s = [] then []
      else map (\<lambda>i. js_index (reviews s) (js_mod (js_add (rIndex s) (JNum i)) (js_len (reviews s)))) [0, 1, 2])"

text \<open>The controls: the interval runs while there are reviews and the pointer
  is outside; the hover area is rendered once there are reviews; arrows and
  dots only when there are more than three.\<close>

fun reviewsCarousel_step :: "reviewsCarousel \<Rightarrow> reviewsEvent \<Rightarrow> reviewsCarousel" where
  "reviewsCarousel_step s (ReviewsLoaded r) = (if rLoading s then fetchReviewsDone r s else s)"
| "reviewsCarousel_step s ReviewsPrev = (if rLoading s \<or> length (reviews s) \<le> 3 then s else reviewsPrev s)"
| "reviewsCarousel_step s ReviewsNext = (if rLoading s \<or> length (reviews s) \<le> 3 then s else reviewsNext s)"
| "reviewsCarousel_step s (ReviewsDot i) =
     (if rLoading s \<or> length (reviews s) \<le> 3 \<or> length (reviews s) \<le> i then s else s\<lparr>rIndex := JNum (int i)\<rparr>)"
| "reviewsCarousel_step s ReviewsTick = (if \<not> isHovered s \<and> reviews s \<noteq> [] then reviewsNext s else s)"
| "reviewsCarousel_step s ReviewsEnter = (if rLoading s \<or> reviews s = [] then s else s\<lparr>isHovered := True\<rparr>)"
| "reviewsCarousel_step s ReviewsLeave = (if rLoading s \<or> reviews s = [] then s else s\<lparr>isHovered := False\<rparr>)"

text \<open>\<open>getRelativeTime\<close> for a difference of \<open>d\<close> whole days
  (\<open>Math.floor(diffInMs / 86400000)\<close>).\<close>

definition getRelativeTime :: "int \<Rightarrow> string" where
  "getRelativeTime d =
     (if d = 0 then ''Today''
      else if d = 1 then ''Yesterday''
      else if d < 30 then int_str d @ '' days ago''
      else if d < 60 then ''1 month ago''
      else if d < 365 then int_str (d div 30) @ '' months ago''
      else int_str (d div 365) @ '' years ago'')"

definition reviews_index_ok :: "reviewsCarousel \<Rightarrow> bool" where
  "reviews_index_ok s \<longleftrightarrow>
     (\<exists>i. rIndex s = JNum i \<and> 0 \<le> i \<and>
          (reviews s = [] \<and> i = 0 \<or> i < int (length (reviews s)) \<and> rLoading s = False))"

section \<open>Lemmas\<close>

lemma reviews_fields [simp]:
  "reviews (reviewsNext s) = reviews s" "rLoading (reviewsNext s) = rLoading s"
  "reviews (reviewsPrev s) = reviews s" "rLoading (reviewsPrev s) = rLoading s"
  by (simp_all add: reviewsNext_def reviewsPrev_def)

lemma index_ok_nonempty:
  "reviews s \<noteq> [] \<Longrightarrow> reviews_index_ok s \<Longrightarrow>
   \<exists>i. rIndex s = JNum i \<and> 0 \<le> i \<and> i < int (length (reviews s)) \<and> rLoading s = False"
  by (auto simp: reviews_index_ok_def)

lemma index_ok_next: "reviews s \<noteq> [] \<Longrightarrow> reviews_index_ok s \<Longrightarrow> reviews_index_ok (reviewsNext s)"
proof -
  assume ne: "reviews s \<noteq> []" and "reviews_index_ok s"
  then obtain i where i: "rIndex s = JNum i" "0 \<le> i" "i < int (length (reviews s))" "rLoading s = False"
    using index_ok_nonempty by blast
  then show ?thesis
    using js_mod_range[of "i + 1" "int (length (reviews s))"] ne
    by (auto simp: reviews_index_ok_def reviewsNext_def js_len_def simp del: js_mod.simps)
qed

lemma index_ok_prev: "reviews s \<noteq> [] \<Longrightarrow> reviews_index_ok s \<Longrightarrow> reviews_index_ok (reviewsPrev s)"
proof -
  assume ne: "reviews s \<noteq> []" and "reviews_index_ok s"
  then obtain i where i: "rIndex s = JNum i" "0 \<le> i" "i < int (length (reviews s))" "rLoading s = False"
    using index_ok_nonempty by blast
  then show ?thesis
    using js_mod_range[of "i - 1 + int (length (reviews s))" "int (length (reviews s))"] ne
    by (auto simp: reviews_index_ok_def reviewsPrev_def js_len_def simp del: js_mod.simps)
qed

lemma index_ok_step: "reviews_index_ok s \<Longrightarrow> reviews_index_ok (reviewsCarousel_step s e)"
proof (cases e)
  case (ReviewsLoaded r)
  assume "reviews_index_ok s"
  then show ?thesis using ReviewsLoaded
    by (auto simp: fetchReviewsDone_def reviews_index_ok_def split: http_response.splits)
next
  case ReviewsPrev
  assume "reviews_index_ok s"
  then show ?thesis using ReviewsPrev index_ok_prev[of s] by (cases "reviews s") auto
next
  case ReviewsNext
  assume "reviews_index_ok s"
  then show ?thesis using ReviewsNext index_ok_next[of s] by (cases "reviews s") auto
next
  case ReviewsTick
  assume "reviews_index_ok s"
  then show ?thesis using ReviewsTick index_ok_next[of s] by auto
qed (auto simp: reviews_index_ok_def)

lemma visible_empty: "reviews s = [] \<Longrightarrow> visibleReviews s = []"
  by (simp add: visibleReviews_def)

lemma visible_window:
  "rIndex s = JNum i \<Longrightarrow> 0 \<le> i \<Longrightarrow> i < int (length (reviews s)) \<Longrightarrow>
   visibleReviews s = map (\<lambda>k. Some (reviews s ! nat ((i + k) mod int (length (reviews s))))) [0, 1, 2]"
  by (auto simp: visibleReviews_def js_len_def js_mod_nonneg simp del: js_mod.simps)

section \<open>Properties\<close>

text \<open>C36. In every state reached from the mount the index is a position of
  the reviews (or 0 while there are none), and the carousel shows the three
  reviews that follow it cyclically; with fewer than three reviews one of
  them is shown twice.\<close>

theorem reviewsCarousel_window:
  "let s = foldl reviewsCarousel_step reviewsCarousel_init es in
   \<exists>i. rIndex s = JNum i \<and> 0 \<le> i \<and>
       (reviews s = [] \<and> visibleReviews s = [] \<or>
        i < int (length (reviews s)) \<and>
        visibleReviews s = map (\<lambda>k. Some (reviews s ! nat ((i + k) mod int (length (reviews s))))) [0, 1, 2])"
proof -
  have "reviews_index_ok s \<Longrightarrow> reviews_index_ok (foldl reviewsCarousel_step s es)" for s
    by (induction es arbitrary: s) (simp_all add: index_ok_step)
  then have "reviews_index_ok (foldl reviewsCarousel_step reviewsCarousel_init es)"
    by (simp add: reviews_index_ok_def reviewsCarousel_init_def)
  then show ?thesis
    unfolding reviews_index_ok_def Let_def
    by (elim exE conjE disjE) (auto simp: visible_window visible_empty)
qed

end
