(* ===== verification/ReelsSection.thy ===== *)
theory ReelsSection
  imports AdminApi
begin

text \<open>
  The reels of \<open>src/src/components/homepage/ReelsSection.jsx\<close>: a stack of
  video cards and a full-screen player.  The player moves through the reels
  with arrows (shown only where there is a reel to move to), when a video
  ends, and when its progress bar fills: while a video plays an interval
  adds \<open>100 / (duration * 10)\<close> percent every 100 ms, and the tick that finds
  the bar full advances to the next reel, or closes the player after the
  last.  Changing the reel or closing the player clears that interval (the
  cleanup of the effect on \<open>[showModal, currentReelIndex]\<close>), so a tick
  always acts on the reel it was started for.  Durations are rationals;
  \<open>VideoModal.jsx\<close>, which no other file imports, is not modelled.
\<close>

record reel =
  reelId :: string
  videoUrl :: string
  reelTitle :: string
  reelDescription :: "string option"
  reelDuration :: "rat option"
  reelActive :: bool

record reelsSection =
  reels :: "reel list"
  reelsLoading :: bool
  currentReelIndex :: int
  isPlaying :: bool
  isMuted :: bool
  progress :: rat
  showModal :: bool
  progressTimer :: "rat option"

definition reelsSection_init :: reelsSection where
  "reelsSection_init =
     \<lparr>reels = [], reelsLoading = True, currentReelIndex = 0, isPlaying = False, isMuted = True,
      progress = 0, showModal = False, progressTimer = None\<rparr>"

datatype reelsEvent =
    ReelsLoaded "reel list http_response"
  | OpenModal nat
  | CloseModal
  | NextReel
  | PrevReel
  | VideoPlay "rat option"
  | VideoPause
  | VideoEnded
  | ProgressTick
  | TogglePlay
  | ToggleMute

definition localReels :: "reel list" where
  "localReels =
     [\<lparr>reelId = ''local-1'', videoUrl = ''../media/videos/video1.mp4'', reelTitle = ''Diamond Styling Tips'',
       reelDescription = Some ''Exquisite Vines Diamond Necklace Set'', reelDuration = Some 45, reelActive = True\<rparr>,
      \<lparr>reelId = ''local-2'', videoUrl = ''../media/videos/video2.mp4'', reelTitle = ''Elegant Diamond Jewellery'',
       reelDescription = Some ''Every Day Diamond Collection'', reelDuration = Some 60, reelActive = True\<rparr>,
      \<lparr>reelId = ''local-3'', videoUrl = ''../media/videos/video3.mp4'', reelTitle = ''Precious Necklace Jewellery'',
       reelDescription = Some ''Precious Stones Collection'', reelDuration = Some 60, reelActive = True\<rparr>]"

definition fetchReelsDone :: "reel list http_response \<Rightarrow> reelsSection \<Rightarrow> reelsSection" where
  "fetchReelsDone r s =
     (let rs = (case r of
                  HttpOk data \<Rightarrow> (let active = filter reelActive data in if active \<noteq> [] then active else localReels)
                | _ \<Rightarrow> localReels)
      in s\<lparr>reels := rs, reelsLoading := False\<rparr>)"

definition openModal :: "nat \<Rightarrow> reelsSection \<Rightarrow> reelsSection" where
  "openModal i s =
     s\<lparr>currentReelIndex := int i, showModal := True, progress := 0, isPlaying := True, progressTimer := None\<rparr>"

definition closeModal :: "reelsSection \<Rightarrow> reelsSection" where
  "closeModal s = s\<lparr>showModal := False, isPlaying := False, progress := 0, progressTimer := None\<rparr>"

definition goToNextReel :: "reelsSection \<Rightarrow> reelsSection" where
  "goToNextReel s =
     (if currentReelIndex s < int (length (reels s)) - 1
      then s\<lparr>currentReelIndex := currentReelIndex s + 1, progress := 0, isPlaying := False, progressTimer := None\<rparr>
      else closeModal s)"

definition goToPreviousReel :: "reelsSection \<Rightarrow> reelsSection" where
  "goToPreviousReel s =
     (if 0 < currentReelIndex s
      then s\<lparr>currentReelIndex := currentReelIndex s - 1, progress := 0, isPlaying := False, progressTimer := None\<rparr>
      else s)"

text \<open>\<open>handleVideoPlay\<close>: the duration is the video's, else the reel's, else
  10 (\<open>||\<close> skips \<open>NaN\<close>, absent and 0); a new interval replaces the old.\<close>

definition js_or_num :: "rat option \<Rightarrow> rat \<Rightarrow> rat" where
  "js_or_num x d = (case x of Some v \<Rightarrow> if v \<noteq> 0 then v else d | None \<Rightarrow> d)"

definition handleVideoPlay :: "rat option \<Rightarrow> reelsSection \<Rightarrow> reelsSection" where
  "handleVideoPlay vd s =
     (let rd = (if 0 \<le> currentReelIndex s \<and> currentReelIndex s < int (length (reels s))
                then reelDuration (reels s ! nat (currentReelIndex s)) else None)
      in s\<lparr>isPlaying := True, progressTimer := Some (js_or_num vd (js_or_num rd 10))\<rparr>)"

definition handleVideoPause :: "reelsSection \<Rightarrow> reelsSection" where
  "handleVideoPause s = s\<lparr>isPlaying := False, progressTimer := None\<rparr>"

text \<open>One tick of the progress interval started with duration \<open>d\<close>.\<close>

definition progressTick :: "rat \<Rightarrow> reelsSection \<Rightarrow> reelsSection" where
  "progressTick d s =
     (if 100 \<le> progress s then (goToNextReel (s\<lparr>progressTimer := None\<rparr>))\<lparr>progress := 0\<rparr>
      else s\<lparr>progress := progress s + 100 / (d * 10)\<rparr>)"

fun reelsSection_step :: "reelsSection \<Rightarrow> reelsEvent \<Rightarrow> reelsSection" where
  "reelsSection_step s (ReelsLoaded r) = (if reelsLoading s then fetchReelsDone r s else s)"
| "reelsSection_step s (OpenModal i) =
     (if reelsLoading s \<or> min 5 (length (reels s)) \<le> i then s else openModal i s)"
| "reelsSection_step s CloseModal = (if showModal s then closeModal s else s)"
| "reelsSection_step s NextReel =
     (if showModal s \<and> currentReelIndex s < int (length (reels s)) - 1 then goToNextReel s else s)"
| "reelsSection_step s PrevReel = (if showModal s \<and> 0 < currentReelIndex s then goToPreviousReel s else s)"
| "reelsSection_step s (VideoPlay vd) = (if showModal s then handleVideoPlay vd s else s)"
| "reelsSection_step s VideoPause = (if showModal s then handleVideoPause s else s)"
| "reelsSection_step s VideoEnded = (if showModal s then goToNextReel s else s)"
| "reelsSection_step s ProgressTick =
     (case progressTimer s of Some d \<Rightarrow> progressTick d s | None \<Rightarrow> s)"
| "reelsSection_step s TogglePlay = (if showModal s then s\<lparr>isPlaying := \<not> isPlaying s\<rparr> else s)"
| "reelsSection_step s ToggleMute = (if showModal s then s\<lparr>isMuted := \<not> isMuted s\<rparr> else s)"

text \<open>The player shows \<open>reels[currentReelIndex]\<close>.\<close>

definition reels_index_ok :: "reelsSection \<Rightarrow> bool" where
  "reels_index_ok s \<longleftrightarrow>
     (if showModal s then reelsLoading s = False \<and> 0 \<le> currentReelIndex s \<and>
                          currentReelIndex s < int (length (reels s))
      else progressTimer s = None)"

text \<open>\<open>n\<close> ticks of the progress interval.\<close>

abbreviation ticks :: "nat \<Rightarrow> reelsSection \<Rightarrow> reelsSection" where
  "ticks n s \<equiv> foldl reelsSection_step s (replicate n ProgressTick)"

lemma reels_fields [simp]:
  "reels (goToNextReel s) = reels s" "reelsLoading (goToNextReel s) = reelsLoading s"
  "progressTimer (goToNextReel s) = None"
  "reels (goToPreviousReel s) = reels s" "reelsLoading (goToPreviousReel s) = reelsLoading s"
  by (simp_all add: goToNextReel_def goToPreviousReel_def closeModal_def)

lemma reels_ok_next:
  assumes "reels_index_ok s" shows "reels_index_ok (goToNextReel s)"
  using assms by (auto simp: reels_index_ok_def goToNextReel_def closeModal_def)

lemma reels_index_ok_progress:
  "reels_index_ok s \<Longrightarrow> reels_index_ok (s\<lparr>progress := p\<rparr>)"
  by (simp add: reels_index_ok_def)

lemma ticks_Suc:
  "ticks (Suc k) s = reelsSection_step (ticks k s) ProgressTick"
  by (simp add: replicate_append_same[symmetric])

lemma reels_ok_step:
  assumes "reels_index_ok s" shows "reels_index_ok (reelsSection_step s e)"
proof (cases e)
  case ProgressTick
  have "reels_index_ok (s\<lparr>progressTimer := None\<rparr>)"
    using assms by (simp add: reels_index_ok_def)
  then have "reels_index_ok ((goToNextReel (s\<lparr>progressTimer := None\<rparr>))\<lparr>progress := 0\<rparr>)"
    by (rule reels_ok_next[THEN reels_index_ok_progress])
  then show ?thesis using assms ProgressTick
    by (auto simp: progressTick_def reels_index_ok_progress split: option.splits)
next
  case NextReel
  then show ?thesis using assms reels_ok_next by simp
next
  case VideoEnded
  then show ?thesis using assms reels_ok_next by simp
qed (use assms in \<open>auto simp: reels_index_ok_def fetchReelsDone_def openModal_def closeModal_def
       goToPreviousReel_def handleVideoPlay_def handleVideoPause_def\<close>)

lemma ticks_progress:
  assumes "progressTimer s = Some d" "0 < d" "progress s = 0" "int k \<le> \<lceil>10 * d\<rceil>"
  shows "ticks k s = s\<lparr>progress := of_nat k * (100 / (d * 10))\<rparr>"
  using assms(4)
proof (induction k)
  case (Suc k)
  then have "int k < \<lceil>10 * d\<rceil>" by simp
  then have "of_int (int k) < 10 * d" by (simp only: less_ceiling_iff)
  then have "of_nat k * (100 / (d * 10)) < 100" using \<open>0 < d\<close>
    by (simp add: field_simps)
  moreover have "ticks (Suc k) s = reelsSection_step (s\<lparr>progress := of_nat k * (100 / (d * 10))\<rparr>) ProgressTick"
    using Suc by (simp only: ticks_Suc)
  ultimately show ?case using assms(1,2) by (simp add: progressTick_def add_divide_distrib)
qed (use assms in simp)

lemma goToNextReel_progress:
  "goToNextReel (s\<lparr>progress := p\<rparr>) = goToNextReel s"
  "(goToNextReel s)\<lparr>progress := 0\<rparr> = goToNextReel s"
  "goToNextReel (s\<lparr>progress := p, progressTimer := t\<rparr>) = goToNextReel (s\<lparr>progressTimer := t\<rparr>)"
  by (simp_all add: goToNextReel_def closeModal_def)

text \<open>Whatever the user and the video do, while the player is open it
  shows a reel that exists (\<open>0 \<le> currentReelIndex < reels.length\<close>, after the
  reels have loaded), and while it is closed no progress interval runs.\<close>

theorem reelsSection_index_inv:
  "reels_index_ok (foldl reelsSection_step reelsSection_init es)"
proof (induction es rule: rev_induct)
  case (snoc e es)
  then show ?case by (simp add: reels_ok_step)
qed (simp add: reels_index_ok_def reelsSection_init_def)



end
