(* ===== verification/Navigation.thy ===== *)
theory Navigation
  imports Routes AdminApi Catalog
begin

text \<open>
  The category menu of \<open>src/src/components/homepage/Navigation.jsx\<close>: the
  first seven categories as buttons, the rest under ``More'', and a mega
  menu for the category under the pointer, which lists the first six of
  its subcategories.  Subcategories are fetched on the first hover of a
  category and kept in an object keyed by the category slug.  Leaving a
  category or the mega menu starts a 200 ms timeout that closes the menu;
  entering either clears the timeout the ref holds.

  The state adds three things to the hooks.  The pending timeouts and the
  in-flight requests are kept as lists, so a timeout or a response can fire
  at any later point.  The pointer's position is kept too: the DOM sends a
  \<open>mouseleave\<close> only for the element the pointer is in, and a
  \<open>mouseenter\<close> only after it has left the previous one.  The subcategory
  object is a map; reading it with \<open>obj[key]\<close> also finds the properties
  every object inherits from \<open>Object.prototype\<close>.
\<close>

section \<open>JavaScript object lookup\<close>

text \<open>The properties of \<open>Object.prototype\<close>.  All are truthy.\<close>

definition js_inherited_keys :: "string list" where
  "js_inherited_keys =
     [''constructor'', ''__defineGetter__'', ''__defineSetter__'', ''hasOwnProperty'',
      ''__lookupGetter__'', ''__lookupSetter__'', ''isPrototypeOf'', ''propertyIsEnumerable'',
      ''toString'', ''valueOf'', ''__proto__'', ''toLocaleString'']"

datatype 'a js_prop = Own 'a | Inherited | Undef

definition js_obj_get :: "(string \<rightharpoonup> 'a) \<Rightarrow> string \<Rightarrow> 'a js_prop" where
  "js_obj_get m k = (case m k of Some v \<Rightarrow> Own v | None \<Rightarrow> if k \<in> set js_inherited_keys then Inherited else Undef)"

section \<open>State, events and handlers\<close>

datatype pointerLoc = Outside | OnCategory nat | OnMega

datatype navPending = NPCategories | NPSubcategories string

datatype navEffect = NavFetchCategories | NavFetchSubcategories string | NavNavigate string

record navigation =
  navCategories :: "category list"
  hoveredCategory :: "category option"
  subcategories :: "string \<rightharpoonup> subcategory list"
  navLoading :: bool
  navError :: "string option"
  showMobileSidebar :: bool
  expandedMobileCategory :: "string option"
  hoverTimeout :: "nat option"
  timers :: "nat list"
  nextTimer :: nat
  navPending :: "navPending list"
  pointer :: pointerLoc

type_synonym navStep = "navigation \<times> navEffect list"

definition navigation_init :: navigation where
  "navigation_init =
     \<lparr>navCategories = [], hoveredCategory = None, subcategories = Map.empty, navLoading = True,
      navError = None, showMobileSidebar = False, expandedMobileCategory = None, hoverTimeout = None,
      timers = [], nextTimer = 1, navPending = [], pointer = Outside\<rparr>"

datatype navEvent =
    CategoriesResponse nat "category list option http_response"
  | SubcategoriesResponse nat "subcategory list option http_response"
  | EnterCategory nat
  | LeaveCategory
  | EnterMegaMenu
  | LeaveMegaMenu
  | HoverTimeoutFires nat
  | ClickMainCategory nat
  | ClickMoreCategory nat
  | ClickMegaSubcategory nat
  | ClickMegaViewAll
  | RetryClick
  | CloseSidebar
  | ToggleMobileCategory nat
  | ClickMobileViewAll nat
  | ClickMobileSubcategory nat nat

definition mainCategories :: "navigation \<Rightarrow> category list" where
  "mainCategories s = take 7 (navCategories s)"

definition moreCategories :: "navigation \<Rightarrow> category list" where
  "moreCategories s = drop 7 (navCategories s)"

definition nav_fetchCategories :: "navigation \<Rightarrow> navStep" where
  "nav_fetchCategories s =
     (s\<lparr>navLoading := True, navPending := navPending s @ [NPCategories]\<rparr>, [NavFetchCategories])"

definition navigation_mount :: navStep where
  "navigation_mount = nav_fetchCategories navigation_init"

text \<open>\<open>fetchCategories\<close> after its \<open>await\<close>: \<open>data || []\<close> on success; the
  message of the thrown error otherwise; loading ends either way.\<close>

definition categoriesDone :: "category list option http_response \<Rightarrow> navigation \<Rightarrow> navigation" where
  "categoriesDone r s =
     (case r of
        HttpOk d \<Rightarrow> s\<lparr>navCategories := (case d of Some cs \<Rightarrow> cs | None \<Rightarrow> []), navError := None, navLoading := False\<rparr>
      | HttpError _ _ _ \<Rightarrow> s\<lparr>navError := Some ''Failed to fetch categories'', navLoading := False\<rparr>
      | NetworkError m \<Rightarrow> s\<lparr>navError := Some m, navLoading := False\<rparr>)"

text \<open>\<open>fetchSubcategories\<close>: no request when \<open>subcategories[slug]\<close> is truthy,
  which every array and every inherited property is.\<close>

definition fetchSubcategories :: "string \<Rightarrow> navigation \<Rightarrow> navStep" where
  "fetchSubcategories c s =
     (if js_obj_get (subcategories s) c \<noteq> Undef then (s, [])
      else (s\<lparr>navPending := navPending s @ [NPSubcategories c]\<rparr>, [NavFetchSubcategories c]))"

definition subcategoriesDone :: "string \<Rightarrow> subcategory list option http_response \<Rightarrow> navigation \<Rightarrow> navigation" where
  "subcategoriesDone c r s =
     (case r of
        HttpOk d \<Rightarrow> s\<lparr>subcategories := (subcategories s)(c \<mapsto> (case d of Some xs \<Rightarrow> xs | None \<Rightarrow> []))\<rparr>
      | _ \<Rightarrow> s)"

definition clear_timeout :: "nat option \<Rightarrow> nat list \<Rightarrow> nat list" where
  "clear_timeout t ts = (case t of Some i \<Rightarrow> removeAll i ts | None \<Rightarrow> ts)"

definition handleCategoryHover :: "category \<Rightarrow> navigation \<Rightarrow> navStep" where
  "handleCategoryHover c s =
     fetchSubcategories (slug c) (s\<lparr>timers := clear_timeout (hoverTimeout s) (timers s), hoveredCategory := Some c\<rparr>)"

definition handleMouseLeave :: "navigation \<Rightarrow> navigation" where
  "handleMouseLeave s =
     s\<lparr>timers := timers s @ [nextTimer s], hoverTimeout := Some (nextTimer s), nextTimer := Suc (nextTimer s)\<rparr>"

definition toggleMobileCategory :: "string \<Rightarrow> navigation \<Rightarrow> navStep" where
  "toggleMobileCategory c s =
     (if expandedMobileCategory s = Some c then (s\<lparr>expandedMobileCategory := None\<rparr>, [])
      else fetchSubcategories c (s\<lparr>expandedMobileCategory := Some c\<rparr>))"

section \<open>Render\<close>

text \<open>The subcategories the mega menu lists,
  \<open>subcategories[hoveredCategory.slug]?.slice(0, 6)\<close>: none while the key is
  absent; for an inherited property \<open>?.\<close> does not guard the call of its
  missing \<open>slice\<close>, and the render throws (None).\<close>

definition megaMenuItems :: "category \<Rightarrow> navigation \<Rightarrow> subcategory list option" where
  "megaMenuItems c s =
     (case js_obj_get (subcategories s) (slug c) of
        Own xs \<Rightarrow> Some (take 6 xs) | Undef \<Rightarrow> Some [] | Inherited \<Rightarrow> None)"

definition navShowsMenu :: "navigation \<Rightarrow> bool" where
  "navShowsMenu s \<longleftrightarrow> \<not> navLoading s \<and> navError s = None"

text \<open>The render throws when the mega menu is open on a category whose slug
  is an inherited key, or when the mobile sidebar expands one
  (\<open>subcategories[category.slug]?.map\<close>).\<close>

definition navRenderThrows :: "navigation \<Rightarrow> bool" where
  "navRenderThrows s \<longleftrightarrow>
     navShowsMenu s \<and>
     ((case hoveredCategory s of Some c \<Rightarrow> megaMenuItems c s = None | None \<Rightarrow> False) \<or>
      (showMobileSidebar s \<and>
       (case expandedMobileCategory s of
          Some c \<Rightarrow> c \<in> slug ` set (navCategories s) \<and> js_obj_get (subcategories s) c = Inherited
        | None \<Rightarrow> False)))"

section \<open>Step function\<close>

text \<open>A response resolves the pending entry it names.  A render that throws
  unmounts the tree, so no later event finds a handler.  The pointer moves
  only between rendered elements; when the mega menu closes under it, it
  is outside without a \<open>mouseleave\<close>.\<close>

definition navNavigate :: "navigation \<Rightarrow> string \<Rightarrow> navStep" where
  "navNavigate s p = (s, [NavNavigate (handleNavigation p)])"

fun navigation_step :: "navigation \<Rightarrow> navEvent \<Rightarrow> navStep" where
  "navigation_step s e =
     (if navRenderThrows s then (s, []) else
      case e of
        CategoriesResponse k r \<Rightarrow>
          (if k < length (navPending s) \<and> navPending s ! k = NPCategories
           then (categoriesDone r (s\<lparr>navPending := remove_nth k (navPending s)\<rparr>), []) else (s, []))
      | SubcategoriesResponse k r \<Rightarrow>
          (if k < length (navPending s)
           then (case navPending s ! k of
                   NPSubcategories c \<Rightarrow> (subcategoriesDone c r (s\<lparr>navPending := remove_nth k (navPending s)\<rparr>), [])
                 | NPCategories \<Rightarrow> (s, []))
           else (s, []))
      | EnterCategory i \<Rightarrow>
          (if navShowsMenu s \<and> pointer s = Outside \<and> i < length (mainCategories s)
           then handleCategoryHover (mainCategories s ! i) (s\<lparr>pointer := OnCategory i\<rparr>) else (s, []))
      | LeaveCategory \<Rightarrow>
          (case pointer s of OnCategory _ \<Rightarrow> (handleMouseLeave (s\<lparr>pointer := Outside\<rparr>), []) | _ \<Rightarrow> (s, []))
      | EnterMegaMenu \<Rightarrow>
          (case hoveredCategory s of
             Some c \<Rightarrow> if navShowsMenu s \<and> pointer s = Outside
                       then handleCategoryHover c (s\<lparr>pointer := OnMega\<rparr>) else (s, [])
           | None \<Rightarrow> (s, []))
      | LeaveMegaMenu \<Rightarrow>
          (if pointer s = OnMega then (handleMouseLeave (s\<lparr>pointer := Outside\<rparr>), []) else (s, []))
      | HoverTimeoutFires k \<Rightarrow>
          (if k < length (timers s)
           then (s\<lparr>timers := remove_nth k (timers s), hoveredCategory := None,
                   pointer := (if pointer s = OnMega then Outside else pointer s)\<rparr>, [])
           else (s, []))
      | ClickMainCategory i \<Rightarrow>
          (if navShowsMenu s \<and> i < length (mainCategories s)
           then navNavigate s (''/category/'' @ slug (mainCategories s ! i)) else (s, []))
      | ClickMoreCategory i \<Rightarrow>
          (if navShowsMenu s \<and> i < length (moreCategories s)
           then navNavigate s (''/category/'' @ slug (moreCategories s ! i)) else (s, []))
      | ClickMegaSubcategory j \<Rightarrow>
          (case hoveredCategory s of
             Some c \<Rightarrow> (case megaMenuItems c s of
                          Some xs \<Rightarrow> if navShowsMenu s \<and> j < length xs
                                     then navNavigate s (''/category/'' @ slug c @ ''/'' @ slug (xs ! j))
                                     else (s, [])
                        | None \<Rightarrow> (s, []))
           | None \<Rightarrow> (s, []))
      | ClickMegaViewAll \<Rightarrow>
          (case hoveredCategory s of
             Some c \<Rightarrow> if navShowsMenu s then navNavigate s (''/category/'' @ slug c) else (s, [])
           | None \<Rightarrow> (s, []))
      | RetryClick \<Rightarrow>
          (if \<not> navLoading s \<and> navError s \<noteq> None then nav_fetchCategories s else (s, []))
      | CloseSidebar \<Rightarrow>
          (if showMobileSidebar s then (s\<lparr>showMobileSidebar := False\<rparr>, []) else (s, []))
      | ToggleMobileCategory i \<Rightarrow>
          (if navShowsMenu s \<and> showMobileSidebar s \<and> i < length (navCategories s)
           then toggleMobileCategory (slug (navCategories s ! i)) s else (s, []))
      | ClickMobileViewAll i \<Rightarrow>
          (if navShowsMenu s \<and> showMobileSidebar s \<and> i < length (navCategories s) \<and>
              expandedMobileCategory s = Some (slug (navCategories s ! i))
           then (s\<lparr>showMobileSidebar := False\<rparr>, [NavNavigate (handleNavigation (''/category/'' @ slug (navCategories s ! i)))])
           else (s, []))
      | ClickMobileSubcategory i j \<Rightarrow>
          (if navShowsMenu s \<and> showMobileSidebar s \<and> i < length (navCategories s) \<and>
              expandedMobileCategory s = Some (slug (navCategories s ! i))
           then (case js_obj_get (subcategories s) (slug (navCategories s ! i)) of
                   Own xs \<Rightarrow> if j < length xs
                             then (s\<lparr>showMobileSidebar := False\<rparr>,
                                   [NavNavigate (handleNavigation (''/category/'' @ slug (navCategories s ! i) @ ''/'' @ slug (xs ! j)))])
                             else (s, [])
                 | _ \<Rightarrow> (s, []))
           else (s, [])))"

declare navigation_step.simps [simp del]

text \<open>The invariant of the menu.  A categories request is in flight exactly
  while loading.  Over a category or the mega menu no timeout is pending
  and the menu shows the category entered; outside, the only pending
  timeout is the one the ref holds.  The mobile sidebar is closed.\<close>

definition timer_ok :: "nat option \<Rightarrow> nat list \<Rightarrow> bool" where
  "timer_ok t ts \<longleftrightarrow> (case t of None \<Rightarrow> ts = [] | Some i \<Rightarrow> ts = [] \<or> ts = [i])"

definition hover_ok :: "pointerLoc \<Rightarrow> nat option \<Rightarrow> nat list \<Rightarrow> category option \<Rightarrow> category list \<Rightarrow> bool \<Rightarrow> bool" where
  "hover_ok p t ts h main shown \<longleftrightarrow>
     (case p of
        Outside \<Rightarrow> timer_ok t ts
      | OnCategory i \<Rightarrow> shown \<and> ts = [] \<and> i < length main \<and> h = Some (main ! i)
      | OnMega \<Rightarrow> shown \<and> ts = [] \<and> h \<noteq> None)"

definition nav_inv :: "navigation \<Rightarrow> bool" where
  "nav_inv s \<longleftrightarrow>
     count_list (navPending s) NPCategories = (if navLoading s then 1 else 0) \<and>
     showMobileSidebar s = False \<and>
     hover_ok (pointer s) (hoverTimeout s) (timers s) (hoveredCategory s) (mainCategories s) (navShowsMenu s)"

abbreviation nav_run :: "navEvent list \<Rightarrow> navStep" where
  "nav_run es \<equiv> run_steps navigation_step (fst navigation_mount) es"

text \<open>Sample data for the witnesses: a category \<open>rings\<close> with its
  subcategory \<open>gold\<close>, and a category named ``Constructor''.\<close>

definition cat_rings :: category where
  "cat_rings = \<lparr>id = ''1'', name = ''Rings'', slug = ''rings'', isActive = None,
                description = None, image = None, sortOrder = None\<rparr>"

definition sub_gold :: subcategory where
  "sub_gold = \<lparr>id = ''2'', name = ''Gold'', slug = ''gold'', isActive = None,
               description = None, image = None, sortOrder = None, subcategory.categorySlug = ''rings''\<rparr>"

definition cat_constructor :: category where
  "cat_constructor = \<lparr>id = ''3'', name = ''Constructor'', slug = ''constructor'', isActive = None,
                      description = None, image = None, sortOrder = None\<rparr>"

section \<open>Lemmas\<close>

lemma count_list_remove_nth:
  assumes k: "k < length xs"
  shows "count_list (remove_nth k xs) y = count_list xs y - (if xs ! k = y then 1 else 0)"
proof -
  have "drop k xs = xs ! k # drop (Suc k) xs" using k by (simp add: Cons_nth_drop_Suc)
  then have "count_list xs y = count_list (take k xs) y + count_list (xs ! k # drop (Suc k) xs) y"
    using arg_cong[OF append_take_drop_id[of k xs, symmetric], of "\<lambda>l. count_list l y"] by simp
  then show ?thesis by (simp add: remove_nth_def)
qed

lemma count_list_nth_pos: "k < length xs \<Longrightarrow> 0 < count_list xs (xs ! k)"
  by (induction xs arbitrary: k) (auto simp: nth_Cons split: nat.splits)

lemma fetchSubcategories_fst:
  "fst (fetchSubcategories c s) =
     (if js_obj_get (subcategories s) c \<noteq> Undef then s else s\<lparr>navPending := navPending s @ [NPSubcategories c]\<rparr>)"
  by (simp add: fetchSubcategories_def)

lemma nav_inv_pending:
  "nav_inv s \<Longrightarrow> count_list p NPCategories = count_list (navPending s) NPCategories \<Longrightarrow>
   nav_inv (s\<lparr>navPending := p\<rparr>)"
  by (simp add: nav_inv_def hover_ok_def timer_ok_def navShowsMenu_def mainCategories_def split: pointerLoc.splits option.splits)

lemma nav_inv_subcats: "nav_inv s \<Longrightarrow> nav_inv (s\<lparr>subcategories := m\<rparr>)"
  by (simp add: nav_inv_def hover_ok_def timer_ok_def navShowsMenu_def mainCategories_def split: pointerLoc.splits option.splits)

lemma nav_thrown_stuck: "navRenderThrows s \<Longrightarrow> navigation_step s e = (s, [])"
  by (simp add: navigation_step.simps)

lemma nav_inv_loading_outside: "nav_inv s \<Longrightarrow> navLoading s \<Longrightarrow> pointer s = Outside"
  by (auto simp: nav_inv_def hover_ok_def timer_ok_def navShowsMenu_def split: pointerLoc.splits)

lemma nav_inv_categoriesDone:
  assumes "nav_inv s" "k < length (navPending s)" "navPending s ! k = NPCategories"
  shows "nav_inv (categoriesDone r (s\<lparr>navPending := remove_nth k (navPending s)\<rparr>))"
proof -
  have "0 < count_list (navPending s) NPCategories" using assms(2,3) count_list_nth_pos by metis
  then have "navLoading s" "count_list (navPending s) NPCategories = 1"
    using assms(1) by (auto simp: nav_inv_def hover_ok_def timer_ok_def split: if_splits)
  moreover from this have "pointer s = Outside" using assms(1) nav_inv_loading_outside by blast
  ultimately show ?thesis using assms
    by (cases r) (simp_all add: nav_inv_def hover_ok_def categoriesDone_def count_list_remove_nth)
qed

lemma nav_inv_fetchSub: "nav_inv s \<Longrightarrow> nav_inv (fst (fetchSubcategories c s))"
  by (simp add: fetchSubcategories_fst nav_inv_pending)

lemma nav_inv_enter:
  assumes "nav_inv s" "pointer s = Outside" "navShowsMenu s"
    and "p = OnCategory i \<and> i < length (mainCategories s) \<and> c = mainCategories s ! i \<or> p = OnMega"
  shows "nav_inv (fst (handleCategoryHover c (s\<lparr>pointer := p\<rparr>)))"
proof -
  have "clear_timeout (hoverTimeout s) (timers s) = []"
    using assms(1,2) by (auto simp: nav_inv_def hover_ok_def timer_ok_def clear_timeout_def split: option.splits)
  moreover have "nav_inv (s\<lparr>pointer := p, timers := [], hoveredCategory := Some c\<rparr>)"
    using assms by (auto simp: nav_inv_def hover_ok_def timer_ok_def navShowsMenu_def mainCategories_def)
  ultimately show ?thesis using nav_inv_fetchSub by (simp add: handleCategoryHover_def)
qed

lemma nav_inv_leave: "nav_inv s \<Longrightarrow> pointer s \<noteq> Outside \<Longrightarrow> nav_inv (handleMouseLeave (s\<lparr>pointer := Outside\<rparr>))"
  by (auto simp: nav_inv_def hover_ok_def timer_ok_def handleMouseLeave_def split: pointerLoc.splits)

lemma nav_inv_fire:
  "nav_inv s \<Longrightarrow> k < length (timers s) \<Longrightarrow>
   nav_inv (s\<lparr>timers := remove_nth k (timers s), hoveredCategory := None,
              pointer := (if pointer s = OnMega then Outside else pointer s)\<rparr>)"
  by (auto simp: nav_inv_def hover_ok_def timer_ok_def remove_nth_def split: pointerLoc.splits option.splits)

lemma nav_inv_step:
  assumes "nav_inv s" shows "nav_inv (fst (navigation_step s e))"
proof (cases "navRenderThrows s")
  case True
  then show ?thesis using assms by (simp add: nav_thrown_stuck)
next
  case ok: False
  note st = navigation_step.simps[of s] ok
  show ?thesis
  proof (cases e)
    case (CategoriesResponse k r)
    then show ?thesis using assms st nav_inv_categoriesDone by simp
  next
    case (SubcategoriesResponse k r)
    show ?thesis
    proof (cases "k < length (navPending s) \<and> navPending s ! k \<noteq> NPCategories")
      case True
      then obtain c where c: "navPending s ! k = NPSubcategories c" by (cases "navPending s ! k") auto
      have "nav_inv (s\<lparr>navPending := remove_nth k (navPending s)\<rparr>)"
        using assms True c by (simp add: nav_inv_pending count_list_remove_nth)
      then show ?thesis using st True c SubcategoriesResponse
        by (simp add: subcategoriesDone_def nav_inv_subcats split: http_response.splits)
    next
      case False
      then show ?thesis using st assms SubcategoriesResponse by (auto split: navPending.splits)
    qed
  next
    case (EnterCategory i)
    then show ?thesis using assms st nav_inv_enter[of s "OnCategory i" i] by simp
  next
    case EnterMegaMenu
    then show ?thesis using assms st nav_inv_enter[of s OnMega] by (simp split: option.splits)
  next
    case LeaveCategory
    then show ?thesis using assms st nav_inv_leave by (simp split: pointerLoc.splits)
  next
    case LeaveMegaMenu
    then show ?thesis using assms st nav_inv_leave by simp
  next
    case (HoverTimeoutFires k)
    then show ?thesis using assms st nav_inv_fire by simp
  next
    case RetryClick
    show ?thesis
    proof (cases "\<not> navLoading s \<and> navError s \<noteq> None")
      case True
      then have "pointer s = Outside"
        using assms by (auto simp: nav_inv_def hover_ok_def navShowsMenu_def split: pointerLoc.splits)
      then show ?thesis using assms st RetryClick True
        by (simp add: nav_fetchCategories_def nav_inv_def hover_ok_def)
    next
      case False
      then have "navigation_step s RetryClick = (s, [])" using st by auto
      then show ?thesis using assms RetryClick by simp
    qed
  next
    case (ToggleMobileCategory i)
    then show ?thesis using assms st by (simp add: nav_inv_def hover_ok_def timer_ok_def)
  next
    case (ClickMobileViewAll i)
    then show ?thesis using assms st by (simp add: nav_inv_def hover_ok_def timer_ok_def)
  next
    case (ClickMobileSubcategory i j)
    then show ?thesis using assms st by (simp add: nav_inv_def hover_ok_def timer_ok_def)
  next
    case CloseSidebar
    then show ?thesis using assms st by (simp add: nav_inv_def hover_ok_def timer_ok_def)
  qed (use assms st in \<open>simp_all add: navNavigate_def split: option.splits\<close>)
qed

lemma nav_inv_mount: "nav_inv (fst navigation_mount)"
  by (simp add: navigation_mount_def nav_fetchCategories_def navigation_init_def nav_inv_def hover_ok_def timer_ok_def)

lemma nav_inv_run: "nav_inv (fst (nav_run es))"
  using nav_inv_step nav_inv_mount by (rule run_steps_inv)

lemma nav_listing_links:
  "url_segment c \<Longrightarrow> navigateTo (handleNavigation (''/category/'' @ c)) = Some (ProductsListingPage, [(''categorySlug'', c)])"
  "url_segment c \<Longrightarrow> url_segment d \<Longrightarrow>
   navigateTo (handleNavigation (''/category/'' @ c @ ''/'' @ d)) =
     Some (ProductsListingPage, [(''categorySlug'', c), (''subCategorySlug'', d)])"
  using link_paths(1,3)[of c] by (simp_all add: categoryLink_def subcategoryLink_def navigateTo_join
      routeTable_eq url_segment_nonempty)

section \<open>Properties\<close>

text \<open>C13. Hovering is never lost under the pointer: while the pointer is over
  a main category the mega menu shows that category and no close timeout
  is pending; over the mega menu it stays open; outside, at most the one
  timeout the ref holds is pending.\<close>

theorem navigation_hover_sync:
  "let s = fst (nav_run es) in
   (case pointer s of
      OnCategory i \<Rightarrow> i < length (mainCategories s) \<and> hoveredCategory s = Some (mainCategories s ! i) \<and> timers s = []
    | OnMega \<Rightarrow> hoveredCategory s \<noteq> None \<and> timers s = []
    | Outside \<Rightarrow> length (timers s) \<le> 1)"
  using nav_inv_run[of es]
  by (auto simp: Let_def nav_inv_def hover_ok_def timer_ok_def split: pointerLoc.splits option.splits)

text \<open>C16. The mobile sidebar never opens: no handler of the component sets
  \<open>showMobileSidebar\<close>, so its category buttons and links never act.\<close>

theorem navigation_mobile_menu_dead:
  "let s = fst (nav_run es) in
   \<not> showMobileSidebar s \<and>
   (\<forall>i. navigation_step s (ToggleMobileCategory i) = (s, [])) \<and>
   (\<forall>i. navigation_step s (ClickMobileViewAll i) = (s, [])) \<and>
   (\<forall>i j. navigation_step s (ClickMobileSubcategory i j) = (s, []))"
  using nav_inv_run[of es] by (simp add: Let_def nav_inv_def navigation_step.simps)

text \<open>C33. The subcategory cache: a successful answer for a category slug is
  stored under that slug, and a later hover of a category with that slug
  sends no request.\<close>

theorem navigation_subcategory_cache:
  assumes "\<not> navRenderThrows s" "k < length (navPending s)" "navPending s ! k = NPSubcategories c"
  shows "let s' = fst (navigation_step s (SubcategoriesResponse k (HttpOk (Some xs)))) in
         subcategories s' c = Some xs \<and> snd (fetchSubcategories c s') = []"
  using assms by (simp add: navigation_step.simps subcategoriesDone_def fetchSubcategories_def js_obj_get_def)


text \<open>C27. A category whose slug is \<open>constructor\<close> crashes the menu: the
  truthiness test finds \<open>Object.prototype.constructor\<close>, so no request is
  sent, and the mega menu calls the missing \<open>slice\<close> of that function;
  after the throw no event has a handler.\<close>

theorem navigation_constructor_crash:
  assumes "navShowsMenu s" "pointer s = Outside" "i < length (mainCategories s)"
    "slug (mainCategories s ! i) = ''constructor''" "subcategories s ''constructor'' = None"
    "\<not> navRenderThrows s"
  shows "snd (navigation_step s (EnterCategory i)) = [] \<and>
         navRenderThrows (fst (navigation_step s (EnterCategory i))) \<and>
         navigation_step (fst (navigation_step s (EnterCategory i))) e' =
           (fst (navigation_step s (EnterCategory i)), [])"
proof -
  have "navigation_step s (EnterCategory i) = handleCategoryHover (mainCategories s ! i) (s\<lparr>pointer := OnCategory i\<rparr>)"
    using assms by (simp add: navigation_step.simps)
  moreover have "js_obj_get (subcategories s) ''constructor'' = Inherited"
    using assms(5) by (simp add: js_obj_get_def js_inherited_keys_def)
  ultimately have "navigation_step s (EnterCategory i) =
      (s\<lparr>pointer := OnCategory i, timers := clear_timeout (hoverTimeout s) (timers s),
         hoveredCategory := Some (mainCategories s ! i)\<rparr>, [])"
    using assms(4) by (simp add: handleCategoryHover_def fetchSubcategories_def)
  moreover have "navRenderThrows (s\<lparr>pointer := OnCategory i, timers := clear_timeout (hoverTimeout s) (timers s),
         hoveredCategory := Some (mainCategories s ! i)\<rparr>)"
    using assms(1,4,5) by (simp add: navRenderThrows_def megaMenuItems_def js_obj_get_def js_inherited_keys_def
        navShowsMenu_def)
  ultimately show ?thesis by (simp add: nav_thrown_stuck)
qed

lemmas nav_eval = navigation_mount_def nav_fetchCategories_def navigation_init_def navigation_step.simps
  categoriesDone_def subcategoriesDone_def handleCategoryHover_def fetchSubcategories_def js_obj_get_def
  js_inherited_keys_def navRenderThrows_def navShowsMenu_def megaMenuItems_def mainCategories_def
  clear_timeout_def remove_nth_def navNavigate_def cat_rings_def sub_gold_def

theorem navigation_subcategory_cache_witness:
  "let s = fst (nav_run [CategoriesResponse 0 (HttpOk (Some [cat_rings])), EnterCategory 0]) in
   \<not> navRenderThrows s \<and> 0 < length (navPending s) \<and> navPending s ! 0 = NPSubcategories ''rings'' \<and>
   (let s' = fst (navigation_step s (SubcategoriesResponse 0 (HttpOk (Some [sub_gold])))) in
    subcategories s' ''rings'' = Some [sub_gold] \<and> snd (fetchSubcategories ''rings'' s') = [])"
proof -
  let ?s = "fst (nav_run [CategoriesResponse 0 (HttpOk (Some [cat_rings])), EnterCategory 0])"
  have h: "\<not> navRenderThrows ?s" "0 < length (navPending ?s)" "navPending ?s ! 0 = NPSubcategories ''rings''"
    by (simp_all add: nav_eval)
  show ?thesis using navigation_subcategory_cache[OF h(1) h(2) h(3), of "[sub_gold]"] h by (simp add: Let_def)
qed


theorem navigation_constructor_crash_witness:
  "let s = fst (nav_run [CategoriesResponse 0 (HttpOk (Some [cat_constructor]))]) in
   navShowsMenu s \<and> pointer s = Outside \<and> 0 < length (mainCategories s) \<and>
   slug (mainCategories s ! 0) = ''constructor'' \<and> subcategories s ''constructor'' = None \<and>
   \<not> navRenderThrows s \<and> navRenderThrows (fst (navigation_step s (EnterCategory 0))) \<and>
   navigation_step (fst (navigation_step s (EnterCategory 0))) LeaveCategory =
     (fst (navigation_step s (EnterCategory 0)), [])"
proof -
  let ?s = "fst (nav_run [CategoriesResponse 0 (HttpOk (Some [cat_constructor]))])"
  have h: "navShowsMenu ?s" "pointer ?s = Outside" "0 < length (mainCategories ?s)"
    "slug (mainCategories ?s ! 0) = ''constructor''" "subcategories ?s ''constructor'' = None"
    "\<not> navRenderThrows ?s"
    by (simp_all add: nav_eval cat_constructor_def)
  show ?thesis using navigation_constructor_crash[OF h, of LeaveCategory] h by (simp add: Let_def)
qed

end
