(* ===== verification/ProductDetail.thy ===== *)
theory ProductDetail
  imports Routes AdminApi
begin

text \<open>
  The product detail page \<open>src/src/pages/ProductDetailPage.jsx\<close> and the
  product card \<open>src/src/components/products/ProductCard.jsx\<close>: the
  price each shows, the discount badge, the layer (weight) selector of a
  necklace, the wishlist and cart buttons, and the page's fetch of the
  product named by the route.

  The product is the JSON object the storefront receives, with the fields
  both files read; a number field may be absent (\<open>None\<close>).  JavaScript's
  \<open>a || b\<close> on numbers skips \<open>0\<close>, \<open>NaN\<close> and \<open>undefined\<close>, and
  \<open>Math.round\<close> rounds halves up.  The page is a state machine like the
  other components; its fetch is split at the \<open>await\<close>, and the route's
  parameters change through \<open>RouteChange\<close>, since React Router keeps the
  page mounted when only the parameters of its route change.
\<close>

section \<open>Product data\<close>

record priceInfo =
  pBase :: "rat option"
  pDisc :: "rat option"
  pCouponApplicable :: bool
  pCouponList :: "string list"

record necklaceLayer =
  lWeight :: "rat option"
  lBase :: "rat option"
  lDisc :: "rat option"

record pdDetails =
  dMetal :: "string option"
  dMetalPurity :: "string option"
  dMetalWeight :: "rat option"
  dWeight :: "rat option"
  dStone :: "string option"
  dStoneType :: "string option"
  dClarity :: "string option"
  dColor :: "string option"
  dStoneWeight :: "rat option"
  dSize :: "string option"
  dCertification :: "string option"

record pdInventory =
  inStock :: bool
  invStock :: int

record pdProduct =
  pdId :: string
  pdName :: string
  pdSlug :: string
  pdImages :: "string list"
  pdPricing :: "priceInfo option"
  necklaceLayers :: "necklaceLayer list"
  pdDetails :: "pdDetails option"
  pdTags :: "string list"
  pdInventory :: "pdInventory option"

section \<open>JavaScript numbers\<close>

text \<open>\<open>a || b\<close> for numbers (\<open>None\<close> is \<open>undefined\<close> or \<open>NaN\<close>), its truth
  value, and \<open>Math.round\<close>.\<close>

definition js_or_opt :: "rat option \<Rightarrow> rat option \<Rightarrow> rat option" where
  "js_or_opt a b = (case a of Some v \<Rightarrow> if v \<noteq> 0 then Some v else b | None \<Rightarrow> b)"

definition js_truthy_num :: "rat option \<Rightarrow> bool" where
  "js_truthy_num a \<longleftrightarrow> (case a of Some v \<Rightarrow> v \<noteq> 0 | None \<Rightarrow> False)"

definition js_round :: "rat \<Rightarrow> int" where
  "js_round x = \<lfloor>x + 1 / 2\<rfloor>"

text \<open>\<open>formatPrice\<close>: a rupee sign and 0 for a falsy price; the amount shown,
  leaving its \<open>toLocaleString('en-IN')\<close> rendering aside.\<close>

definition formatPrice :: "rat option \<Rightarrow> rat" where
  "formatPrice p = (case p of Some v \<Rightarrow> v | None \<Rightarrow> 0)"

section \<open>Prices of the product card\<close>

definition cardHasDiscount :: "pdProduct \<Rightarrow> bool" where
  "cardHasDiscount p \<longleftrightarrow>
     (case pdPricing p of
        Some pr \<Rightarrow> js_truthy_num (pDisc pr) \<and>
                   (case (pDisc pr, pBase pr) of (Some d, Some b) \<Rightarrow> d < b | _ \<Rightarrow> False)
      | None \<Rightarrow> False)"

definition cardDiscountPercent :: "pdProduct \<Rightarrow> int" where
  "cardDiscountPercent p =
     (if cardHasDiscount p
      then (case pdPricing p of
              Some pr \<Rightarrow> (case (pDisc pr, pBase pr) of
                           (Some d, Some b) \<Rightarrow> js_round ((b - d) / b * 100) | _ \<Rightarrow> 0)
            | None \<Rightarrow> 0)
      else 0)"

text \<open>The price the card shows: the discounted price under the struck-out
  base price when it has a discount, the base price otherwise.\<close>

definition cardPrice :: "pdProduct \<Rightarrow> rat" where
  "cardPrice p =
     (case pdPricing p of
        Some pr \<Rightarrow> if cardHasDiscount p then formatPrice (pDisc pr) else formatPrice (pBase pr)
      | None \<Rightarrow> 0)"

section \<open>Prices of the detail page\<close>

definition pricing_field :: "(priceInfo \<Rightarrow> rat option) \<Rightarrow> pdProduct option \<Rightarrow> rat option" where
  "pricing_field f p = (case p of Some q \<Rightarrow> (case pdPricing q of Some pr \<Rightarrow> f pr | None \<Rightarrow> None) | None \<Rightarrow> None)"

definition getCurrentPrice :: "necklaceLayer option \<Rightarrow> pdProduct option \<Rightarrow> rat option" where
  "getCurrentPrice l p =
     (case l of
        Some y \<Rightarrow> js_or_opt (lDisc y) (lBase y)
      | None \<Rightarrow> js_or_opt (pricing_field pDisc p) (js_or_opt (pricing_field pBase p) (Some 0)))"

definition getOriginalPrice :: "necklaceLayer option \<Rightarrow> pdProduct option \<Rightarrow> rat option" where
  "getOriginalPrice l p =
     (case l of Some y \<Rightarrow> lBase y | None \<Rightarrow> js_or_opt (pricing_field pBase p) (Some 0))"

text \<open>\<open>current < original\<close> is false when either is \<open>undefined\<close>.\<close>

definition hasDiscount :: "necklaceLayer option \<Rightarrow> pdProduct option \<Rightarrow> bool" where
  "hasDiscount l p \<longleftrightarrow>
     (case (getCurrentPrice l p, getOriginalPrice l p) of (Some c, Some b) \<Rightarrow> c < b | _ \<Rightarrow> False)"

definition getDiscountPercent :: "necklaceLayer option \<Rightarrow> pdProduct option \<Rightarrow> int" where
  "getDiscountPercent l p =
     (if \<not> hasDiscount l p then 0
      else case (getCurrentPrice l p, getOriginalPrice l p) of
             (Some c, Some b) \<Rightarrow> js_round ((b - c) / b * 100)
           | _ \<Rightarrow> 0)"

section \<open>The detail page\<close>

record cartItem =
  ciProductId :: string
  ciName :: string
  ciSlug :: string
  ciImage :: "string option"
  ciPrice :: "rat option"
  ciLayer :: "necklaceLayer option"
  ciQuantity :: nat

record productDetail =
  routeParams :: "(string \<times> string) list"
  shownProduct :: "pdProduct option"
  pdLoading :: bool
  pdError :: "string option"
  selectedImage :: nat
  selectedLayer :: "necklaceLayer option"
  pdInWishlist :: bool
  expandedSection :: "string option"
  pdPending :: "string list"

datatype pdEffect =
    FetchProduct string
  | LogAddToCart cartItem
  | LogBuyNow
  | PdNavigate string
  | PdNavigateBack

datatype pdEvent =
    RouteChange "(string \<times> string) list"
  | ProductResponse nat "pdProduct http_response"
  | SelectImage nat
  | SelectLayer nat
  | ToggleWishlist
  | ToggleSection string
  | AddToCartClick
  | BuyNowClick
  | BreadcrumbClick nat
  | ErrorBackClick
  | ErrorProductsClick

type_synonym pdStep = "productDetail \<times> pdEffect list"

text \<open>\<open>fetchProduct\<close> up to its \<open>await\<close>: the request for the slug of the
  route (\<open>undefined\<close> in the URL when the route has none).\<close>

definition fetchProduct :: "productDetail \<Rightarrow> pdStep" where
  "fetchProduct s =
     (let u = js_template (useParams (routeParams s) ''slug'') in
      (s\<lparr>pdLoading := True, pdError := None, pdPending := pdPending s @ [u]\<rparr>, [FetchProduct u]))"

definition productDetail_mount :: "(string \<times> string) list \<Rightarrow> pdStep" where
  "productDetail_mount ps =
     fetchProduct \<lparr>routeParams = ps, shownProduct = None, pdLoading = True, pdError = None, selectedImage = 0,
                   selectedLayer = None, pdInWishlist = False, expandedSection = None, pdPending = []\<rparr>"

text \<open>After the \<open>await\<close>: the product is shown, and the first layer selected
  when it has layers (an earlier selection is kept otherwise); a 404 is
  ``Product not found'', another HTTP error ``Failed to fetch product'', a
  network failure its message.\<close>

definition productDone :: "pdProduct http_response \<Rightarrow> productDetail \<Rightarrow> productDetail" where
  "productDone r s =
     (case r of
        HttpOk d \<Rightarrow> s\<lparr>shownProduct := Some d,
                      selectedLayer := (case necklaceLayers d of [] \<Rightarrow> selectedLayer s | y # _ \<Rightarrow> Some y),
                      pdLoading := False\<rparr>
      | HttpError st _ _ \<Rightarrow> s\<lparr>pdError := Some (if st = 404 then ''Product not found'' else ''Failed to fetch product''),
                             pdLoading := False\<rparr>
      | NetworkError m \<Rightarrow> s\<lparr>pdError := Some m, pdLoading := False\<rparr>)"

definition pdShowsProduct :: "productDetail \<Rightarrow> bool" where
  "pdShowsProduct s \<longleftrightarrow> \<not> pdLoading s \<and> pdError s = None \<and> shownProduct s \<noteq> None"

definition pdShowsError :: "productDetail \<Rightarrow> bool" where
  "pdShowsError s \<longleftrightarrow> \<not> pdLoading s \<and> (pdError s \<noteq> None \<or> shownProduct s = None)"

text \<open>The detail sections rendered for a product, by title.\<close>

definition shownSections :: "pdProduct \<Rightarrow> string list" where
  "shownSections p =
     (case pdDetails p of
        Some d \<Rightarrow> (if js_truthy_str (dMetal d) \<or> js_truthy_str (dMetalPurity d) \<or> js_truthy_num (dMetalWeight d)
                   then [''METAL DETAILS''] else []) @
                  (if js_truthy_str (dStone d) \<or> js_truthy_str (dStoneType d) \<or> js_truthy_num (dStoneWeight d)
                   then [''DIAMOND/STONE DETAILS''] else []) @
                  (if js_truthy_str (dSize d) \<or> js_truthy_str (dCertification d) then [''GENERAL DETAILS''] else [])
      | None \<Rightarrow> []) @
     (if pdTags p \<noteq> [] then [''FEATURES''] else []) @
     (case pdPricing p of Some pr \<Rightarrow> if pCouponApplicable pr then [''OFFERS''] else [] | None \<Rightarrow> [])"

definition handleAddToCart :: "productDetail \<Rightarrow> pdProduct \<Rightarrow> cartItem" where
  "handleAddToCart s p =
     \<lparr>ciProductId = pdId p, ciName = pdName p, ciSlug = pdSlug p,
      ciImage = (case pdImages p of [] \<Rightarrow> None | i # _ \<Rightarrow> Some i),
      ciPrice = getCurrentPrice (selectedLayer s) (Some p), ciLayer = selectedLayer s, ciQuantity = 1\<rparr>"

definition purchasable :: "pdProduct \<Rightarrow> bool" where
  "purchasable p \<longleftrightarrow> (case pdInventory p of Some iv \<Rightarrow> inStock iv | None \<Rightarrow> False)"

text \<open>The layer select: the option's value is \<open>String(layer.weight)\<close>, and
  the handler selects the first layer whose weight equals
  \<open>parseFloat\<close> of it; an absent weight reads back as \<open>NaN\<close>, which
  equals nothing.\<close>

definition selectLayer :: "necklaceLayer list \<Rightarrow> nat \<Rightarrow> necklaceLayer option" where
  "selectLayer ls i = (case lWeight (ls ! i) of None \<Rightarrow> None | Some w \<Rightarrow> find (\<lambda>l. lWeight l = Some w) ls)"

fun productDetail_step :: "productDetail \<Rightarrow> pdEvent \<Rightarrow> pdStep" where
  "productDetail_step s (RouteChange ps) =
     (if useParams ps ''slug'' = useParams (routeParams s) ''slug'' then (s\<lparr>routeParams := ps\<rparr>, [])
      else fetchProduct (s\<lparr>routeParams := ps\<rparr>))"
| "productDetail_step s (ProductResponse k r) =
     (if k < length (pdPending s) then (productDone r (s\<lparr>pdPending := remove_nth k (pdPending s)\<rparr>), [])
      else (s, []))"
| "productDetail_step s (SelectImage i) =
     (case shownProduct s of
        Some p \<Rightarrow> if pdShowsProduct s \<and> 1 < length (pdImages p) \<and> i < length (pdImages p)
                  then (s\<lparr>selectedImage := i\<rparr>, []) else (s, [])
      | None \<Rightarrow> (s, []))"
| "productDetail_step s (SelectLayer i) =
     (case shownProduct s of
        Some p \<Rightarrow> if pdShowsProduct s \<and> i < length (necklaceLayers p)
                  then (s\<lparr>selectedLayer := selectLayer (necklaceLayers p) i\<rparr>, []) else (s, [])
      | None \<Rightarrow> (s, []))"
| "productDetail_step s ToggleWishlist =
     (if pdShowsProduct s then (s\<lparr>pdInWishlist := \<not> pdInWishlist s\<rparr>, []) else (s, []))"
| "productDetail_step s (ToggleSection t) =
     (case shownProduct s of
        Some p \<Rightarrow> if pdShowsProduct s \<and> t \<in> set (shownSections p)
                  then (s\<lparr>expandedSection := (if expandedSection s = Some t then None else Some t)\<rparr>, [])
                  else (s, [])
      | None \<Rightarrow> (s, []))"
| "productDetail_step s AddToCartClick =
     (case shownProduct s of
        Some p \<Rightarrow> if pdShowsProduct s \<and> purchasable p then (s, [LogAddToCart (handleAddToCart s p)]) else (s, [])
      | None \<Rightarrow> (s, []))"
| "productDetail_step s BuyNowClick =
     (case shownProduct s of
        Some p \<Rightarrow> if pdShowsProduct s \<and> purchasable p then (s, [LogAddToCart (handleAddToCart s p), LogBuyNow])
                  else (s, [])
      | None \<Rightarrow> (s, []))"
| "productDetail_step s (BreadcrumbClick i) =
     (let bs = getBreadcrumbs (routeParams s) (map_option pdName (shownProduct s)) in
      if pdShowsProduct s \<and> i < length bs
      then (case snd (bs ! i) of Some p \<Rightarrow> (s, [PdNavigate p]) | None \<Rightarrow> (s, []))
      else (s, []))"
| "productDetail_step s ErrorBackClick = (if pdShowsError s then (s, [PdNavigateBack]) else (s, []))"
| "productDetail_step s ErrorProductsClick = (if pdShowsError s then (s, [PdNavigate ''/products'']) else (s, []))"

text \<open>What the page shows as the price, struck-out price and badge.\<close>

definition detailPrice :: "productDetail \<Rightarrow> rat" where
  "detailPrice s = formatPrice (getCurrentPrice (selectedLayer s) (shownProduct s))"

section \<open>The product card\<close>

text \<open>The card's wishlist heart.  \<open>handleWishlistToggle\<close> has no \<open>await\<close>,
  so its guard flag is set and cleared within one call.\<close>

record productCard =
  cardHovered :: bool
  isTogglingWishlist :: bool
  cardInWishlist :: bool

datatype cardEvent = CardEnter | CardLeave | HeartClick

definition productCard_init :: productCard where
  "productCard_init = \<lparr>cardHovered = False, isTogglingWishlist = False, cardInWishlist = False\<rparr>"

definition handleWishlistToggle :: "productCard \<Rightarrow> productCard" where
  "handleWishlistToggle c =
     (if isTogglingWishlist c then c
      else (c\<lparr>isTogglingWishlist := True, cardInWishlist := \<not> cardInWishlist c\<rparr>)\<lparr>isTogglingWishlist := False\<rparr>)"

fun productCard_step :: "productCard \<Rightarrow> cardEvent \<Rightarrow> productCard" where
  "productCard_step c CardEnter = c\<lparr>cardHovered := True\<rparr>"
| "productCard_step c CardLeave = c\<lparr>cardHovered := False\<rparr>"
| "productCard_step c HeartClick = handleWishlistToggle c"

text \<open>Sample data for the witnesses.\<close>

abbreviation pd_run :: "(string \<times> string) list \<Rightarrow> pdEvent list \<Rightarrow> pdStep" where
  "pd_run ps es \<equiv> run_steps productDetail_step (fst (productDetail_mount ps)) es"

definition sample_layer :: "rat \<Rightarrow> rat \<Rightarrow> rat \<Rightarrow> necklaceLayer" where
  "sample_layer w b d = \<lparr>lWeight = Some w, lBase = Some b, lDisc = Some d\<rparr>"

definition sample_price :: "rat option \<Rightarrow> rat option \<Rightarrow> priceInfo" where
  "sample_price b d = \<lparr>pBase = b, pDisc = d, pCouponApplicable = False, pCouponList = []\<rparr>"

definition sample_product :: "string \<Rightarrow> rat option \<Rightarrow> rat option \<Rightarrow> necklaceLayer list \<Rightarrow> pdProduct" where
  "sample_product sl b d ls =
     \<lparr>pdId = sl, pdName = sl, pdSlug = sl, pdImages = [],
      pdPricing = Some (sample_price b d),
      necklaceLayers = ls, pdDetails = None, pdTags = [], pdInventory = None\<rparr>"

section \<open>Lemmas\<close>

lemma js_round_bounds: "0 \<le> x \<Longrightarrow> x \<le> 100 \<Longrightarrow> 0 \<le> js_round x \<and> js_round x \<le> 100"
  by (simp add: js_round_def floor_le_iff le_floor_iff)

lemma js_round_zero: "0 \<le> x \<Longrightarrow> x < 1 / 2 \<Longrightarrow> js_round x = 0"
  by (simp add: js_round_def floor_eq_iff)

lemma discount_ratio_bounds:
  fixes c b :: rat
  assumes "0 \<le> c" "c < b"
  shows "0 \<le> (b - c) / b * 100 \<and> (b - c) / b * 100 \<le> 100"
proof -
  have "0 < b" using assms by linarith
  then show ?thesis using assms by (simp add: field_simps)
qed

lemmas pd_eval = productDetail_mount_def fetchProduct_def productDone_def remove_nth_def useParams_def

section \<open>Properties\<close>

text \<open>C14. Answers are not matched to the route: when the product slug of
  the route changes while the first product is still loading and the
  answers arrive in the opposite order, the page shows the first product
  under the second product's URL.\<close>

theorem productDetail_late_response:
  assumes "useParams psb ''slug'' \<noteq> useParams psa ''slug''"
  shows "let s = fst (pd_run psa [RouteChange psb, ProductResponse 1 (HttpOk pb), ProductResponse 0 (HttpOk pa)]) in
         routeParams s = psb \<and> shownProduct s = Some pa \<and> \<not> pdLoading s \<and> pdPending s = []"
  using assms by (simp add: pd_eval Let_def split: list.splits)

text \<open>C22. The selected layer survives a change of product: after a necklace
  with layers, a product without layers is shown with the necklace's first
  layer still selected, and priced at that layer's price.\<close>

theorem productDetail_stale_layer:
  assumes "necklaceLayers pa = y # ys" "necklaceLayers pb = []"
    "useParams psb ''slug'' \<noteq> useParams psa ''slug''"
  shows "let s = fst (pd_run psa [ProductResponse 0 (HttpOk pa), RouteChange psb, ProductResponse 0 (HttpOk pb)]) in
         shownProduct s = Some pb \<and> selectedLayer s = Some y \<and>
         detailPrice s = formatPrice (js_or_opt (lDisc y) (lBase y))"
  using assms by (simp add: pd_eval Let_def detailPrice_def getCurrentPrice_def)

text \<open>C17. The discount badge of the detail page shows a percentage between 0
  and 100 whenever the current price is not negative.\<close>

theorem detail_discount_bounds:
  assumes "case getCurrentPrice l p of Some c \<Rightarrow> 0 \<le> c | None \<Rightarrow> True"
  shows "0 \<le> getDiscountPercent l p \<and> getDiscountPercent l p \<le> 100"
proof (cases "hasDiscount l p")
  case True
  then obtain c b where "getCurrentPrice l p = Some c" "getOriginalPrice l p = Some b" "c < b"
    by (auto simp: hasDiscount_def split: option.splits)
  moreover have "0 \<le> c" using assms calculation by simp
  ultimately show ?thesis using True discount_ratio_bounds js_round_bounds
    by (simp add: getDiscountPercent_def)
qed (simp add: getDiscountPercent_def)

text \<open>C39. A discount too small to round to one percent still shows the badge,
  reading ``0% OFF''.\<close>

theorem detail_zero_percent_badge:
  assumes "getCurrentPrice l p = Some c" "getOriginalPrice l p = Some b" "0 \<le> c" "c < b" "200 * (b - c) < b"
  shows "hasDiscount l p \<and> getDiscountPercent l p = 0"
proof -
  have "0 < b" using assms by linarith
  then have "(b - c) / b * 100 < 1 / 2" using assms(5) by (simp add: field_simps)
  then show ?thesis using assms discount_ratio_bounds js_round_zero
    by (simp add: hasDiscount_def getDiscountPercent_def)
qed

text \<open>C20. Product card and detail page agree on a product without layers
  whose discounted price, if any, is below a positive base price: same
  price, same badge, same percentage.\<close>

theorem card_detail_agree:
  assumes "pdPricing p = Some pr" "pBase pr = Some b" "0 < b"
    "case pDisc pr of Some d \<Rightarrow> d < b | None \<Rightarrow> True"
  shows "cardPrice p = formatPrice (getCurrentPrice None (Some p)) \<and>
         cardHasDiscount p = hasDiscount None (Some p) \<and>
         cardDiscountPercent p = getDiscountPercent None (Some p)"
  using assms
  by (auto simp: cardPrice_def cardHasDiscount_def cardDiscountPercent_def getCurrentPrice_def
      getOriginalPrice_def hasDiscount_def getDiscountPercent_def pricing_field_def js_or_opt_def
      js_truthy_num_def formatPrice_def split: option.splits)

text \<open>C31. They disagree otherwise: a ``discounted'' price above the base price
  is shown by the detail page (and put in the cart item) while the card
  shows the base price; a product with a discounted price and no base price
  shows 0 on its card.\<close>

theorem card_detail_disagree:
  assumes "pdPricing p = Some pr" "pDisc pr = Some d" "d \<noteq> 0"
    "case pBase pr of Some b \<Rightarrow> 0 < b \<and> b < d | None \<Rightarrow> True"
  shows "cardPrice p = (case pBase pr of Some b \<Rightarrow> b | None \<Rightarrow> 0) \<and>
         formatPrice (getCurrentPrice None (Some p)) = d"
  using assms
  by (auto simp: cardPrice_def cardHasDiscount_def getCurrentPrice_def pricing_field_def js_or_opt_def
      js_truthy_num_def formatPrice_def split: option.splits)

text \<open>C35. The layer select picks the first layer with the chosen weight: of
  two layers of equal weight, the second can never be selected.\<close>

theorem selectLayer_first_weight:
  assumes "i < length ls" "lWeight (ls ! i) = Some w"
  shows "\<exists>j\<le>i. selectLayer ls i = Some (ls ! j) \<and> lWeight (ls ! j) = Some w \<and>
                (\<forall>k<j. lWeight (ls ! k) \<noteq> Some w)"
proof -
  have "find (\<lambda>l. lWeight l = Some w) ls \<noteq> None"
    using assms(2) nth_mem[OF assms(1)] unfolding find_None_iff by blast
  then obtain j where "j < length ls" "find (\<lambda>l. lWeight l = Some w) ls = Some (ls ! j)"
    "lWeight (ls ! j) = Some w" "\<forall>k<j. lWeight (ls ! k) \<noteq> Some w"
    by (auto simp: find_Some_iff)
  moreover have "j \<le> i" using calculation(4) assms(2) by (meson not_le)
  ultimately show ?thesis using assms(2) by (auto simp: selectLayer_def)
qed

text \<open>The wishlist heart of the card only flips its own state: the
  guard flag is never observed set, and the heart shows the parity of the
  clicks.\<close>

theorem productCard_wishlist_parity:
  "let c = foldl productCard_step productCard_init es in
   \<not> isTogglingWishlist c \<and> cardInWishlist c = odd (count_list es HeartClick)"
proof -
  have "\<not> isTogglingWishlist c \<Longrightarrow>
        \<not> isTogglingWishlist (foldl productCard_step c es) \<and>
        cardInWishlist (foldl productCard_step c es) = (cardInWishlist c \<noteq> odd (count_list es HeartClick))" for c
  proof (induction es arbitrary: c)
    case (Cons e es)
    then show ?case by (cases e) (auto simp: handleWishlistToggle_def)
  qed simp
  then show ?thesis by (simp add: productCard_init_def Let_def)
qed

section \<open>Witnesses\<close>

lemmas pd_sample_defs = sample_product_def sample_price_def sample_layer_def

theorem productDetail_late_response_witness:
  "useParams [(''slug'', ''b'')] ''slug'' \<noteq> useParams [(''slug'', ''a'')] ''slug'' \<and>
   (let s = fst (pd_run [(''slug'', ''a'')]
              [RouteChange [(''slug'', ''b'')], ProductResponse 1 (HttpOk (sample_product ''b'' (Some 200) None [])),
               ProductResponse 0 (HttpOk (sample_product ''a'' (Some 100) None []))]) in
    routeParams s = [(''slug'', ''b'')] \<and> shownProduct s = Some (sample_product ''a'' (Some 100) None []) \<and>
    \<not> pdLoading s \<and> pdPending s = [])"
  using productDetail_late_response[of "[(''slug'', ''b'')]" "[(''slug'', ''a'')]"
      "sample_product ''b'' (Some 200) None []" "sample_product ''a'' (Some 100) None []"]
  by (simp add: useParams_def)

theorem productDetail_stale_layer_witness:
  "necklaceLayers (sample_product ''a'' (Some 100) None [sample_layer 10 50000 45000]) = sample_layer 10 50000 45000 # [] \<and>
   necklaceLayers (sample_product ''b'' (Some 200) None []) = [] \<and>
   useParams [(''slug'', ''b'')] ''slug'' \<noteq> useParams [(''slug'', ''a'')] ''slug'' \<and>
   (let s = fst (pd_run [(''slug'', ''a'')]
              [ProductResponse 0 (HttpOk (sample_product ''a'' (Some 100) None [sample_layer 10 50000 45000])),
               RouteChange [(''slug'', ''b'')], ProductResponse 0 (HttpOk (sample_product ''b'' (Some 200) None []))]) in
    shownProduct s = Some (sample_product ''b'' (Some 200) None []) \<and> selectedLayer s = Some (sample_layer 10 50000 45000) \<and>
    detailPrice s = 45000)"
  using productDetail_stale_layer[of "sample_product ''a'' (Some 100) None [sample_layer 10 50000 45000]"
      "sample_layer 10 50000 45000" "[]" "sample_product ''b'' (Some 200) None []" "[(''slug'', ''b'')]" "[(''slug'', ''a'')]"]
  by (simp add: useParams_def sample_product_def sample_layer_def js_or_opt_def formatPrice_def)

theorem detail_discount_bounds_witness:
  "(case getCurrentPrice None (Some (sample_product ''a'' (Some 1000) (Some 900) [])) of Some c \<Rightarrow> 0 \<le> c | None \<Rightarrow> True) \<and>
   0 \<le> getDiscountPercent None (Some (sample_product ''a'' (Some 1000) (Some 900) [])) \<and>
   getDiscountPercent None (Some (sample_product ''a'' (Some 1000) (Some 900) [])) \<le> 100"
  using detail_discount_bounds[of None "Some (sample_product ''a'' (Some 1000) (Some 900) [])"]
  by (simp add: getCurrentPrice_def pricing_field_def js_or_opt_def pd_sample_defs)

theorem detail_zero_percent_badge_witness:
  "getCurrentPrice None (Some (sample_product ''a'' (Some 1000) (Some 999) [])) = Some 999 \<and>
   getOriginalPrice None (Some (sample_product ''a'' (Some 1000) (Some 999) [])) = Some 1000 \<and>
   0 \<le> (999::rat) \<and> (999::rat) < 1000 \<and> 200 * (1000 - 999) < (1000::rat) \<and>
   hasDiscount None (Some (sample_product ''a'' (Some 1000) (Some 999) [])) \<and>
   getDiscountPercent None (Some (sample_product ''a'' (Some 1000) (Some 999) [])) = 0"
proof -
  have h: "getCurrentPrice None (Some (sample_product ''a'' (Some 1000) (Some 999) [])) = Some 999"
    "getOriginalPrice None (Some (sample_product ''a'' (Some 1000) (Some 999) [])) = Some 1000"
    by (simp_all add: getCurrentPrice_def getOriginalPrice_def pricing_field_def js_or_opt_def pd_sample_defs)
  show ?thesis using detail_zero_percent_badge[OF h] h by simp
qed

theorem card_detail_agree_witness:
  "pdPricing (sample_product ''a'' (Some 1000) (Some 800) []) = Some (sample_price (Some 1000) (Some 800)) \<and>
   pBase (sample_price (Some 1000) (Some 800)) = Some 1000 \<and> (0::rat) < 1000 \<and>
   (case pDisc (sample_price (Some 1000) (Some 800)) of Some d \<Rightarrow> d < 1000 | None \<Rightarrow> True) \<and>
   cardPrice (sample_product ''a'' (Some 1000) (Some 800) []) =
     formatPrice (getCurrentPrice None (Some (sample_product ''a'' (Some 1000) (Some 800) []))) \<and>
   cardHasDiscount (sample_product ''a'' (Some 1000) (Some 800) []) =
     hasDiscount None (Some (sample_product ''a'' (Some 1000) (Some 800) [])) \<and>
   cardDiscountPercent (sample_product ''a'' (Some 1000) (Some 800) []) =
     getDiscountPercent None (Some (sample_product ''a'' (Some 1000) (Some 800) []))"
  using card_detail_agree[of "sample_product ''a'' (Some 1000) (Some 800) []" "sample_price (Some 1000) (Some 800)" 1000]
  by (simp add: pd_sample_defs)

theorem card_detail_disagree_witness:
  "pdPricing (sample_product ''a'' (Some 1000) (Some 1200) []) = Some (sample_price (Some 1000) (Some 1200)) \<and>
   pDisc (sample_price (Some 1000) (Some 1200)) = Some 1200 \<and> (1200::rat) \<noteq> 0 \<and>
   (case pBase (sample_price (Some 1000) (Some 1200)) of Some b \<Rightarrow> 0 < b \<and> b < 1200 | None \<Rightarrow> True) \<and>
   cardPrice (sample_product ''a'' (Some 1000) (Some 1200) []) = 1000 \<and>
   formatPrice (getCurrentPrice None (Some (sample_product ''a'' (Some 1000) (Some 1200) []))) = 1200"
  using card_detail_disagree[of "sample_product ''a'' (Some 1000) (Some 1200) []" "sample_price (Some 1000) (Some 1200)" 1200]
  by (simp add: pd_sample_defs)

theorem selectLayer_first_weight_witness:
  "1 < length [sample_layer 10 50000 45000, sample_layer 10 60000 55000] \<and>
   lWeight ([sample_layer 10 50000 45000, sample_layer 10 60000 55000] ! 1) = Some 10 \<and>
   (\<exists>j\<le>1. selectLayer [sample_layer 10 50000 45000, sample_layer 10 60000 55000] 1 =
              Some ([sample_layer 10 50000 45000, sample_layer 10 60000 55000] ! j) \<and>
            lWeight ([sample_layer 10 50000 45000, sample_layer 10 60000 55000] ! j) = Some 10 \<and>
            (\<forall>k<j. lWeight ([sample_layer 10 50000 45000, sample_layer 10 60000 55000] ! k) \<noteq> Some 10)) \<and>
   selectLayer [sample_layer 10 50000 45000, sample_layer 10 60000 55000] 1 = Some (sample_layer 10 50000 45000)"
  using selectLayer_first_weight[of 1 "[sample_layer 10 50000 45000, sample_layer 10 60000 55000]" 10]
  by (simp add: sample_layer_def selectLayer_def)

end
