(* ===== verification/MainHeader.thy ===== *)
theory MainHeader
  imports Storefront Routes Users
begin

text \<open>
  The storefront header \<open>src/src/components/homepage/MainHeader.jsx\<close>: the
  search box, the user dropdown, the wishlist and cart buttons with their
  count badges, and the logo.  The header reads the cart count, the
  wishlist count and the session from the providers of \<open>Storefront\<close>, and
  its logout item calls their \<open>logout\<close>; the model passes the provider
  state in and returns the provider event as an effect.

  The search navigates to \<open>/products?q=\<close> followed by
  \<open>encodeURIComponent\<close> of the query.  A character here is one UTF-16
  code unit of the Latin-1 range, which \<open>encodeURIComponent\<close> writes as
  its UTF-8 bytes, one or two, each as \<open>%XX\<close> with upper-case hex digits.
  The page that receives the query reads it with \<open>URLSearchParams\<close>; that
  decoding (split at \<open>&\<close> and \<open>=\<close>, \<open>+\<close> as space, percent-decoding, UTF-8)
  is not code of the repository and is modelled from the URL standard.
\<close>

section \<open>encodeURIComponent\<close>

definition hex_digit :: "nat \<Rightarrow> char" where
  "hex_digit n = (if n < 10 then char_of (48 + n) else char_of (55 + n))"

definition uri_unreserved :: "char \<Rightarrow> bool" where
  "uri_unreserved c \<longleftrightarrow>
     (let n = (of_char c :: nat) in
      48 \<le> n \<and> n \<le> 57 \<or> 65 \<le> n \<and> n \<le> 90 \<or> 97 \<le> n \<and> n \<le> 122 \<or> c \<in> set ''-_.!~*'()'')"

definition pct_byte :: "nat \<Rightarrow> string" where
  "pct_byte n = [CHR ''%'', hex_digit (n div 16), hex_digit (n mod 16)]"

definition enc_char :: "char \<Rightarrow> string" where
  "enc_char c =
     (let n = (of_char c :: nat) in
      if uri_unreserved c then [c]
      else if n < 128 then pct_byte n
      else pct_byte (192 + n div 64) @ pct_byte (128 + n mod 64))"

definition encodeURIComponent :: "string \<Rightarrow> string" where
  "encodeURIComponent s = concat (map enc_char s)"

section \<open>URLSearchParams (from the URL standard)\<close>

definition hex_val :: "char \<Rightarrow> nat option" where
  "hex_val c =
     (let n = (of_char c :: nat) in
      if 48 \<le> n \<and> n \<le> 57 then Some (n - 48)
      else if 65 \<le> n \<and> n \<le> 70 then Some (n - 55)
      else if 97 \<le> n \<and> n \<le> 102 then Some (n - 87)
      else None)"

text \<open>Percent-decoding to bytes, with \<open>+\<close> as a space; a \<open>%\<close> not followed
  by two hex digits stands for itself.\<close>

fun pct_decode :: "string \<Rightarrow> nat list" where
  "pct_decode (c # h # l # rest) =
     (if c = CHR ''%'' then
        (case (hex_val h, hex_val l) of
           (Some a, Some b) \<Rightarrow> (16 * a + b) # pct_decode rest
         | _ \<Rightarrow> of_char c # pct_decode (h # l # rest))
      else if c = CHR ''+'' then 32 # pct_decode (h # l # rest)
      else of_char c # pct_decode (h # l # rest))"
| "pct_decode (c # rest) = (if c = CHR ''+'' then 32 else of_char c) # pct_decode rest"
| "pct_decode [] = []"

text \<open>UTF-8 decoding of one- and two-byte sequences into Latin-1 characters;
  anything else (a longer sequence, or a code point above U+00FF, which a
  \<^typ>\<open>char\<close> cannot hold) is \<open>None\<close>.\<close>

fun utf8_decode :: "nat list \<Rightarrow> string option" where
  "utf8_decode [] = Some []"
| "utf8_decode (b # bs) =
     (if b < 128 then map_option (\<lambda>s. char_of b # s) (utf8_decode bs)
      else if 194 \<le> b \<and> b \<le> 195 then
        (case bs of
           b2 # bs' \<Rightarrow> if 128 \<le> b2 \<and> b2 < 192
                       then map_option (\<lambda>s. char_of ((b - 192) * 64 + (b2 - 128)) # s) (utf8_decode bs')
                       else None
         | [] \<Rightarrow> None)
      else None)"

fun split_at_char :: "char \<Rightarrow> string \<Rightarrow> string list" where
  "split_at_char d [] = [[]]"
| "split_at_char d (c # cs) =
     (if c = d then [] # split_at_char d cs
      else (case split_at_char d cs of w # ws \<Rightarrow> (c # w) # ws | [] \<Rightarrow> [[c]]))"

text \<open>\<open>new URLSearchParams(search).get(k)\<close> for the query part of a URL:
  the value of the first pair named \<open>k\<close>.\<close>

definition search_param :: "string \<Rightarrow> string \<Rightarrow> string option" where
  "search_param url k =
     (let query = drop 1 (dropWhile (\<lambda>c. c \<noteq> CHR ''?'') url);
          pairs = map (\<lambda>p. (takeWhile (\<lambda>c. c \<noteq> CHR ''='') p, drop 1 (dropWhile (\<lambda>c. c \<noteq> CHR ''='') p)))
                      (split_at_char CHR ''&'' query)
      in case find (\<lambda>(n, v). utf8_decode (pct_decode n) = Some k) pairs of
           Some (n, v) \<Rightarrow> utf8_decode (pct_decode v)
         | None \<Rightarrow> None)"

definition utf8_bytes :: "char \<Rightarrow> nat list" where
  "utf8_bytes c = (let n = (of_char c :: nat) in if n < 128 then [n] else [192 + n div 64, 128 + n mod 64])"

section \<open>The header\<close>

record mainHeader =
  searchQuery :: string
  isScrolled :: bool
  showUserDropdown :: bool
  showMobileSearch :: bool

definition mainHeader_init :: mainHeader where
  "mainHeader_init = \<lparr>searchQuery = [], isScrolled = False, showUserDropdown = False, showMobileSearch = False\<rparr>"

datatype headerEvent =
    WindowScroll int
  | MouseDownOutsideDropdown
  | SearchInput string
  | SearchEnter
  | MobileSearchInput string
  | MobileSearchEnter
  | ToggleUserDropdown
  | UserAction string
  | LogoClick
  | WishlistClick
  | CartClick

text \<open>The effects: a navigation, or the \<open>logout\<close> of the providers.\<close>

datatype headerEffect = HeaderNavigate string | HeaderLogout

type_synonym headerStep = "mainHeader \<times> headerEffect list"

text \<open>\<open>handleSearch\<close>: both branches of its \<open>isOnProductsPage\<close> test navigate to
  the same URL, so the current location plays no part.  The query is
  trimmed only for the emptiness test.\<close>

definition handleSearch :: "mainHeader \<Rightarrow> headerStep" where
  "handleSearch h =
     (if js_trim (searchQuery h) \<noteq> []
      then (h\<lparr>showMobileSearch := False\<rparr>, [HeaderNavigate (''/products?q='' @ encodeURIComponent (searchQuery h))])
      else (h, []))"

definition handleUserAction :: "string \<Rightarrow> mainHeader \<Rightarrow> headerStep" where
  "handleUserAction a h =
     (h\<lparr>showUserDropdown := False\<rparr>,
      if a = ''account'' then [HeaderNavigate ''/account'']
      else if a = ''orders'' then [HeaderNavigate ''/orders'']
      else if a = ''logout'' then [HeaderLogout, HeaderNavigate ''/'']
      else if a = ''login'' then [HeaderNavigate ''/login'']
      else if a = ''signup'' then [HeaderNavigate ''/signup'']
      else [])"

text \<open>The items of the user dropdown, by the session of the providers.\<close>

definition dropdownItems :: "bool \<Rightarrow> string list" where
  "dropdownItems auth = (if auth then [''account'', ''orders'', ''logout''] else [''login'', ''signup''])"

text \<open>The step of the header under the session flag of the providers.  The
  mobile search box is rendered only while \<open>showMobileSearch\<close> holds.\<close>

fun mainHeader_step :: "bool \<Rightarrow> mainHeader \<Rightarrow> headerEvent \<Rightarrow> headerStep" where
  "mainHeader_step auth h (WindowScroll y) = (h\<lparr>isScrolled := 10 < y\<rparr>, [])"
| "mainHeader_step auth h MouseDownOutsideDropdown = (h\<lparr>showUserDropdown := False\<rparr>, [])"
| "mainHeader_step auth h (SearchInput q) = (h\<lparr>searchQuery := q\<rparr>, [])"
| "mainHeader_step auth h SearchEnter = handleSearch h"
| "mainHeader_step auth h (MobileSearchInput q) = (if showMobileSearch h then (h\<lparr>searchQuery := q\<rparr>, []) else (h, []))"
| "mainHeader_step auth h MobileSearchEnter = (if showMobileSearch h then handleSearch h else (h, []))"
| "mainHeader_step auth h ToggleUserDropdown = (h\<lparr>showUserDropdown := \<not> showUserDropdown h\<rparr>, [])"
| "mainHeader_step auth h (UserAction a) =
     (if showUserDropdown h \<and> a \<in> set (dropdownItems auth) then handleUserAction a h else (h, []))"
| "mainHeader_step auth h LogoClick = (h, [HeaderNavigate ''/''])"
| "mainHeader_step auth h WishlistClick = (h, [HeaderNavigate ''/wishlist''])"
| "mainHeader_step auth h CartClick = (h, [HeaderNavigate ''/cart''])"

text \<open>The count badges: the wishlist count as is, the cart count capped at
  \<open>9+\<close>; no badge for 0.\<close>

definition wishlistBadge :: "nat \<Rightarrow> string option" where
  "wishlistBadge n = (if 0 < n then Some (nat_str n) else None)"

definition cartBadge :: "nat \<Rightarrow> string option" where
  "cartBadge n = (if 0 < n then Some (if 9 < n then ''9+'' else nat_str n) else None)"

section \<open>Lemmas\<close>

lemma of_char_lt_256: "(of_char c :: nat) < 256"
  by (metis of_char_mod_256 mod_less_divisor zero_less_numeral)

lemma of_char_div64: "(of_char c :: nat) div 64 < 4"
  using of_char_lt_256[of c] by (simp add: div_less_iff_less_mult)

lemma hex_val_digit: "n < 16 \<Longrightarrow> hex_val (hex_digit n) = Some n"
  by (simp add: hex_digit_def hex_val_def Let_def)

lemma hex_digit_not_special: "n < 16 \<Longrightarrow> hex_digit n \<noteq> CHR ''&'' \<and> hex_digit n \<noteq> CHR ''%''"
proof -
  assume "n < 16"
  then have "(of_char (hex_digit n) :: nat) \<noteq> 38 \<and> (of_char (hex_digit n) :: nat) \<noteq> 37"
    by (simp add: hex_digit_def)
  then show ?thesis by auto
qed

lemma pct_decode_byte: "n < 256 \<Longrightarrow> pct_decode (pct_byte n @ rest) = n # pct_decode rest"
  by (simp add: pct_byte_def hex_val_digit)

lemma pct_decode_plain:
  "c \<noteq> CHR ''%'' \<Longrightarrow> c \<noteq> CHR ''+'' \<Longrightarrow> pct_decode (c # rest) = of_char c # pct_decode rest"
  by (cases rest rule: pct_decode.cases) auto

lemma unreserved_not_special:
  "uri_unreserved c \<Longrightarrow> c \<noteq> CHR ''%'' \<and> c \<noteq> CHR ''+'' \<and> c \<noteq> CHR ''&''"
  by (auto simp: uri_unreserved_def Let_def)

lemma unreserved_ascii: "uri_unreserved c \<Longrightarrow> (of_char c :: nat) < 128"
  by (auto simp: uri_unreserved_def Let_def)

lemma pct_decode_enc_char: "pct_decode (enc_char c @ rest) = utf8_bytes c @ pct_decode rest"
proof -
  have lt: "(of_char c :: nat) < 256" by (rule of_char_lt_256)
  then have "192 + of_char c div 64 < (256::nat)" "128 + of_char c mod 64 < (256::nat)"
    using of_char_div64[of c] by auto
  then show ?thesis using lt unreserved_not_special[of c] unreserved_ascii[of c]
    by (auto simp: enc_char_def utf8_bytes_def Let_def pct_decode_byte pct_decode_plain)
qed

lemma pct_decode_encode: "pct_decode (encodeURIComponent s) = concat (map utf8_bytes s)"
proof (induction s)
  case (Cons c s)
  then show ?case using pct_decode_enc_char[of c "encodeURIComponent s"]
    by (simp add: encodeURIComponent_def)
qed (simp add: encodeURIComponent_def)

lemma utf8_decode_bytes: "utf8_decode (utf8_bytes c @ bs) = map_option (\<lambda>s. c # s) (utf8_decode bs)"
proof -
  have lt: "(of_char c :: nat) < 256" by (rule of_char_lt_256)
  show ?thesis
  proof (cases "(of_char c :: nat) < 128")
    case True
    then show ?thesis by (simp add: utf8_bytes_def)
  next
    case False
    then have "194 \<le> 192 + (of_char c :: nat) div 64" "192 + (of_char c :: nat) div 64 \<le> 195"
      using lt of_char_div64[of c] by auto
    moreover have "(192 + (of_char c :: nat) div 64 - 192) * 64 + (128 + of_char c mod 64 - 128) = of_char c"
      by simp
    ultimately show ?thesis using False by (simp add: utf8_bytes_def Let_def)
  qed
qed

lemma utf8_decode_concat: "utf8_decode (concat (map utf8_bytes s)) = Some s"
  by (induction s) (simp_all add: utf8_decode_bytes)

lemma amp_not_in_pct_byte: "n < 256 \<Longrightarrow> CHR ''&'' \<notin> set (pct_byte n)"
proof -
  assume "n < 256"
  then have "n div 16 < 16" "n mod 16 < 16" by auto
  then have "hex_digit (n div 16) \<noteq> CHR ''&''" "hex_digit (n mod 16) \<noteq> CHR ''&''"
    using hex_digit_not_special by blast+
  then show ?thesis by (auto simp: pct_byte_def)
qed

lemma enc_no_amp: "CHR ''&'' \<notin> set (encodeURIComponent s)"
proof -
  have "CHR ''&'' \<notin> set (enc_char c)" for c
  proof -
    have "(of_char c :: nat) < 256" by (rule of_char_lt_256)
    moreover have "192 + (of_char c :: nat) div 64 < 256" "(128 + (of_char c :: nat) mod 64) < 256"
      using of_char_div64[of c] by auto
    ultimately show ?thesis using unreserved_not_special[of c] amp_not_in_pct_byte
      by (auto simp: enc_char_def Let_def)
  qed
  then show ?thesis by (simp add: encodeURIComponent_def)
qed

lemma split_at_char_nodelim: "d \<notin> set xs \<Longrightarrow> split_at_char d xs = [xs]"
  by (induction xs) auto

lemma search_param_roundtrip: "search_param (''/products?q='' @ encodeURIComponent q) ''q'' = Some q"
proof -
  have "char_of (113::nat) = CHR ''q''" by code_simp
  then show ?thesis using enc_no_amp[of q]
    by (simp add: search_param_def split_at_char_nodelim pct_decode_encode utf8_decode_concat)
qed

lemma navigateTo_search: "navigateTo (''/products?q='' @ u) = Some (ProductsListingPage, [])"
proof -
  have "pathname_of (''/products?q='' @ u) = join_path [''products'']"
    by (simp add: pathname_of_def join_path_def)
  then have "navigateTo (''/products?q='' @ u) = navigateTo (join_path [''products''])"
    by (simp only: navigateTo_def url_segment_join url_segment_lits) (simp add: url_segment_join)
  then show ?thesis by (simp add: navigateTo_join routeTable_eq)
qed

section \<open>Properties\<close>

text \<open>C15. The header's search round-trips: for a query that is not blank, it
  navigates to a URL that the router sends to the products listing page,
  and from which \<open>URLSearchParams\<close> reads back exactly the query typed,
  surrounding spaces included.\<close>

theorem header_search_roundtrip:
  assumes "js_trim (searchQuery h) \<noteq> []"
  shows "\<exists>u. mainHeader_step auth h SearchEnter = (h\<lparr>showMobileSearch := False\<rparr>, [HeaderNavigate u]) \<and>
             navigateTo u = Some (ProductsListingPage, []) \<and> search_param u ''q'' = Some (searchQuery h)"
proof -
  let ?u = "''/products?q='' @ encodeURIComponent (searchQuery h)"
  have "navigateTo ?u = Some (ProductsListingPage, [])" by (rule navigateTo_search)
  moreover have "search_param ?u ''q'' = Some (searchQuery h)" by (rule search_param_roundtrip)
  moreover have "mainHeader_step auth h SearchEnter = (h\<lparr>showMobileSearch := False\<rparr>, [HeaderNavigate ?u])"
    using assms by (simp add: handleSearch_def)
  ultimately show ?thesis by blast
qed


text \<open>C34. Five of the header's buttons lead nowhere: the route table has no
  \<open>/wishlist\<close>, \<open>/cart\<close>, \<open>/account\<close>, \<open>/orders\<close> or \<open>/signup\<close>, so
  each of them renders the catch-all page.\<close>

theorem header_dead_links:
  "list_all (\<lambda>p. map_option fst (navigateTo p) = Some NotFound)
     [''/wishlist'', ''/cart'', ''/account'', ''/orders'', ''/signup''] \<and>
   snd (mainHeader_step auth h WishlistClick) = [HeaderNavigate ''/wishlist''] \<and>
   snd (mainHeader_step auth h CartClick) = [HeaderNavigate ''/cart'']"
proof -
  have j: "p = join_path [w] \<Longrightarrow> url_segment w \<Longrightarrow> navigateTo p = first_match routeTable [w]" for p w
    by (simp add: navigateTo_join)
  have "navigateTo ''/wishlist'' = first_match routeTable [''wishlist'']"
    "navigateTo ''/cart'' = first_match routeTable [''cart'']"
    "navigateTo ''/account'' = first_match routeTable [''account'']"
    "navigateTo ''/orders'' = first_match routeTable [''orders'']"
    "navigateTo ''/signup'' = first_match routeTable [''signup'']"
    by (rule j; simp add: join_path_def url_segment_def)+
  then show ?thesis by (simp add: routeTable_eq js_lower_char_def)
qed

text \<open>C40. Logging out from the header signs the providers out and goes home,
  but the cart and wishlist badges keep the previous user's counts.\<close>

theorem header_logout_keeps_badges:
  assumes "showUserDropdown h"
  shows "mainHeader_step True h (UserAction ''logout'') = (h\<lparr>showUserDropdown := False\<rparr>, [HeaderLogout, HeaderNavigate ''/''])
         \<and> \<not> isAuthenticated (fst (storefront_step st Logout))
         \<and> cartBadge (cartCount (fst (storefront_step st Logout))) = cartBadge (cartCount st)
         \<and> wishlistBadge (wishlistCount (fst (storefront_step st Logout))) = wishlistBadge (wishlistCount st)"
  using assms by (simp add: handleUserAction_def dropdownItems_def logout_def)

section \<open>Witnesses\<close>

theorem header_search_roundtrip_witness:
  "js_trim (searchQuery (mainHeader_init\<lparr>searchQuery := '' gold ring''\<rparr>)) \<noteq> [] \<and>
   (\<exists>u. mainHeader_step False (mainHeader_init\<lparr>searchQuery := '' gold ring''\<rparr>) SearchEnter =
          (mainHeader_init\<lparr>searchQuery := '' gold ring'', showMobileSearch := False\<rparr>, [HeaderNavigate u]) \<and>
        navigateTo u = Some (ProductsListingPage, []) \<and> search_param u ''q'' = Some '' gold ring'')"
proof -
  have t: "js_trim (searchQuery (mainHeader_init\<lparr>searchQuery := '' gold ring''\<rparr>)) \<noteq> []"
    by (simp add: mainHeader_init_def js_trim_def js_is_space_def)
  show ?thesis using header_search_roundtrip[OF t, of False] t by (simp add: mainHeader_init_def)
qed

theorem header_logout_keeps_badges_witness:
  "showUserDropdown (mainHeader_init\<lparr>showUserDropdown := True\<rparr>) \<and>
   (let st = (storefront_init \<lparr>authToken = Some ''t'', userData = Some ''u''\<rparr> :: (nat, string) storefront)
              \<lparr>cartItems := [1, 2], cartCount := 2\<rparr> in
    mainHeader_step True (mainHeader_init\<lparr>showUserDropdown := True\<rparr>) (UserAction ''logout'') =
      (mainHeader_init, [HeaderLogout, HeaderNavigate ''/'']) \<and>
    \<not> isAuthenticated (fst (storefront_step st Logout)) \<and>
    cartBadge (cartCount (fst (storefront_step st Logout))) = Some ''2'' \<and>
    wishlistBadge (wishlistCount (fst (storefront_step st Logout))) = wishlistBadge (wishlistCount st))"
proof -
  let ?st = "(storefront_init \<lparr>authToken = Some ''t'', userData = Some ''u''\<rparr> :: (nat, string) storefront)
              \<lparr>cartItems := [1, 2], cartCount := 2\<rparr>"
  have d: "showUserDropdown (mainHeader_init\<lparr>showUserDropdown := True\<rparr>)" by simp
  have "cartBadge 2 = Some ''2''" by code_simp
  then show ?thesis using header_logout_keeps_badges[OF d, of ?st] by (simp add: mainHeader_init_def Let_def)
qed

end
