(* ===== verification/Spec2Isabelle.thy ===== *)
theory Spec2Isabelle
  imports CategoriesTab SubcategoriesTab ProductsTab Routes Users Storefront AdminAuth ReviewsCarousel ReelsSection Navigation ProductDetail MainHeader
begin

text \<open>
  \<^bold>\<open>A verification library for the Nitai Gems storefront and admin console.\<close>

  The repository (\<open>src/src/\<close>) is a React single-page application.  Its
  storefront has a home page (hero banners, reels, reviews, category
  navigation), product cards, a product detail page, and cart and wishlist
  contexts.  Its admin console has tabs that create, edit and delete
  categories, subcategories and products through a REST backend, and a
  users page.  All persistence lives in the backend.  The client keeps
  fetched copies of the collections, derives views from them, and turns
  user events into requests.  The development models that client logic as
  executable HOL functions, one theory per component, and proves what the
  code guarantees and where it does not.

  \<^bold>\<open>Modelling conventions.\<close>
  \<^item> A component's \<open>useState\<close> hooks form a \<^theory_text>\<open>record\<close>.  Its user
    actions and backend answers form an event \<^theory_text>\<open>datatype\<close>.  A step
    function maps a state and an event to the next state and the requests
    or effects issued (\<open>run_steps\<close> of \<open>Prelude\<close> runs a list of events).
    Components without effects (the carousels) are folded with \<open>foldl\<close>.
  \<^item> An \<open>await\<close> splits a handler in two: the request it sends is recorded
    as pending, and a response event naming that entry runs the rest.
    Responses may therefore arrive in any order.
  \<^item> A control the render does not show is an event that changes nothing.
    An effect that keeps derived state in sync is run after each step.
  \<^item> Errors are values.  A backend answer is an \<open>'a http_response\<close>, and
    \<open>handleResponse\<close> returns \<open>string + 'a\<close> (\<open>Inl\<close> holds the thrown message).
  \<^item> JavaScript values keep their semantics where a property depends on
    them.  \<open>toLowerCase\<close> works on the Latin-1 range.  \<open>undefined\<close> is
    printed as such in templates, and \<open>null\<close> as \<open>Bearer null\<close> in headers.
    A carousel index is \<open>jsnum\<close>: an integer or \<open>NaN\<close>, with truncating
    \<open>%\<close> and \<open>x % 0 = NaN\<close>.
  \<^item> Code outside the repository that a property depends on is modelled
    from its definition and marked as such in the manifest.  This covers
    the React Router 6 ranking and matching in \<open>Routes\<close>, the RFC 4180
    CSV reader in \<open>Users\<close>, and the \<open>URLSearchParams\<close> decoding in
    \<open>MainHeader\<close>.
  \<^item> Timers are events.  A pending timeout or interval is an entry of the
    state, and its firing is an event that may come at any later point.
  \<^item> A JavaScript object used as a dictionary is a map, read with
    \<open>js_obj_get\<close>, which also finds the properties every object inherits.

  \<^bold>\<open>Theories.\<close>
  \<^item> \<open>Prelude\<close>: JavaScript string primitives, \<open>run_steps\<close> and its invariant
    rule \<open>run_steps_inv\<close>.
  \<^item> \<open>Slug\<close>: \<open>generateSlug\<close> (identical in the three admin tabs).  Its
    stages are lower-casing, collapsing each run of non-alphanumeric
    characters (a \<^theory_text>\<open>function\<close> terminating by \<open>length\<close>), and stripping
    hyphens at both ends.  The lemmas show that a slug is well formed.
    They show that the pipeline equals the reference ``alphanumeric words
    joined by hyphens'', that it is idempotent, and when it is empty.
  \<^item> \<open>Catalog\<close>: the catalog records, the search filters, the name lookups
    and the subcategory options, each equal to a filter specification.
  \<^item> \<open>AdminApi\<close>: responses, \<open>handleResponse\<close>, requests and pending entries.
  \<^item> \<open>CategoriesTab\<close>, \<open>SubcategoriesTab\<close>, \<open>ProductsTab\<close>: the admin forms
    as step functions.  The handlers of the last two are prefixed \<open>sub_\<close>
    and \<open>prod_\<close>.  Lemmas cover the modal invariant by induction over
    \<open>run_steps\<close>, the name-to-slug synchronisation, the submit guards and
    requests, the success and failure paths, double submission, and late
    responses.
  \<^item> \<open>Routes\<close>: the route table of \<open>App.jsx\<close> and the link builders of
    \<open>Navigation.jsx\<close>, \<open>CategoryCardsSection.jsx\<close>, \<open>ProductCard.jsx\<close> and
    \<open>ProductDetailPage.jsx\<close>.  The lemmas are round trips (a link reaches
    the intended page with the intended parameters) and show the shadowed
    product route.
  \<^item> \<open>Users\<close>: the users page, its search effect and the CSV export.  The
    export is proved to round-trip through the CSV reader for every cell
    without a bare line feed.  A bare line feed breaks the row, and that is
    proved too.
  \<^item> \<open>Storefront\<close>: the cart, wishlist and auth providers of
    \<open>CartContext.jsx\<close> over their shared storage.  Lemmas: the counts equal
    the list lengths (an invariant); the cart refines a mirror of the
    server, changing only by a snapshot or a confirmed clear; the requests
    sent without a token; login and logout.
  \<^item> \<open>AdminAuth\<close>: \<open>checkAuth\<close>, \<open>login\<close> and \<open>logout\<close> of \<open>AuthContext.jsx\<close>.
  \<^item> \<open>HeroCarousel\<close>, \<open>ReviewsCarousel\<close>, \<open>ReelsSection\<close>: the home page
    carousels.  Lemmas: the index stays in bounds once data has loaded.
    An arrow key pressed before loading makes the hero index \<open>NaN\<close> and
    crashes the render.  The reviews window shows three reviews
    cyclically.  In the reels, the progress interval of a reel of duration
    \<open>d > 0\<close> advances after exactly \<open>\<lceil>10 d\<rceil> + 1\<close> ticks of 100 ms.  This is
    the termination argument of the timer loop: each tick adds
    \<open>10 / d\<close> percent, and the bar is checked against 100.
  \<^item> \<open>Navigation\<close>: the category menu of \<open>Navigation.jsx\<close>, with hover
    timeouts, the subcategory cache and the pointer position in its state.
    Lemmas: an invariant of hovering and timers over all interleavings; the
    cache; the links reach the listing page (through \<open>Routes\<close>); the
    mobile sidebar never opens; a category slug \<open>constructor\<close> crashes the
    render.
  \<^item> \<open>ProductDetail\<close>: the product detail page and the product card.
    Lemmas: the prices of card and page agree on ordinary products and
    where they differ; the discount percentage is bounded; the layer
    select; out-of-order answers and a stale selected layer.
  \<^item> \<open>MainHeader\<close>: the storefront header over the \<open>Storefront\<close>
    providers.  Lemmas: the search round-trips through
    \<open>encodeURIComponent\<close> and \<open>URLSearchParams\<close>; the badges count the
    items; several buttons lead to the catch-all route; logout keeps the
    badges.
  \<^item> This theory: properties spanning components.  A slug made by the
    admin forms yields links that reach the product page.  The users page
    sends the token the admin login stored.  A category the admin names
    ``Constructor'' crashes the storefront menu.

  \<^bold>\<open>Bounds.\<close>  No fuel is used.  Every loop of the code is a list
  recursion (the CSV reader is a \<open>fold\<close> over the characters) or a timer
  driven by events.  For timers, the number of ticks needed is part of the
  statement.

  \<^bold>\<open>Not modelled.\<close>
  \<^item> Rendering and styling, and the static sections of the home page
    (footer, badges, banners without state).
  \<^item> Video playback itself: the player's events are inputs.
  \<^item> The backend: only its responses enter the model, as inputs.
  \<^item> \<open>VideoModal.jsx\<close>, which no file imports.
  \<^item> \<open>CategoryCardsSection.jsx\<close> beyond the link of its cards, and the
    image gallery, share button and markup of the detail page.
  \<^item> The pages \<open>ProductsListingPage\<close>, \<open>Login\<close>, \<open>Coupons\<close>, \<open>NotFound\<close>
    and \<open>ProtectedRoute\<close>, which \<open>App.jsx\<close> imports but which are not
    part of the sources.
\<close>

section \<open>Properties spanning components\<close>

lemma valid_slug_url_segment: "valid_slug s \<Longrightarrow> s \<noteq> [] \<Longrightarrow> url_segment s"
  by (auto simp: valid_slug_def url_segment_def is_slug_char_def list_all_iff)

lemma generateSlug_url_segment: "generateSlug n \<noteq> [] \<Longrightarrow> url_segment (generateSlug n)"
  unfolding generateSlug_def by (rule valid_slug_url_segment[OF strip_collapse_valid])

text \<open>Slugs generated by the admin forms from non-empty names make working
  storefront links: the menu link of the subcategory reaches its listing
  page, and the product card there links to the detail page of the product,
  which receives the three slugs as its parameters.\<close>

theorem generated_slugs_reach_product:
  "generateSlug a \<noteq> [] \<Longrightarrow> generateSlug b \<noteq> [] \<Longrightarrow> generateSlug c \<noteq> [] \<Longrightarrow>
   (case navigateTo (subcategoryLink (generateSlug a) (generateSlug b)) of
      Some (ProductsListingPage, bs) \<Rightarrow>
        navigateTo (getProductUrl bs (generateSlug c)) =
          Some (ProductDetailPage, [(''categorySlug'', generateSlug a), (''subCategorySlug'', generateSlug b),
                                    (''slug'', generateSlug c)])
    | _ \<Rightarrow> False)"
  using generateSlug_url_segment[of a] generateSlug_url_segment[of b] generateSlug_url_segment[of c]
  by (simp add: link_paths getProductUrl_paths navigateTo_join routeTable_eq url_segment_nonempty)

lemma slug_values:
  "generateSlug ''Gold Chains'' = ''gold-chains''" "generateSlug ''Rope Chains'' = ''rope-chains''"
  "generateSlug ''22K Rope Chain!'' = ''22k-rope-chain''" "generateSlug ''Constructor'' = ''constructor''"
  by code_simp+

text \<open>The users page authenticates its request with the token the admin
  login stored; after a logout it still sends its request, with the header
  \<open>Bearer null\<close>.\<close>

theorem admin_session_users_request:
  "usersPage_mount (adminToken (adminLogin t u s)) = (usersPage_init, [FetchUsersWithCarts (''Bearer '' @ t)]) \<and>
   usersPage_mount (adminToken (fst (adminLogout s))) = (usersPage_init, [FetchUsersWithCarts ''Bearer null''])"
  by (simp add: usersPage_mount_def adminLogin_def adminLogout_def js_bearer_def)


subsection \<open>Witnesses\<close>

theorem generated_slugs_reach_product_witness:
  "generateSlug ''Gold Chains'' \<noteq> [] \<and> generateSlug ''Rope Chains'' \<noteq> [] \<and> generateSlug ''22K Rope Chain!'' \<noteq> [] \<and>
   navigateTo (getProductUrl [(''categorySlug'', ''gold-chains''), (''subCategorySlug'', ''rope-chains'')] ''22k-rope-chain'') =
     Some (ProductDetailPage, [(''categorySlug'', ''gold-chains''), (''subCategorySlug'', ''rope-chains''), (''slug'', ''22k-rope-chain'')])"
  using generated_slugs_reach_product[of "''Gold Chains''" "''Rope Chains''" "''22K Rope Chain!''"]
  by (simp add: slug_values link_paths navigateTo_join routeTable_eq url_segment_def split: option.splits page.splits)
end
